theory Spec2Isabelle
  imports Main "HOL-Library.Word" "HOL-Library.Finite_Map"
begin

section \<open>The consensus diff engine of modules/consensus/diffs.go\<close>

text \<open>
  A shallow embedding of \<^verbatim>\<open>modules/consensus/diffs.go\<close>. Every method of
  \<^verbatim>\<open>*ConsensusSet\<close> becomes a function that takes the consensus set and returns
  either the panic it raises (\<open>Inl\<close>) or the consensus set it leaves behind (\<open>Inr\<close>).
  The package constants \<^verbatim>\<open>build.DEBUG\<close> and \<^verbatim>\<open>types.MaturityDelay\<close> are
  declared outside the file and are taken as the parameter \<open>b\<close> of every function.
\<close>

subsection \<open>Values\<close>

text \<open>
  Modelled from the spec: the types of the packages \<^verbatim>\<open>modules\<close> and \<^verbatim>\<open>types\<close>
  that diffs.go uses; their declarations are in other files. The fields are those that
  diffs.go reads and that the data model of the specification lists (a field that several
  types have carries the type as a prefix). \<^verbatim>\<open>modules.DiffDirection\<close> has the two
  values \<^verbatim>\<open>DiffApply\<close> and \<^verbatim>\<open>DiffRevert\<close>. Identifiers are hashes that the file
  only compares and uses as keys; heights are \<^verbatim>\<open>uint64\<close>; a \<^verbatim>\<open>types.Currency\<close>
  is an unbounded non-negative integer compared with \<^verbatim>\<open>Cmp\<close>.
\<close>

datatype DiffDirection = DiffApply | DiffRevert

type_synonym BlockHeight = "64 word"
type_synonym Currency = nat
type_synonym BlockID = nat
type_synonym SiacoinOutputID = nat
type_synonym FileContractID = nat
type_synonym SiafundOutputID = nat

record build =
  DEBUG :: bool
  MaturityDelay :: BlockHeight

record SiacoinOutput =
  sco_Value :: Currency
  sco_UnlockHash :: nat

record SiafundOutput =
  sfo_Value :: Currency
  sfo_UnlockHash :: nat
  sfo_ClaimStart :: Currency

record FileContract =
  Payout :: Currency
  WindowStart :: BlockHeight
  WindowEnd :: BlockHeight

record SiacoinOutputDiff =
  scod_Direction :: DiffDirection
  scod_ID :: SiacoinOutputID
  scod_SiacoinOutput :: SiacoinOutput

record FileContractDiff =
  fcd_Direction :: DiffDirection
  fcd_ID :: FileContractID
  fcd_FileContract :: FileContract

record SiafundOutputDiff =
  sfod_Direction :: DiffDirection
  sfod_ID :: SiafundOutputID
  sfod_SiafundOutput :: SiafundOutput

record DelayedSiacoinOutputDiff =
  dscod_Direction :: DiffDirection
  dscod_ID :: SiacoinOutputID
  dscod_SiacoinOutput :: SiacoinOutput
  dscod_MaturityHeight :: BlockHeight

record SiafundPoolDiff =
  sfpd_Direction :: DiffDirection
  sfpd_Previous :: Currency
  sfpd_Adjusted :: Currency

text \<open>
  The errors declared at the top of diffs.go, followed by the failures that come from
  outside the file: a write through a nil Go map, an access to a bucket or an item the
  store does not hold, an error reported by the storage layer, and the error of a
  transaction that does not validate.
\<close>

datatype error =
    errApplySiafundPoolDiffMismatch
  | errBadCommitSiacoinOutputDiff
  | errBadCommitFileContractDiff
  | errBadCommitSiafundOutputDiff
  | errBadCommitDelayedSiacoinOutputDiff
  | errBadExpirationPointer
  | errBadMaturityHeight
  | errCreatingExistingUpcomingMap
  | errDeletingNonEmptyDelayedMap
  | errDiffsNotGenerated
  | errExistingFileContractExpiration
  | errInvalidSuccessor
  | errNegativePoolAdjustment
  | errNonApplySiafundPoolDiff
  | errRegenerateDiffs
  | errRevertSiafundPoolDiffMismatch
  | errWrongAppliedDiffSet
  | errWrongRevertDiffSet
  | errNilMapAssignment
  | errNilBucket
  | errBucketExists
  | errNilItem
  | errStorage nat
  | errInvalidTransaction nat

text \<open>
  Modelled from the spec: the block and the processed block, declared in other files, with
  the fields that diffs.go reads or writes. \<^verbatim>\<open>pb.Block.ID()\<close>, the hash of the block,
  is \<open>blk_ID (pb_Block pb)\<close>; the transactions of a block are of any type \<open>'txn\<close>, since
  diffs.go only hands them to \<^verbatim>\<open>validTransaction\<close> and \<^verbatim>\<open>applyTransaction\<close>.
\<close>

record 'txn Block =
  blk_ID :: BlockID
  Transactions :: "'txn list"

record 'txn processedBlock =
  pb_Block :: "'txn Block"
  Height :: BlockHeight
  Parent :: BlockID
  DiffsGenerated :: bool
  SiacoinOutputDiffs :: "SiacoinOutputDiff list"
  FileContractDiffs :: "FileContractDiff list"
  SiafundOutputDiffs :: "SiafundOutputDiff list"
  DelayedSiacoinOutputDiffs :: "DelayedSiacoinOutputDiff list"
  SiafundPoolDiffs :: "SiafundPoolDiff list"
  ConsensusSetHash :: nat

subsection \<open>The database\<close>

text \<open>
  Modelled from the spec: the type \<^verbatim>\<open>setDB\<close> behind \<^verbatim>\<open>cs.db\<close> and its
  methods; diffs.go only calls them. The spec's StateStore holds the tables of its data
  model (coin outputs, file contracts, siafund outputs, delayed coin outputs in one bucket
  per maturity height, file-contract expirations in one bucket per window end), the
  current path as a stack of block ids and the map of processed blocks, with the
  primitive operations insert, delete, lookup, exists and size-of-bucket. The sanity
  contracts the spec lists for the store are the debug checks that diffs.go makes before
  it calls a primitive; they are modelled where the source has them, in the callers.
  A primitive on a table is the plain map operation. A primitive that writes into a
  bucket that does not exist, creates a bucket that exists or deletes one that does not
  fails with the panic of the store. The primitives that return an error in the source
  (\<^verbatim>\<open>pushPath\<close>, \<^verbatim>\<open>popPath\<close>, \<^verbatim>\<open>rmBlockMap\<close>, \<^verbatim>\<open>addBlockMap\<close>)
  return the error the storage layer reports for that operation, if any (field
  \<open>ioErr\<close>), and leave the database as it was in that case.
\<close>

datatype storageOp = OpPushPath | OpPopPath | OpRmBlockMap | OpAddBlockMap

record 'txn setDB =
  siacoinOutputs :: "SiacoinOutputID \<rightharpoonup> SiacoinOutput"
  fileContracts :: "FileContractID \<rightharpoonup> FileContract"
  siafundOutputs :: "SiafundOutputID \<rightharpoonup> SiafundOutput"
  delayedSiacoinOutputs :: "BlockHeight \<rightharpoonup> (SiacoinOutputID, SiacoinOutput) fmap"
  fcExpirations :: "BlockHeight \<rightharpoonup> FileContractID set"
  path :: "BlockID list"
  blockMap :: "BlockID \<rightharpoonup> 'txn processedBlock"
  ioErr :: "storageOp \<Rightarrow> error option"

definition inSiacoinOutputs :: "'txn setDB \<Rightarrow> SiacoinOutputID \<Rightarrow> bool" where
  "inSiacoinOutputs d i = (siacoinOutputs d i \<noteq> None)"

definition addSiacoinOutputs :: "'txn setDB \<Rightarrow> SiacoinOutputID \<Rightarrow> SiacoinOutput \<Rightarrow> 'txn setDB" where
  "addSiacoinOutputs d i sco = d\<lparr>siacoinOutputs := (siacoinOutputs d)(i \<mapsto> sco)\<rparr>"

definition rmSiacoinOutputs :: "'txn setDB \<Rightarrow> SiacoinOutputID \<Rightarrow> 'txn setDB" where
  "rmSiacoinOutputs d i = d\<lparr>siacoinOutputs := (siacoinOutputs d)(i := None)\<rparr>"

definition inFileContracts :: "'txn setDB \<Rightarrow> FileContractID \<Rightarrow> bool" where
  "inFileContracts d i = (fileContracts d i \<noteq> None)"

definition addFileContracts :: "'txn setDB \<Rightarrow> FileContractID \<Rightarrow> FileContract \<Rightarrow> 'txn setDB" where
  "addFileContracts d i fc = d\<lparr>fileContracts := (fileContracts d)(i \<mapsto> fc)\<rparr>"

definition rmFileContracts :: "'txn setDB \<Rightarrow> FileContractID \<Rightarrow> 'txn setDB" where
  "rmFileContracts d i = d\<lparr>fileContracts := (fileContracts d)(i := None)\<rparr>"

definition inSiafundOutputs :: "'txn setDB \<Rightarrow> SiafundOutputID \<Rightarrow> bool" where
  "inSiafundOutputs d i = (siafundOutputs d i \<noteq> None)"

definition addSiafundOutputs :: "'txn setDB \<Rightarrow> SiafundOutputID \<Rightarrow> SiafundOutput \<Rightarrow> 'txn setDB" where
  "addSiafundOutputs d i sfo = d\<lparr>siafundOutputs := (siafundOutputs d)(i \<mapsto> sfo)\<rparr>"

definition rmSiafundOutputs :: "'txn setDB \<Rightarrow> SiafundOutputID \<Rightarrow> 'txn setDB" where
  "rmSiafundOutputs d i = d\<lparr>siafundOutputs := (siafundOutputs d)(i := None)\<rparr>"

definition inDelayedSiacoinOutputs :: "'txn setDB \<Rightarrow> BlockHeight \<Rightarrow> bool" where
  "inDelayedSiacoinOutputs d h = (delayedSiacoinOutputs d h \<noteq> None)"

definition inDelayedSiacoinOutputsHeight :: "'txn setDB \<Rightarrow> BlockHeight \<Rightarrow> SiacoinOutputID \<Rightarrow> bool" where
  "inDelayedSiacoinOutputsHeight d h i =
     (case delayedSiacoinOutputs d h of None \<Rightarrow> False | Some m \<Rightarrow> fmlookup m i \<noteq> None)"

definition lenDelayedSiacoinOutputsHeight :: "'txn setDB \<Rightarrow> BlockHeight \<Rightarrow> nat" where
  "lenDelayedSiacoinOutputsHeight d h =
     (case delayedSiacoinOutputs d h of None \<Rightarrow> 0 | Some m \<Rightarrow> fcard (fmdom m))"

definition addDelayedSiacoinOutputs :: "'txn setDB \<Rightarrow> BlockHeight \<Rightarrow> error + 'txn setDB" where
  "addDelayedSiacoinOutputs d h =
     (case delayedSiacoinOutputs d h of
        Some m \<Rightarrow> Inl errBucketExists
      | None \<Rightarrow> Inr (d\<lparr>delayedSiacoinOutputs := (delayedSiacoinOutputs d)(h \<mapsto> fmempty)\<rparr>))"

definition rmDelayedSiacoinOutputs :: "'txn setDB \<Rightarrow> BlockHeight \<Rightarrow> error + 'txn setDB" where
  "rmDelayedSiacoinOutputs d h =
     (case delayedSiacoinOutputs d h of
        None \<Rightarrow> Inl errNilBucket
      | Some m \<Rightarrow> Inr (d\<lparr>delayedSiacoinOutputs := (delayedSiacoinOutputs d)(h := None)\<rparr>))"

definition addDelayedSiacoinOutputsHeight ::
  "'txn setDB \<Rightarrow> BlockHeight \<Rightarrow> SiacoinOutputID \<Rightarrow> SiacoinOutput \<Rightarrow> error + 'txn setDB" where
  "addDelayedSiacoinOutputsHeight d h i sco =
     (case delayedSiacoinOutputs d h of
        None \<Rightarrow> Inl errNilBucket
      | Some m \<Rightarrow> Inr (d\<lparr>delayedSiacoinOutputs := (delayedSiacoinOutputs d)(h \<mapsto> fmupd i sco m)\<rparr>))"

definition rmDelayedSiacoinOutputsHeight ::
  "'txn setDB \<Rightarrow> BlockHeight \<Rightarrow> SiacoinOutputID \<Rightarrow> error + 'txn setDB" where
  "rmDelayedSiacoinOutputsHeight d h i =
     (case delayedSiacoinOutputs d h of
        None \<Rightarrow> Inl errNilBucket
      | Some m \<Rightarrow> Inr (d\<lparr>delayedSiacoinOutputs := (delayedSiacoinOutputs d)(h \<mapsto> fmdrop i m)\<rparr>))"

definition inFCExpirations :: "'txn setDB \<Rightarrow> BlockHeight \<Rightarrow> bool" where
  "inFCExpirations d h = (fcExpirations d h \<noteq> None)"

definition inFCExpirationsHeight :: "'txn setDB \<Rightarrow> BlockHeight \<Rightarrow> FileContractID \<Rightarrow> bool" where
  "inFCExpirationsHeight d h i =
     (case fcExpirations d h of None \<Rightarrow> False | Some s \<Rightarrow> i \<in> s)"

definition addFCExpirations :: "'txn setDB \<Rightarrow> BlockHeight \<Rightarrow> error + 'txn setDB" where
  "addFCExpirations d h =
     (case fcExpirations d h of
        Some s \<Rightarrow> Inl errBucketExists
      | None \<Rightarrow> Inr (d\<lparr>fcExpirations := (fcExpirations d)(h \<mapsto> {})\<rparr>))"

definition addFCExpirationsHeight :: "'txn setDB \<Rightarrow> BlockHeight \<Rightarrow> FileContractID \<Rightarrow> error + 'txn setDB" where
  "addFCExpirationsHeight d h i =
     (case fcExpirations d h of
        None \<Rightarrow> Inl errNilBucket
      | Some s \<Rightarrow> Inr (d\<lparr>fcExpirations := (fcExpirations d)(h \<mapsto> insert i s)\<rparr>))"

definition rmFCExpirationsHeight :: "'txn setDB \<Rightarrow> BlockHeight \<Rightarrow> FileContractID \<Rightarrow> error + 'txn setDB" where
  "rmFCExpirationsHeight d h i =
     (case fcExpirations d h of
        None \<Rightarrow> Inl errNilBucket
      | Some s \<Rightarrow> Inr (d\<lparr>fcExpirations := (fcExpirations d)(h \<mapsto> s - {i})\<rparr>))"

definition pushPath :: "'txn setDB \<Rightarrow> BlockID \<Rightarrow> error + 'txn setDB" where
  "pushPath d i =
     (case ioErr d OpPushPath of
        Some e \<Rightarrow> Inl e
      | None \<Rightarrow> Inr (d\<lparr>path := path d @ [i]\<rparr>))"

definition popPath :: "'txn setDB \<Rightarrow> error + 'txn setDB" where
  "popPath d =
     (case ioErr d OpPopPath of
        Some e \<Rightarrow> Inl e
      | None \<Rightarrow> (if path d = [] then Inl errNilItem else Inr (d\<lparr>path := butlast (path d)\<rparr>)))"

definition getBlockMap :: "'txn setDB \<Rightarrow> BlockID \<Rightarrow> error + 'txn processedBlock" where
  "getBlockMap d i = (case blockMap d i of None \<Rightarrow> Inl errNilItem | Some pb \<Rightarrow> Inr pb)"

definition rmBlockMap :: "'txn setDB \<Rightarrow> BlockID \<Rightarrow> error + 'txn setDB" where
  "rmBlockMap d i =
     (case ioErr d OpRmBlockMap of
        Some e \<Rightarrow> Inl e
      | None \<Rightarrow> Inr (d\<lparr>blockMap := (blockMap d)(i := None)\<rparr>))"

definition addBlockMap :: "'txn setDB \<Rightarrow> 'txn processedBlock \<Rightarrow> error + 'txn setDB" where
  "addBlockMap d pb =
     (case ioErr d OpAddBlockMap of
        Some e \<Rightarrow> Inl e
      | None \<Rightarrow> Inr (d\<lparr>blockMap := (blockMap d)(blk_ID (pb_Block pb) \<mapsto> pb)\<rparr>))"

subsection \<open>The consensus set\<close>

text \<open>
  Modelled from the spec: the struct \<^verbatim>\<open>ConsensusSet\<close> is declared in another file;
  these are the fields of it that diffs.go reads or writes. \<^verbatim>\<open>blocksLoaded\<close>
  is a Go \<^verbatim>\<open>int\<close> (64 bits, wrapping); \<^verbatim>\<open>fileContractExpirations\<close> is the
  in-memory \<^verbatim>\<open>map[BlockHeight]map[FileContractID]struct{}\<close>, \<^verbatim>\<open>dosBlocks\<close> the
  set of blocks found invalid.
\<close>

record 'txn ConsensusSet =
  db :: "'txn setDB"
  fileContractExpirations :: "BlockHeight \<rightharpoonup> FileContractID set"
  siafundPool :: Currency
  blocksLoaded :: "64 word"
  updateDatabase :: bool
  dosBlocks :: "BlockID set"

text \<open>Sequencing of calls that may panic: the first panic ends the run.\<close>

definition andThen :: "error + 'a \<Rightarrow> ('a \<Rightarrow> error + 'b) \<Rightarrow> error + 'b" where
  "andThen m f = (case m of Inl e \<Rightarrow> Inl e | Inr x \<Rightarrow> f x)"

text \<open>A \<^verbatim>\<open>for ... range\<close> loop whose body may panic.\<close>

fun forEach :: "('s \<Rightarrow> 'a \<Rightarrow> error + 's) \<Rightarrow> 'a list \<Rightarrow> 's \<Rightarrow> error + 's" where
  "forEach f [] s = Inr s"
| "forEach f (x # xs) s = andThen (f s x) (forEach f xs)"

text \<open>
  Modelled from the spec: \<^verbatim>\<open>cs.currentBlockID()\<close>, the tip of the current path. It is
  declared in another file of the package; on an empty path there is no tip.
\<close>

definition currentBlockID :: "'txn ConsensusSet \<Rightarrow> error + BlockID" where
  "currentBlockID cs = (if path (db cs) = [] then Inl errNilItem else Inr (last (path (db cs))))"

subsection \<open>Committing one diff\<close>

definition commitSiacoinOutputDiff ::
  "build \<Rightarrow> 'txn ConsensusSet \<Rightarrow> SiacoinOutputDiff \<Rightarrow> DiffDirection \<Rightarrow> error + 'txn ConsensusSet" where
  "commitSiacoinOutputDiff b cs scod dir =
     (if \<not> updateDatabase cs then Inr cs
      else if DEBUG b \<and> (inSiacoinOutputs (db cs) (scod_ID scod) = (scod_Direction scod = dir))
        then Inl errBadCommitSiacoinOutputDiff
      else if scod_Direction scod = dir
        then Inr (cs\<lparr>db := addSiacoinOutputs (db cs) (scod_ID scod) (scod_SiacoinOutput scod)\<rparr>)
        else Inr (cs\<lparr>db := rmSiacoinOutputs (db cs) (scod_ID scod)\<rparr>))"

definition commitSiafundOutputDiff ::
  "build \<Rightarrow> 'txn ConsensusSet \<Rightarrow> SiafundOutputDiff \<Rightarrow> DiffDirection \<Rightarrow> error + 'txn ConsensusSet" where
  "commitSiafundOutputDiff b cs sfod dir =
     (if \<not> updateDatabase cs then Inr cs
      else if DEBUG b \<and> (inSiafundOutputs (db cs) (sfod_ID sfod) = (sfod_Direction sfod = dir))
        then Inl errBadCommitSiafundOutputDiff
      else if sfod_Direction sfod = dir
        then Inr (cs\<lparr>db := addSiafundOutputs (db cs) (sfod_ID sfod) (sfod_SiafundOutput sfod)\<rparr>)
        else Inr (cs\<lparr>db := rmSiafundOutputs (db cs) (sfod_ID sfod)\<rparr>))"

definition commitDelayedSiacoinOutputDiff ::
  "build \<Rightarrow> 'txn ConsensusSet \<Rightarrow> DelayedSiacoinOutputDiff \<Rightarrow> DiffDirection \<Rightarrow> error + 'txn ConsensusSet" where
  "commitDelayedSiacoinOutputDiff b cs dscod dir =
     (if \<not> updateDatabase cs then Inr cs
      else if DEBUG b \<and> \<not> inDelayedSiacoinOutputs (db cs) (dscod_MaturityHeight dscod)
        then Inl errBadMaturityHeight
      else if DEBUG b \<and>
          (inDelayedSiacoinOutputsHeight (db cs) (dscod_MaturityHeight dscod) (dscod_ID dscod)
             = (dscod_Direction dscod = dir))
        then Inl errBadCommitDelayedSiacoinOutputDiff
      else if dscod_Direction dscod = dir
        then andThen
          (addDelayedSiacoinOutputsHeight (db cs) (dscod_MaturityHeight dscod) (dscod_ID dscod)
             (dscod_SiacoinOutput dscod))
          (\<lambda>d. Inr (cs\<lparr>db := d\<rparr>))
        else andThen
          (rmDelayedSiacoinOutputsHeight (db cs) (dscod_MaturityHeight dscod) (dscod_ID dscod))
          (\<lambda>d. Inr (cs\<lparr>db := d\<rparr>)))"

definition commitSiafundPoolDiff ::
  "build \<Rightarrow> 'txn ConsensusSet \<Rightarrow> SiafundPoolDiff \<Rightarrow> DiffDirection \<Rightarrow> error + 'txn ConsensusSet" where
  "commitSiafundPoolDiff b cs sfpd dir =
     (if DEBUG b \<and> sfpd_Adjusted sfpd < sfpd_Previous sfpd then Inl errNegativePoolAdjustment
      else if DEBUG b \<and> sfpd_Direction sfpd \<noteq> DiffApply then Inl errNonApplySiafundPoolDiff
      else if dir = DiffApply then
        (if DEBUG b \<and> siafundPool cs \<noteq> sfpd_Previous sfpd then Inl errApplySiafundPoolDiffMismatch
         else Inr (cs\<lparr>siafundPool := sfpd_Adjusted sfpd\<rparr>))
      else
        (if DEBUG b \<and> siafundPool cs \<noteq> sfpd_Adjusted sfpd then Inl errRevertSiafundPoolDiffMismatch
         else Inr (cs\<lparr>siafundPool := sfpd_Previous sfpd\<rparr>)))"

definition commitFileContractDiff ::
  "build \<Rightarrow> 'txn ConsensusSet \<Rightarrow> FileContractDiff \<Rightarrow> DiffDirection \<Rightarrow> error + 'txn ConsensusSet" where
  "commitFileContractDiff b cs fcd dir =
     (let we = WindowEnd (fcd_FileContract fcd); i = fcd_ID fcd in
      if DEBUG b \<and> (inFileContracts (db cs) i = (fcd_Direction fcd = dir)) \<and> updateDatabase cs
        then Inl errBadCommitFileContractDiff
      else if fcd_Direction fcd = dir then
        (let cs1 = (if updateDatabase cs
                    then cs\<lparr>db := addFileContracts (db cs) i (fcd_FileContract fcd)\<rparr> else cs)
         in andThen
           (if \<not> inFCExpirations (db cs1) we \<and> updateDatabase cs1
            then (let cs1' = cs1\<lparr>fileContractExpirations := (fileContractExpirations cs1)(we \<mapsto> {})\<rparr>
                  in if updateDatabase cs1'
                     then andThen (addFCExpirations (db cs1') we) (\<lambda>d. Inr (cs1'\<lparr>db := d\<rparr>))
                     else Inr cs1')
            else Inr cs1)
           (\<lambda>cs2.
              if DEBUG b \<and> inFCExpirationsHeight (db cs2) we i
                then Inl errExistingFileContractExpiration
              else
                (case fileContractExpirations cs2 we of
                   None \<Rightarrow> Inl errNilMapAssignment
                 | Some s \<Rightarrow>
                     (let cs3 = cs2\<lparr>fileContractExpirations :=
                                       (fileContractExpirations cs2)(we \<mapsto> insert i s)\<rparr>
                      in if updateDatabase cs3
                         then andThen (addFCExpirationsHeight (db cs3) we i) (\<lambda>d. Inr (cs3\<lparr>db := d\<rparr>))
                         else Inr cs3))))
      else
        (let cs1 = (if updateDatabase cs then cs\<lparr>db := rmFileContracts (db cs) i\<rparr> else cs)
         in if DEBUG b \<and> updateDatabase cs1 \<and> \<not> inFCExpirations (db cs1) we
              then Inl errBadExpirationPointer
            else if DEBUG b \<and> updateDatabase cs1 \<and> \<not> inFCExpirationsHeight (db cs1) we i
              then Inl errBadExpirationPointer
            else
              (let cs2 = cs1\<lparr>fileContractExpirations :=
                                (case fileContractExpirations cs1 we of
                                   None \<Rightarrow> fileContractExpirations cs1
                                 | Some s \<Rightarrow> (fileContractExpirations cs1)(we \<mapsto> s - {i}))\<rparr>
               in if updateDatabase cs2
                  then andThen (rmFCExpirationsHeight (db cs2) we i) (\<lambda>d. Inr (cs2\<lparr>db := d\<rparr>))
                  else Inr cs2)))"

subsection \<open>Committing a diff set\<close>

definition commitDiffSetSanity ::
  "build \<Rightarrow> 'txn ConsensusSet \<Rightarrow> 'txn processedBlock \<Rightarrow> DiffDirection \<Rightarrow> error + unit" where
  "commitDiffSetSanity b cs pb dir =
     (if DEBUG b then
        (if \<not> DiffsGenerated pb then Inl errDiffsNotGenerated
         else if dir = DiffApply then
           andThen (getBlockMap (db cs) (Parent pb)) (\<lambda>parent.
           andThen (currentBlockID cs) (\<lambda>cur.
             if blk_ID (pb_Block parent) \<noteq> cur then Inl errWrongAppliedDiffSet else Inr ()))
         else
           andThen (currentBlockID cs) (\<lambda>cur.
             if blk_ID (pb_Block pb) \<noteq> cur then Inl errWrongRevertDiffSet else Inr ()))
      else Inr ())"

definition createUpcomingDelayedOutputMaps ::
  "build \<Rightarrow> 'txn ConsensusSet \<Rightarrow> 'txn processedBlock \<Rightarrow> DiffDirection \<Rightarrow> error + 'txn ConsensusSet" where
  "createUpcomingDelayedOutputMaps b cs pb dir =
     (if \<not> updateDatabase cs then Inr cs
      else if dir = DiffApply then
        (if DEBUG b \<and> inDelayedSiacoinOutputs (db cs) (Height pb + MaturityDelay b)
           then Inl errCreatingExistingUpcomingMap
         else andThen (addDelayedSiacoinOutputs (db cs) (Height pb + MaturityDelay b))
                (\<lambda>d. Inr (cs\<lparr>db := d\<rparr>)))
      else if Height pb > MaturityDelay b then
        (if DEBUG b \<and> inDelayedSiacoinOutputs (db cs) (Height pb)
           then Inl errCreatingExistingUpcomingMap
         else andThen (addDelayedSiacoinOutputs (db cs) (Height pb)) (\<lambda>d. Inr (cs\<lparr>db := d\<rparr>)))
      else Inr cs)"

text \<open>
  The loop \<^verbatim>\<open>for i := len(xs) - 1; i >= 0; i--\<close> with body \<^verbatim>\<open>f(xs[i])\<close>:
  \<open>forEachDown f xs n\<close> runs the indices \<open>n - 1, ..., 0\<close>.
\<close>

fun forEachDown :: "('s \<Rightarrow> 'a \<Rightarrow> error + 's) \<Rightarrow> 'a list \<Rightarrow> nat \<Rightarrow> 's \<Rightarrow> error + 's" where
  "forEachDown f xs 0 s = Inr s"
| "forEachDown f xs (Suc i) s = andThen (f s (xs ! i)) (forEachDown f xs i)"

definition commitNodeDiffs ::
  "build \<Rightarrow> 'txn ConsensusSet \<Rightarrow> 'txn processedBlock \<Rightarrow> DiffDirection \<Rightarrow> error + 'txn ConsensusSet" where
  "commitNodeDiffs b cs pb dir =
     (if dir = DiffApply then
        andThen (forEach (\<lambda>c scod. commitSiacoinOutputDiff b c scod dir) (SiacoinOutputDiffs pb) cs) (\<lambda>cs.
        andThen (forEach (\<lambda>c fcd. commitFileContractDiff b c fcd dir) (FileContractDiffs pb) cs) (\<lambda>cs.
        andThen (forEach (\<lambda>c sfod. commitSiafundOutputDiff b c sfod dir) (SiafundOutputDiffs pb) cs) (\<lambda>cs.
        andThen (forEach (\<lambda>c dscod. commitDelayedSiacoinOutputDiff b c dscod dir)
                   (DelayedSiacoinOutputDiffs pb) cs) (\<lambda>cs.
        forEach (\<lambda>c sfpd. commitSiafundPoolDiff b c sfpd dir) (SiafundPoolDiffs pb) cs))))
      else
        andThen (forEachDown (\<lambda>c scod. commitSiacoinOutputDiff b c scod dir)
                   (SiacoinOutputDiffs pb) (length (SiacoinOutputDiffs pb)) cs) (\<lambda>cs.
        andThen (forEachDown (\<lambda>c fcd. commitFileContractDiff b c fcd dir)
                   (FileContractDiffs pb) (length (FileContractDiffs pb)) cs) (\<lambda>cs.
        andThen (forEachDown (\<lambda>c sfod. commitSiafundOutputDiff b c sfod dir)
                   (SiafundOutputDiffs pb) (length (SiafundOutputDiffs pb)) cs) (\<lambda>cs.
        andThen (forEachDown (\<lambda>c dscod. commitDelayedSiacoinOutputDiff b c dscod dir)
                   (DelayedSiacoinOutputDiffs pb) (length (DelayedSiacoinOutputDiffs pb)) cs) (\<lambda>cs.
        forEachDown (\<lambda>c sfpd. commitSiafundPoolDiff b c sfpd dir)
          (SiafundPoolDiffs pb) (length (SiafundPoolDiffs pb)) cs)))))"

definition deleteObsoleteDelayedOutputMaps ::
  "build \<Rightarrow> 'txn ConsensusSet \<Rightarrow> 'txn processedBlock \<Rightarrow> DiffDirection \<Rightarrow> error + 'txn ConsensusSet" where
  "deleteObsoleteDelayedOutputMaps b cs pb dir =
     (if \<not> updateDatabase cs then Inr cs
      else if dir = DiffApply then
        (if Height pb > MaturityDelay b then
           (if DEBUG b \<and> updateDatabase cs \<and> lenDelayedSiacoinOutputsHeight (db cs) (Height pb) \<noteq> 0
              then Inl errDeletingNonEmptyDelayedMap
            else andThen (rmDelayedSiacoinOutputs (db cs) (Height pb)) (\<lambda>d. Inr (cs\<lparr>db := d\<rparr>)))
         else Inr cs)
      else
        (if DEBUG b \<and> lenDelayedSiacoinOutputsHeight (db cs) (Height pb + MaturityDelay b) \<noteq> 0
           then Inl errDeletingNonEmptyDelayedMap
         else andThen (rmDelayedSiacoinOutputs (db cs) (Height pb + MaturityDelay b))
                (\<lambda>d. Inr (cs\<lparr>db := d\<rparr>))))"

text \<open>
  In \<^verbatim>\<open>updateCurrentPath\<close> the error of \<^verbatim>\<open>pushPath\<close> or \<^verbatim>\<open>popPath\<close> is a panic
  in a debug build and is dropped otherwise.
\<close>

definition updateCurrentPath ::
  "build \<Rightarrow> 'txn ConsensusSet \<Rightarrow> 'txn processedBlock \<Rightarrow> DiffDirection \<Rightarrow> error + 'txn ConsensusSet" where
  "updateCurrentPath b cs pb dir =
     (if dir = DiffApply then
        andThen
          (if updateDatabase cs then
             (case pushPath (db cs) (blk_ID (pb_Block pb)) of
                Inl err \<Rightarrow> if DEBUG b then Inl err else Inr cs
              | Inr d \<Rightarrow> Inr (cs\<lparr>db := d\<rparr>))
           else Inr cs)
          (\<lambda>cs. Inr (cs\<lparr>blocksLoaded := blocksLoaded cs + 1\<rparr>))
      else
        andThen
          (if updateDatabase cs then
             (case popPath (db cs) of
                Inl err \<Rightarrow> if DEBUG b then Inl err else Inr cs
              | Inr d \<Rightarrow> Inr (cs\<lparr>db := d\<rparr>))
           else Inr cs)
          (\<lambda>cs. Inr (cs\<lparr>blocksLoaded := blocksLoaded cs - 1\<rparr>)))"

definition commitDiffSet ::
  "build \<Rightarrow> 'txn ConsensusSet \<Rightarrow> 'txn processedBlock \<Rightarrow> DiffDirection \<Rightarrow> error + 'txn ConsensusSet" where
  "commitDiffSet b cs pb dir =
     andThen (commitDiffSetSanity b cs pb dir) (\<lambda>_.
     andThen (createUpcomingDelayedOutputMaps b cs pb dir) (\<lambda>cs.
     andThen (commitNodeDiffs b cs pb dir) (\<lambda>cs.
     andThen (deleteObsoleteDelayedOutputMaps b cs pb dir) (\<lambda>cs.
     updateCurrentPath b cs pb dir))))"

subsection \<open>Generating the diffs of a block\<close>

text \<open>
  \<^verbatim>\<open>generateAndApplyDiff\<close> calls six methods that are declared in other files of the
  package: \<^verbatim>\<open>validTransaction\<close>, \<^verbatim>\<open>applyTransaction\<close>,
  \<^verbatim>\<open>applyMaturedSiacoinOutputs\<close>, \<^verbatim>\<open>applyMaintenance\<close>, \<^verbatim>\<open>deleteNode\<close>
  and \<^verbatim>\<open>consensusSetHash\<close>. They are parameters of the model (the record \<open>hs\<close>).
  A method that changes the consensus set or the processed block returns the new ones, or
  the panic it raises; \<^verbatim>\<open>validTransaction\<close> returns the error of the transaction, if
  any.
\<close>

record 'txn helpers =
  validTransaction :: "'txn ConsensusSet \<Rightarrow> 'txn \<Rightarrow> error option"
  applyTransaction ::
    "'txn ConsensusSet \<Rightarrow> 'txn processedBlock \<Rightarrow> 'txn \<Rightarrow> error + 'txn ConsensusSet \<times> 'txn processedBlock"
  applyMaturedSiacoinOutputs ::
    "'txn ConsensusSet \<Rightarrow> 'txn processedBlock \<Rightarrow> error + 'txn ConsensusSet \<times> 'txn processedBlock"
  applyMaintenance ::
    "'txn ConsensusSet \<Rightarrow> 'txn processedBlock \<Rightarrow> error + 'txn ConsensusSet \<times> 'txn processedBlock"
  deleteNode :: "'txn ConsensusSet \<Rightarrow> 'txn processedBlock \<Rightarrow> error + 'txn ConsensusSet"
  consensusSetHash :: "'txn ConsensusSet \<Rightarrow> nat"

text \<open>
  The result of \<^verbatim>\<open>generateAndApplyDiff\<close> is a panic (\<open>Inl\<close>) or the returned error
  (\<open>None\<close> for \<^verbatim>\<open>nil\<close>) with the consensus set and the processed block as the call
  leaves them. \<open>generateAndApplyDiff_loop\<close> is the loop over the transactions of the
  block; it yields \<open>None\<close> when the loop runs to its end and the error of the
  \<^verbatim>\<open>return err\<close> inside the loop otherwise.
\<close>

fun generateAndApplyDiff_loop ::
  "build \<Rightarrow> 'txn helpers \<Rightarrow> 'txn ConsensusSet \<Rightarrow> 'txn processedBlock \<Rightarrow> 'txn list
     \<Rightarrow> error + error option \<times> 'txn ConsensusSet \<times> 'txn processedBlock" where
  "generateAndApplyDiff_loop b hs cs pb [] = Inr (None, cs, pb)"
| "generateAndApplyDiff_loop b hs cs pb (txn # txns) =
     (case validTransaction hs cs txn of
        Some err \<Rightarrow>
          andThen (applyMaturedSiacoinOutputs hs cs pb) (\<lambda>(cs, pb).
          andThen (commitDiffSet b cs pb DiffRevert) (\<lambda>cs.
          andThen (deleteNode hs (cs\<lparr>dosBlocks := insert (blk_ID (pb_Block pb)) (dosBlocks cs)\<rparr>) pb) (\<lambda>cs.
          Inr (Some err, cs, pb))))
      | None \<Rightarrow>
          andThen (applyTransaction hs cs pb txn) (\<lambda>(cs, pb).
          generateAndApplyDiff_loop b hs cs pb txns))"

definition generateAndApplyDiff ::
  "build \<Rightarrow> 'txn helpers \<Rightarrow> 'txn ConsensusSet \<Rightarrow> 'txn processedBlock
     \<Rightarrow> error + error option \<times> 'txn ConsensusSet \<times> 'txn processedBlock" where
  "generateAndApplyDiff b hs cs pb =
     (if DEBUG b \<and> DiffsGenerated pb then Inl errRegenerateDiffs
      else
        andThen
          (if DEBUG b
           then andThen (currentBlockID cs)
                  (\<lambda>cur. if Parent pb \<noteq> cur then Inl errInvalidSuccessor else Inr ())
           else Inr ())
          (\<lambda>_.
        case pushPath (db cs) (blk_ID (pb_Block pb)) of
          Inl err \<Rightarrow> Inr (Some err, cs, pb)
        | Inr d \<Rightarrow>
            (let cs = cs\<lparr>db := d\<rparr>;
                 cs = cs\<lparr>blocksLoaded := blocksLoaded cs + 1\<rparr>
             in andThen (addDelayedSiacoinOutputs (db cs) (Height pb + MaturityDelay b)) (\<lambda>d.
                let cs = cs\<lparr>db := d\<rparr>;
                    pb = pb\<lparr>DiffsGenerated := True\<rparr>
                in andThen (generateAndApplyDiff_loop b hs cs pb (Transactions (pb_Block pb)))
                     (\<lambda>(ret, cs, pb).
                case ret of
                  Some err \<Rightarrow> Inr (Some err, cs, pb)
                | None \<Rightarrow>
                    andThen (applyMaintenance hs cs pb) (\<lambda>(cs, pb).
                    let pb = (if DEBUG b then pb\<lparr>ConsensusSetHash := consensusSetHash hs cs\<rparr> else pb)
                    in case rmBlockMap (db cs) (blk_ID (pb_Block pb)) of
                         Inl err \<Rightarrow> Inr (Some err, cs, pb)
                       | Inr d \<Rightarrow>
                           (case addBlockMap d pb of
                              Inl err \<Rightarrow> Inr (Some err, cs\<lparr>db := d\<rparr>, pb)
                            | Inr d' \<Rightarrow> Inr (None, cs\<lparr>db := d'\<rparr>, pb))))))))"

subsection \<open>The order of a commit, in the words of the specification\<close>

text \<open>
  The specification describes \<^verbatim>\<open>commit_diff_set\<close> as one sequence of single commits:
  for Apply, each of the five lists in recorded order with the requested direction; for
  Revert, each list in reverse recorded order with the inverse direction; the lists taken
  in the order coin, file contract, siafund, delayed coin, siafund pool in both cases.
  \<open>spec_commit_sequence\<close> is that sequence, \<open>commitDiff\<close> commits one element of it
  with the function of the source for its kind.
\<close>

datatype diff =
    SCOD SiacoinOutputDiff
  | FCD FileContractDiff
  | SFOD SiafundOutputDiff
  | DSCOD DelayedSiacoinOutputDiff
  | SFPD SiafundPoolDiff

fun commitDiff :: "build \<Rightarrow> 'txn ConsensusSet \<Rightarrow> diff \<Rightarrow> DiffDirection \<Rightarrow> error + 'txn ConsensusSet" where
  "commitDiff b cs (SCOD d) dir = commitSiacoinOutputDiff b cs d dir"
| "commitDiff b cs (FCD d) dir = commitFileContractDiff b cs d dir"
| "commitDiff b cs (SFOD d) dir = commitSiafundOutputDiff b cs d dir"
| "commitDiff b cs (DSCOD d) dir = commitDelayedSiacoinOutputDiff b cs d dir"
| "commitDiff b cs (SFPD d) dir = commitSiafundPoolDiff b cs d dir"

fun inverseDirection :: "DiffDirection \<Rightarrow> DiffDirection" where
  "inverseDirection DiffApply = DiffRevert"
| "inverseDirection DiffRevert = DiffApply"

definition spec_commit_sequence :: "'txn processedBlock \<Rightarrow> DiffDirection \<Rightarrow> (diff \<times> DiffDirection) list" where
  "spec_commit_sequence pb dir =
     (case dir of
        DiffApply \<Rightarrow>
          map (\<lambda>d. (SCOD d, dir)) (SiacoinOutputDiffs pb) @
          map (\<lambda>d. (FCD d, dir)) (FileContractDiffs pb) @
          map (\<lambda>d. (SFOD d, dir)) (SiafundOutputDiffs pb) @
          map (\<lambda>d. (DSCOD d, dir)) (DelayedSiacoinOutputDiffs pb) @
          map (\<lambda>d. (SFPD d, dir)) (SiafundPoolDiffs pb)
      | DiffRevert \<Rightarrow>
          map (\<lambda>d. (SCOD d, inverseDirection DiffApply)) (rev (SiacoinOutputDiffs pb)) @
          map (\<lambda>d. (FCD d, inverseDirection DiffApply)) (rev (FileContractDiffs pb)) @
          map (\<lambda>d. (SFOD d, inverseDirection DiffApply)) (rev (SiafundOutputDiffs pb)) @
          map (\<lambda>d. (DSCOD d, inverseDirection DiffApply)) (rev (DelayedSiacoinOutputDiffs pb)) @
          map (\<lambda>d. (SFPD d, inverseDirection DiffApply)) (rev (SiafundPoolDiffs pb)))"

subsection \<open>Example transactions\<close>

text \<open>
  The transactions of the examples: a transaction spends the siacoin outputs
  \<open>txn_SiacoinInputs\<close> and creates the siacoin outputs \<open>txn_SiacoinOutputs\<close> and the
  file contracts \<open>txn_FileContracts\<close>, each with its id.
\<close>

record exTxn =
  txn_SiacoinInputs :: "SiacoinOutputID list"
  txn_SiacoinOutputs :: "(SiacoinOutputID \<times> SiacoinOutput) list"
  txn_FileContracts :: "(FileContractID \<times> FileContract) list"

subsection \<open>Example values\<close>

text \<open>
  A debug build with a maturity delay of three blocks, and a consensus set that holds the
  genesis block only, with the delayed-output bucket of height 3 that the genesis block
  created.
\<close>

definition exBuild :: build where
  "exBuild = \<lparr>DEBUG = True, MaturityDelay = 3\<rparr>"

definition exGenesis :: "exTxn processedBlock" where
  "exGenesis = \<lparr>pb_Block = \<lparr>blk_ID = 0, Transactions = []\<rparr>, Height = 0, Parent = 0,
     DiffsGenerated = True, SiacoinOutputDiffs = [], FileContractDiffs = [],
     SiafundOutputDiffs = [], DelayedSiacoinOutputDiffs = [], SiafundPoolDiffs = [],
     ConsensusSetHash = 0\<rparr>"

definition exDB :: "exTxn setDB" where
  "exDB = \<lparr>siacoinOutputs = Map.empty, fileContracts = Map.empty, siafundOutputs = Map.empty,
     delayedSiacoinOutputs = [3 \<mapsto> fmempty], fcExpirations = Map.empty, path = [0],
     blockMap = [0 \<mapsto> exGenesis], ioErr = (\<lambda>_. None)\<rparr>"

definition exCS :: "exTxn ConsensusSet" where
  "exCS = \<lparr>db = exDB, fileContractExpirations = Map.empty, siafundPool = 0, blocksLoaded = 1,
     updateDatabase = True, dosBlocks = {}\<rparr>"

definition exOutput :: SiacoinOutput where
  "exOutput = \<lparr>sco_Value = 100, sco_UnlockHash = 7\<rparr>"

subsection \<open>A chain of committed blocks\<close>

text \<open>
  \<open>applyChain b cs pbs\<close> commits the diff sets of the blocks \<open>pbs\<close> one after the other
  in the Apply direction, as a node does along its current path, and yields the consensus
  set before the first block and after every block. \<open>chainsFrom p ds\<close> says of a list
  of siafund-pool diffs that the first has \<open>p\<close> as its previous value and every other one
  the adjusted value of its predecessor, and that no diff lowers the value.
\<close>

fun applyChain :: "build \<Rightarrow> 'txn ConsensusSet \<Rightarrow> 'txn processedBlock list \<Rightarrow> error + 'txn ConsensusSet list" where
  "applyChain b cs [] = Inr [cs]"
| "applyChain b cs (pb # pbs) =
     andThen (commitDiffSet b cs pb DiffApply) (\<lambda>cs'.
     andThen (applyChain b cs' pbs) (\<lambda>tr. Inr (cs # tr)))"

fun chainsFrom :: "Currency \<Rightarrow> SiafundPoolDiff list \<Rightarrow> bool" where
  "chainsFrom p [] = True"
| "chainsFrom p (d # ds) =
     (sfpd_Previous d = p \<and> sfpd_Previous d \<le> sfpd_Adjusted d \<and> chainsFrom (sfpd_Adjusted d) ds)"

fun poolAfter :: "Currency \<Rightarrow> SiafundPoolDiff list \<Rightarrow> Currency" where
  "poolAfter p [] = p"
| "poolAfter p (d # ds) = poolAfter (sfpd_Adjusted d) ds"

text \<open>
  Two blocks on top of the genesis block, with siafund-pool diffs \<open>0 \<rightarrow> 5\<close> in the first and
  \<open>5 \<rightarrow> 5\<close>, \<open>5 \<rightarrow> 8\<close> in the second, and the consensus set that has both in its block map.
\<close>

definition exBlock1 :: "exTxn processedBlock" where
  "exBlock1 = exGenesis\<lparr>pb_Block := \<lparr>blk_ID = 1, Transactions = []\<rparr>, Height := 1, Parent := 0,
     SiafundPoolDiffs := [\<lparr>sfpd_Direction = DiffApply, sfpd_Previous = 0, sfpd_Adjusted = 5\<rparr>]\<rparr>"

definition exBlock2 :: "exTxn processedBlock" where
  "exBlock2 = exGenesis\<lparr>pb_Block := \<lparr>blk_ID = 2, Transactions = []\<rparr>, Height := 2, Parent := 1,
     SiafundPoolDiffs := [\<lparr>sfpd_Direction = DiffApply, sfpd_Previous = 5, sfpd_Adjusted = 5\<rparr>,
                          \<lparr>sfpd_Direction = DiffApply, sfpd_Previous = 5, sfpd_Adjusted = 8\<rparr>]\<rparr>"

definition exCS2 :: "exTxn ConsensusSet" where
  "exCS2 = exCS\<lparr>db := exDB\<lparr>blockMap := [0 \<mapsto> exGenesis, 1 \<mapsto> exBlock1, 2 \<mapsto> exBlock2]\<rparr>\<rparr>"

text \<open>
  A block at height 5 in which the delayed output 1 of the bucket of height 5 matures, and
  the consensus set after that block: the output is spendable, the bucket of height 5 is
  gone and the bucket of height 8 exists.
\<close>

definition exBlock5 :: "exTxn processedBlock" where
  "exBlock5 = exGenesis\<lparr>pb_Block := \<lparr>blk_ID = 5, Transactions = []\<rparr>, Height := 5, Parent := 4,
     SiacoinOutputDiffs :=
       [\<lparr>scod_Direction = DiffApply, scod_ID = 1, scod_SiacoinOutput = exOutput\<rparr>],
     DelayedSiacoinOutputDiffs :=
       [\<lparr>dscod_Direction = DiffRevert, dscod_ID = 1, dscod_SiacoinOutput = exOutput,
          dscod_MaturityHeight = 5\<rparr>]\<rparr>"

definition exCS5 :: "exTxn ConsensusSet" where
  "exCS5 = exCS\<lparr>db := exDB\<lparr>siacoinOutputs := [1 \<mapsto> exOutput],
     delayedSiacoinOutputs := [8 \<mapsto> fmempty], path := [0, 5]\<rparr>\<rparr>"

subsection \<open>The transactions of a block, one after the other\<close>

text \<open>
  What the loop of \<^verbatim>\<open>generateAndApplyDiff\<close> does when no transaction is rejected:
  \<open>applyTransactions\<close> applies the transactions in order, and \<open>transactionsValid\<close>
  says that every transaction validates against the consensus set that the transactions
  before it have left.
\<close>

fun applyTransactions ::
  "'txn helpers \<Rightarrow> 'txn ConsensusSet \<Rightarrow> 'txn processedBlock \<Rightarrow> 'txn list
     \<Rightarrow> error + 'txn ConsensusSet \<times> 'txn processedBlock" where
  "applyTransactions hs cs pb [] = Inr (cs, pb)"
| "applyTransactions hs cs pb (txn # txns) =
     andThen (applyTransaction hs cs pb txn) (\<lambda>(cs, pb). applyTransactions hs cs pb txns)"

fun transactionsValid ::
  "'txn helpers \<Rightarrow> 'txn ConsensusSet \<Rightarrow> 'txn processedBlock \<Rightarrow> 'txn list \<Rightarrow> bool" where
  "transactionsValid hs cs pb [] = True"
| "transactionsValid hs cs pb (txn # txns) =
     (validTransaction hs cs txn = None \<and>
      (case applyTransaction hs cs pb txn of
         Inl e \<Rightarrow> True
       | Inr (cs, pb) \<Rightarrow> transactionsValid hs cs pb txns))"

subsection \<open>The methods of other files, from the specification\<close>

text \<open>
  Modelled from the spec: \<^verbatim>\<open>applyTransaction\<close>, which is declared in another file. The
  specification (BlockApplier, step 4): on validation success, emit diffs for every
  coin, siafund and contract mutation the transaction causes, append them to the diff set
  of the block in emit order, and commit each to the state at once. Which diffs a
  transaction causes is the parameter \<open>txnDiffs\<close>. \<open>appendDiff\<close> appends a diff to
  the list of its kind, \<open>emitDiff\<close> commits a diff in the Apply direction and records it.
\<close>

fun appendDiff :: "'txn processedBlock \<Rightarrow> diff \<Rightarrow> 'txn processedBlock" where
  "appendDiff pb (SCOD d) = pb\<lparr>SiacoinOutputDiffs := SiacoinOutputDiffs pb @ [d]\<rparr>"
| "appendDiff pb (FCD d) = pb\<lparr>FileContractDiffs := FileContractDiffs pb @ [d]\<rparr>"
| "appendDiff pb (SFOD d) = pb\<lparr>SiafundOutputDiffs := SiafundOutputDiffs pb @ [d]\<rparr>"
| "appendDiff pb (DSCOD d) = pb\<lparr>DelayedSiacoinOutputDiffs := DelayedSiacoinOutputDiffs pb @ [d]\<rparr>"
| "appendDiff pb (SFPD d) = pb\<lparr>SiafundPoolDiffs := SiafundPoolDiffs pb @ [d]\<rparr>"

definition emitDiff ::
  "build \<Rightarrow> 'txn ConsensusSet \<times> 'txn processedBlock \<Rightarrow> diff
     \<Rightarrow> error + 'txn ConsensusSet \<times> 'txn processedBlock" where
  "emitDiff b s d =
     andThen (commitDiff b (fst s) d DiffApply) (\<lambda>cs. Inr (cs, appendDiff (snd s) d))"

definition spec_applyTransaction ::
  "build \<Rightarrow> ('txn ConsensusSet \<Rightarrow> 'txn \<Rightarrow> diff list) \<Rightarrow> 'txn ConsensusSet \<Rightarrow> 'txn processedBlock
     \<Rightarrow> 'txn \<Rightarrow> error + 'txn ConsensusSet \<times> 'txn processedBlock" where
  "spec_applyTransaction b txnDiffs cs pb txn = forEach (emitDiff b) (txnDiffs cs txn) (cs, pb)"

text \<open>
  Modelled from the spec: \<^verbatim>\<open>applyMaturedSiacoinOutputs\<close>, which is declared in another
  file. The specification (MaturityScheduler, on Apply at height \<open>H\<close>): for every delayed
  output in the bucket of height \<open>H\<close>, emit a Revert-direction delayed-output diff
  paired with an Apply-direction coin-output diff; delete the bucket of height \<open>H\<close>,
  which must be empty afterward; the first \<open>MaturityDelay\<close> blocks have no matured
  outputs and skip the step. The outputs of the bucket are taken in the order of their
  ids; the bucket is deleted with \<^verbatim>\<open>deleteObsoleteDelayedOutputMaps\<close> of the source.
\<close>

definition maturedDiffs :: "BlockHeight \<Rightarrow> (SiacoinOutputID, SiacoinOutput) fmap \<Rightarrow> diff list" where
  "maturedDiffs h m =
     concat (map (\<lambda>i. case fmlookup m i of
                         None \<Rightarrow> []
                       | Some sco \<Rightarrow>
                           [DSCOD \<lparr>dscod_Direction = DiffRevert, dscod_ID = i, dscod_SiacoinOutput = sco,
                                    dscod_MaturityHeight = h\<rparr>,
                            SCOD \<lparr>scod_Direction = DiffApply, scod_ID = i, scod_SiacoinOutput = sco\<rparr>])
                 (sorted_list_of_fset (fmdom m)))"

definition spec_applyMaturedSiacoinOutputs ::
  "build \<Rightarrow> 'txn ConsensusSet \<Rightarrow> 'txn processedBlock
     \<Rightarrow> error + 'txn ConsensusSet \<times> 'txn processedBlock" where
  "spec_applyMaturedSiacoinOutputs b cs pb =
     (if \<not> Height pb > MaturityDelay b then Inr (cs, pb)
      else
        andThen
          (forEach (emitDiff b)
             (case delayedSiacoinOutputs (db cs) (Height pb) of
                None \<Rightarrow> []
              | Some m \<Rightarrow> maturedDiffs (Height pb) m)
             (cs, pb))
          (\<lambda>(cs, pb).
        andThen (deleteObsoleteDelayedOutputMaps b cs pb DiffApply) (\<lambda>cs. Inr (cs, pb))))"

text \<open>
  Modelled from the spec: \<^verbatim>\<open>deleteNode\<close>, which is declared in another file. The
  specification: on a transaction error the block is removed from the block map.
\<close>

definition spec_deleteNode ::
  "'txn ConsensusSet \<Rightarrow> 'txn processedBlock \<Rightarrow> error + 'txn ConsensusSet" where
  "spec_deleteNode cs pb =
     Inr (cs\<lparr>db := (db cs)\<lparr>blockMap := (blockMap (db cs))(blk_ID (pb_Block pb) := None)\<rparr>\<rparr>)"

subsection \<open>The tables of a commit\<close>

text \<open>
  Auxiliary functions for the proofs. In a debug build with \<^verbatim>\<open>updateDatabase\<close> set, each
  of the five commits reads and writes one part of the consensus set only: the table of
  siacoin outputs, the table of file contracts with the buckets of expirations, the table
  of siafund outputs, the buckets of delayed outputs, the siafund pool. The functions
  below are the five commits on those parts; \<open>withTables\<close> puts the parts back into a
  consensus set, the expirations both into the database and into the in-memory map.
\<close>

definition scStep ::
  "DiffDirection \<Rightarrow> (SiacoinOutputID \<rightharpoonup> SiacoinOutput) \<Rightarrow> SiacoinOutputDiff
     \<Rightarrow> error + (SiacoinOutputID \<rightharpoonup> SiacoinOutput)" where
  "scStep dir t d =
     (if (t (scod_ID d) \<noteq> None) = (scod_Direction d = dir) then Inl errBadCommitSiacoinOutputDiff
      else Inr (if scod_Direction d = dir then t(scod_ID d \<mapsto> scod_SiacoinOutput d)
                else t(scod_ID d := None)))"

definition sfStep ::
  "DiffDirection \<Rightarrow> (SiafundOutputID \<rightharpoonup> SiafundOutput) \<Rightarrow> SiafundOutputDiff
     \<Rightarrow> error + (SiafundOutputID \<rightharpoonup> SiafundOutput)" where
  "sfStep dir t d =
     (if (t (sfod_ID d) \<noteq> None) = (sfod_Direction d = dir) then Inl errBadCommitSiafundOutputDiff
      else Inr (if sfod_Direction d = dir then t(sfod_ID d \<mapsto> sfod_SiafundOutput d)
                else t(sfod_ID d := None)))"

definition dsStep ::
  "DiffDirection \<Rightarrow> (BlockHeight \<rightharpoonup> (SiacoinOutputID, SiacoinOutput) fmap) \<Rightarrow> DelayedSiacoinOutputDiff
     \<Rightarrow> error + (BlockHeight \<rightharpoonup> (SiacoinOutputID, SiacoinOutput) fmap)" where
  "dsStep dir t d =
     (case t (dscod_MaturityHeight d) of
        None \<Rightarrow> Inl errBadMaturityHeight
      | Some m \<Rightarrow>
          if (fmlookup m (dscod_ID d) \<noteq> None) = (dscod_Direction d = dir)
          then Inl errBadCommitDelayedSiacoinOutputDiff
          else Inr (t(dscod_MaturityHeight d \<mapsto>
                 (if dscod_Direction d = dir then fmupd (dscod_ID d) (dscod_SiacoinOutput d) m
                  else fmdrop (dscod_ID d) m))))"

definition poolStep :: "DiffDirection \<Rightarrow> Currency \<Rightarrow> SiafundPoolDiff \<Rightarrow> error + Currency" where
  "poolStep dir p d =
     (if sfpd_Adjusted d < sfpd_Previous d then Inl errNegativePoolAdjustment
      else if sfpd_Direction d \<noteq> DiffApply then Inl errNonApplySiafundPoolDiff
      else if dir = DiffApply
        then (if p \<noteq> sfpd_Previous d then Inl errApplySiafundPoolDiffMismatch
              else Inr (sfpd_Adjusted d))
        else (if p \<noteq> sfpd_Adjusted d then Inl errRevertSiafundPoolDiffMismatch
              else Inr (sfpd_Previous d)))"

definition fcStep ::
  "DiffDirection \<Rightarrow> (FileContractID \<rightharpoonup> FileContract) \<times> (BlockHeight \<rightharpoonup> FileContractID set)
     \<Rightarrow> FileContractDiff
     \<Rightarrow> error + (FileContractID \<rightharpoonup> FileContract) \<times> (BlockHeight \<rightharpoonup> FileContractID set)" where
  "fcStep dir s d =
     (let f = fst s; x = snd s; we = WindowEnd (fcd_FileContract d); i = fcd_ID d in
      if (f i \<noteq> None) = (fcd_Direction d = dir) then Inl errBadCommitFileContractDiff
      else if fcd_Direction d = dir then
        (case x we of
           None \<Rightarrow> Inr (f(i \<mapsto> fcd_FileContract d), x(we \<mapsto> {i}))
         | Some s \<Rightarrow>
             if i \<in> s then Inl errExistingFileContractExpiration
             else Inr (f(i \<mapsto> fcd_FileContract d), x(we \<mapsto> insert i s)))
      else
        (case x we of
           None \<Rightarrow> Inl errBadExpirationPointer
         | Some s \<Rightarrow>
             if i \<notin> s then Inl errBadExpirationPointer
             else Inr (f(i := None), x(we \<mapsto> s - {i}))))"

definition withTables ::
  "'txn ConsensusSet \<Rightarrow> (SiacoinOutputID \<rightharpoonup> SiacoinOutput)
     \<Rightarrow> (FileContractID \<rightharpoonup> FileContract) \<times> (BlockHeight \<rightharpoonup> FileContractID set)
     \<Rightarrow> (SiafundOutputID \<rightharpoonup> SiafundOutput)
     \<Rightarrow> (BlockHeight \<rightharpoonup> (SiacoinOutputID, SiacoinOutput) fmap) \<Rightarrow> Currency
     \<Rightarrow> 'txn ConsensusSet" where
  "withTables cs t1 fx t3 t4 p =
     cs\<lparr>db := (db cs)\<lparr>siacoinOutputs := t1, fileContracts := fst fx, siafundOutputs := t3,
                        delayedSiacoinOutputs := t4, fcExpirations := snd fx\<rparr>,
        fileContractExpirations := snd fx, siafundPool := p\<rparr>"

definition inOrder :: "DiffDirection \<Rightarrow> 'a list \<Rightarrow> 'a list" where
  "inOrder dir xs = (if dir = DiffApply then xs else rev xs)"

text \<open>
  The five parts together, the commit of a diff of any kind on them, and the diffs of one
  kind in a list of diffs.
\<close>

type_synonym tables =
  "(SiacoinOutputID \<rightharpoonup> SiacoinOutput)
   \<times> ((FileContractID \<rightharpoonup> FileContract) \<times> (BlockHeight \<rightharpoonup> FileContractID set))
   \<times> (SiafundOutputID \<rightharpoonup> SiafundOutput)
   \<times> (BlockHeight \<rightharpoonup> (SiacoinOutputID, SiacoinOutput) fmap)
   \<times> Currency"

definition tablesOf :: "'txn ConsensusSet \<Rightarrow> tables" where
  "tablesOf cs =
     (siacoinOutputs (db cs), (fileContracts (db cs), fcExpirations (db cs)),
      siafundOutputs (db cs), delayedSiacoinOutputs (db cs), siafundPool cs)"

fun setTables :: "'txn ConsensusSet \<Rightarrow> tables \<Rightarrow> 'txn ConsensusSet" where
  "setTables cs (t1, fx, t3, t4, p) = withTables cs t1 fx t3 t4 p"

fun diffStep :: "DiffDirection \<Rightarrow> tables \<Rightarrow> diff \<Rightarrow> error + tables" where
  "diffStep dir (t1, fx, t3, t4, p) (SCOD d) = andThen (scStep dir t1 d) (\<lambda>t. Inr (t, fx, t3, t4, p))"
| "diffStep dir (t1, fx, t3, t4, p) (FCD d) = andThen (fcStep dir fx d) (\<lambda>t. Inr (t1, t, t3, t4, p))"
| "diffStep dir (t1, fx, t3, t4, p) (SFOD d) = andThen (sfStep dir t3 d) (\<lambda>t. Inr (t1, fx, t, t4, p))"
| "diffStep dir (t1, fx, t3, t4, p) (DSCOD d) = andThen (dsStep dir t4 d) (\<lambda>t. Inr (t1, fx, t3, t, p))"
| "diffStep dir (t1, fx, t3, t4, p) (SFPD d) = andThen (poolStep dir p d) (\<lambda>t. Inr (t1, fx, t3, t4, t))"

fun scodsOf :: "diff list \<Rightarrow> SiacoinOutputDiff list" where
  "scodsOf [] = []"
| "scodsOf (SCOD d # ds) = d # scodsOf ds"
| "scodsOf (_ # ds) = scodsOf ds"

fun fcdsOf :: "diff list \<Rightarrow> FileContractDiff list" where
  "fcdsOf [] = []"
| "fcdsOf (FCD d # ds) = d # fcdsOf ds"
| "fcdsOf (_ # ds) = fcdsOf ds"

fun sfodsOf :: "diff list \<Rightarrow> SiafundOutputDiff list" where
  "sfodsOf [] = []"
| "sfodsOf (SFOD d # ds) = d # sfodsOf ds"
| "sfodsOf (_ # ds) = sfodsOf ds"

fun dscodsOf :: "diff list \<Rightarrow> DelayedSiacoinOutputDiff list" where
  "dscodsOf [] = []"
| "dscodsOf (DSCOD d # ds) = d # dscodsOf ds"
| "dscodsOf (_ # ds) = dscodsOf ds"

fun sfpdsOf :: "diff list \<Rightarrow> SiafundPoolDiff list" where
  "sfpdsOf [] = []"
| "sfpdsOf (SFPD d # ds) = d # sfpdsOf ds"
| "sfpdsOf (_ # ds) = sfpdsOf ds"

text \<open>
  \<open>nodeDiffs pb dir\<close> is the list of the diffs of a block in the order in which
  \<^verbatim>\<open>commitNodeDiffs\<close> commits them; \<open>restate cs T pth n\<close> is the consensus set \<open>cs\<close>
  with the tables \<open>T\<close>, the current path \<open>pth\<close> and \<open>n\<close> loaded blocks.
\<close>

definition nodeDiffs :: "'txn processedBlock \<Rightarrow> DiffDirection \<Rightarrow> diff list" where
  "nodeDiffs pb dir =
     map SCOD (inOrder dir (SiacoinOutputDiffs pb)) @
     map FCD (inOrder dir (FileContractDiffs pb)) @
     map SFOD (inOrder dir (SiafundOutputDiffs pb)) @
     map DSCOD (inOrder dir (DelayedSiacoinOutputDiffs pb)) @
     map SFPD (inOrder dir (SiafundPoolDiffs pb))"

definition restate :: "'txn ConsensusSet \<Rightarrow> tables \<Rightarrow> BlockID list \<Rightarrow> 64 word \<Rightarrow> 'txn ConsensusSet" where
  "restate cs T pth n =
     (setTables cs T)\<lparr>db := (db (setTables cs T))\<lparr>path := pth\<rparr>, blocksLoaded := n\<rparr>"

subsection \<open>Diff sets that record what they delete\<close>

text \<open>
  A diff that deletes an entry when it is applied (a Revert-direction diff) carries the
  entry, so that reverting the diff can put it back. The predicates below replay a list
  of diffs on a table, in the Apply direction, and say that every Revert-direction diff
  of the list carries the entry that the table holds for its id at that moment.
\<close>

fun scodsRecord :: "(SiacoinOutputID \<rightharpoonup> SiacoinOutput) \<Rightarrow> SiacoinOutputDiff list \<Rightarrow> bool" where
  "scodsRecord t [] = True"
| "scodsRecord t (d # ds) =
     (if scod_Direction d = DiffApply
      then scodsRecord (t(scod_ID d \<mapsto> scod_SiacoinOutput d)) ds
      else t (scod_ID d) = Some (scod_SiacoinOutput d) \<and> scodsRecord (t(scod_ID d := None)) ds)"

fun sfodsRecord :: "(SiafundOutputID \<rightharpoonup> SiafundOutput) \<Rightarrow> SiafundOutputDiff list \<Rightarrow> bool" where
  "sfodsRecord t [] = True"
| "sfodsRecord t (d # ds) =
     (if sfod_Direction d = DiffApply
      then sfodsRecord (t(sfod_ID d \<mapsto> sfod_SiafundOutput d)) ds
      else t (sfod_ID d) = Some (sfod_SiafundOutput d) \<and> sfodsRecord (t(sfod_ID d := None)) ds)"

fun fcdsRecord :: "(FileContractID \<rightharpoonup> FileContract) \<Rightarrow> FileContractDiff list \<Rightarrow> bool" where
  "fcdsRecord t [] = True"
| "fcdsRecord t (d # ds) =
     (if fcd_Direction d = DiffApply
      then fcdsRecord (t(fcd_ID d \<mapsto> fcd_FileContract d)) ds
      else t (fcd_ID d) = Some (fcd_FileContract d) \<and> fcdsRecord (t(fcd_ID d := None)) ds)"

fun dscodsRecord ::
  "(BlockHeight \<rightharpoonup> (SiacoinOutputID, SiacoinOutput) fmap) \<Rightarrow> DelayedSiacoinOutputDiff list \<Rightarrow> bool" where
  "dscodsRecord t [] = True"
| "dscodsRecord t (d # ds) =
     (case t (dscod_MaturityHeight d) of
        None \<Rightarrow> True
      | Some m \<Rightarrow>
          if dscod_Direction d = DiffApply
          then dscodsRecord (t(dscod_MaturityHeight d \<mapsto> fmupd (dscod_ID d) (dscod_SiacoinOutput d) m)) ds
          else fmlookup m (dscod_ID d) = Some (dscod_SiacoinOutput d) \<and>
               dscodsRecord (t(dscod_MaturityHeight d \<mapsto> fmdrop (dscod_ID d) m)) ds)"

text \<open>
  \<open>emptyBucketsAdded W x y\<close>: the buckets \<open>y\<close> are the buckets \<open>x\<close> and, at some of the
  heights in \<open>W\<close> at which \<open>x\<close> has no bucket, an empty bucket.
\<close>

definition emptyBucketsAdded ::
  "BlockHeight set \<Rightarrow> (BlockHeight \<rightharpoonup> FileContractID set) \<Rightarrow> (BlockHeight \<rightharpoonup> FileContractID set) \<Rightarrow> bool" where
  "emptyBucketsAdded W x y = (\<forall>h. y h = x h \<or> (h \<in> W \<and> x h = None \<and> y h = Some {}))"

definition newWindowEnds :: "FileContractDiff list \<Rightarrow> BlockHeight set" where
  "newWindowEnds ds = {WindowEnd (fcd_FileContract d) | d. d \<in> set ds \<and> fcd_Direction d = DiffApply}"

text \<open>
  A transaction of the examples is valid if it spends distinct outputs that are in the
  table of siacoin outputs. It causes a Revert-direction diff for every output it spends,
  with the output as the table has it, and an Apply-direction diff for every output and
  every file contract it creates. The helpers of the examples are the methods as modelled
  from the specification; the maintenance of a block is the maturing of its delayed
  outputs (the blocks of the examples have no miner payouts and no expiring contracts).
\<close>

definition exValidTransaction :: "exTxn ConsensusSet \<Rightarrow> exTxn \<Rightarrow> error option" where
  "exValidTransaction cs txn =
     (if \<not> distinct (txn_SiacoinInputs txn)
         \<or> (\<exists>i \<in> set (txn_SiacoinInputs txn). siacoinOutputs (db cs) i = None)
      then Some (errInvalidTransaction 0) else None)"

definition exTxnDiffs :: "exTxn ConsensusSet \<Rightarrow> exTxn \<Rightarrow> diff list" where
  "exTxnDiffs cs txn =
     concat (map (\<lambda>i. case siacoinOutputs (db cs) i of
                         None \<Rightarrow> []
                       | Some sco \<Rightarrow>
                           [SCOD \<lparr>scod_Direction = DiffRevert, scod_ID = i, scod_SiacoinOutput = sco\<rparr>])
                 (txn_SiacoinInputs txn)) @
     map (\<lambda>(i, sco). SCOD \<lparr>scod_Direction = DiffApply, scod_ID = i, scod_SiacoinOutput = sco\<rparr>)
       (txn_SiacoinOutputs txn) @
     map (\<lambda>(i, fc). FCD \<lparr>fcd_Direction = DiffApply, fcd_ID = i, fcd_FileContract = fc\<rparr>)
       (txn_FileContracts txn)"

definition exHelpers :: "build \<Rightarrow> exTxn helpers" where
  "exHelpers b =
     \<lparr>validTransaction = exValidTransaction,
      applyTransaction = spec_applyTransaction b exTxnDiffs,
      applyMaturedSiacoinOutputs = spec_applyMaturedSiacoinOutputs b,
      applyMaintenance = spec_applyMaturedSiacoinOutputs b,
      deleteNode = spec_deleteNode,
      consensusSetHash = (\<lambda>cs. 0)\<rparr>"

text \<open>
  A block at height 1 on top of the genesis block, not yet processed, with two
  transactions: the first spends output 1 and creates output 2 and the file contract 4,
  whose window ends at height 9; the second spends output 1 again. The consensus set
  holds output 1 and has the block in its block map.
\<close>

definition exTxnA :: exTxn where
  "exTxnA = \<lparr>txn_SiacoinInputs = [1], txn_SiacoinOutputs = [(2, exOutput)],
     txn_FileContracts = [(4, \<lparr>Payout = 10, WindowStart = 8, WindowEnd = 9\<rparr>)]\<rparr>"

definition exTxnB :: exTxn where
  "exTxnB = \<lparr>txn_SiacoinInputs = [1], txn_SiacoinOutputs = [(3, exOutput)], txn_FileContracts = []\<rparr>"

definition exNewBlock :: "exTxn list \<Rightarrow> exTxn processedBlock" where
  "exNewBlock txns = exGenesis\<lparr>pb_Block := \<lparr>blk_ID = 1, Transactions = txns\<rparr>, Height := 1,
     Parent := 0, DiffsGenerated := False\<rparr>"

definition exCS1 :: "exTxn list \<Rightarrow> exTxn ConsensusSet" where
  "exCS1 txns = exCS\<lparr>db := exDB\<lparr>siacoinOutputs := [1 \<mapsto> exOutput],
     blockMap := [0 \<mapsto> exGenesis, 1 \<mapsto> exNewBlock txns]\<rparr>\<rparr>"

text \<open>
  A processed block at height 1 whose diff set creates the file contract 4, with a window
  that ends at height 9, and the consensus set \<open>exCS\<close> after that block.
\<close>

definition exBlockFC :: "exTxn processedBlock" where
  "exBlockFC = exGenesis\<lparr>pb_Block := \<lparr>blk_ID = 1, Transactions = []\<rparr>, Height := 1, Parent := 0,
     FileContractDiffs :=
       [\<lparr>fcd_Direction = DiffApply, fcd_ID = 4,
         fcd_FileContract = \<lparr>Payout = 10, WindowStart = 8, WindowEnd = 9\<rparr>\<rparr>]\<rparr>"

definition exCSFC :: "exTxn ConsensusSet" where
  "exCSFC = exCS\<lparr>db := exDB\<lparr>fileContracts := [4 \<mapsto> \<lparr>Payout = 10, WindowStart = 8, WindowEnd = 9\<rparr>],
       delayedSiacoinOutputs := [3 \<mapsto> fmempty, 4 \<mapsto> fmempty], fcExpirations := [9 \<mapsto> {4}],
       path := [0, 1]\<rparr>,
     fileContractExpirations := [9 \<mapsto> {4}], blocksLoaded := 2\<rparr>"

text \<open>
  The block \<open>exNewBlock [exTxnA, exTxnB]\<close> as the rejected call leaves it: the diffs of the
  first transaction are recorded.
\<close>

definition exRejected :: "exTxn processedBlock" where
  "exRejected = (exNewBlock [exTxnA, exTxnB])\<lparr>DiffsGenerated := True,
     SiacoinOutputDiffs :=
       [\<lparr>scod_Direction = DiffRevert, scod_ID = 1, scod_SiacoinOutput = exOutput\<rparr>,
        \<lparr>scod_Direction = DiffApply, scod_ID = 2, scod_SiacoinOutput = exOutput\<rparr>],
     FileContractDiffs :=
       [\<lparr>fcd_Direction = DiffApply, fcd_ID = 4,
         fcd_FileContract = \<lparr>Payout = 10, WindowStart = 8, WindowEnd = 9\<rparr>\<rparr>]\<rparr>"

text \<open>
  A processed block at height 1 with one siafund-pool diff, from 2 to 4.
\<close>

definition exBlockPool :: "exTxn processedBlock" where
  "exBlockPool = exGenesis\<lparr>pb_Block := \<lparr>blk_ID = 1, Transactions = []\<rparr>, Height := 1, Parent := 0,
     SiafundPoolDiffs := [\<lparr>sfpd_Direction = DiffApply, sfpd_Previous = 2, sfpd_Adjusted = 4\<rparr>]\<rparr>"

section \<open>Properties\<close>

subsection \<open>Sequencing and iteration\<close>

lemma andThen_Inr [simp]: "andThen (Inr x) f = f x"
  by (simp add: andThen_def)
lemma andThen_Inl [simp]: "andThen (Inl e) f = Inl e"
  by (simp add: andThen_def)

lemma andThen_eq_Inr: "andThen m f = Inr y \<longleftrightarrow> (\<exists>x. m = Inr x \<and> f x = Inr y)"
  by (cases m) auto

lemma forEach_append: "forEach f (xs @ ys) s = andThen (forEach f xs s) (forEach f ys)"
  by (induction xs arbitrary: s) (auto simp: andThen_def split: sum.splits)

lemma forEach_map: "forEach f (map g xs) s = forEach (\<lambda>s x. f s (g x)) xs s"
  by (induction xs arbitrary: s) (auto simp: andThen_def split: sum.splits)

lemma forEachDown_take: "n \<le> length xs \<Longrightarrow> forEachDown f xs n s = forEach f (rev (take n xs)) s"
proof (induction n arbitrary: s)
  case 0 show ?case by simp
next
  case (Suc n)
  then have "take (Suc n) xs = take n xs @ [xs ! n]" by (simp add: take_Suc_conv_app_nth)
  with Suc show ?case by (simp add: andThen_def split: sum.splits)
qed

lemma forEachDown_rev: "forEachDown f xs (length xs) = forEach f (rev xs)"
  by (rule ext) (simp add: forEachDown_take)

lemma forEach_append_fun: "forEach f (xs @ ys) = (\<lambda>s. andThen (forEach f xs s) (forEach f ys))"
  by (rule ext) (rule forEach_append)

lemma forEach_map_fun: "forEach f (map g xs) = forEach (\<lambda>s x. f s (g x)) xs"
  by (rule ext) (rule forEach_map)

lemma commitNodeDiffs_seq:
  "commitNodeDiffs b cs pb dir =
     forEach (\<lambda>c (d, r). commitDiff b c d r) (spec_commit_sequence pb dir) cs"
  by (cases dir)
     (simp_all add: commitNodeDiffs_def spec_commit_sequence_def forEach_append_fun
        forEach_map_fun forEachDown_rev)

subsection \<open>The order of the commits of a diff set\<close>

text \<open>
  Claim C3. \<^verbatim>\<open>commitNodeDiffs\<close>, the step of \<^verbatim>\<open>commitDiffSet\<close> that commits
  the diffs, runs exactly the sequence of single commits the specification describes: for
  Apply the five lists in the order siacoin outputs, file contracts, siafund outputs,
  delayed siacoin outputs, siafund pool, each in recorded order and with the requested
  direction; for Revert the same five lists in the same order, each in reverse recorded
  order and with the inverse direction (Revert). The first panic ends both runs alike.
\<close>

theorem commitNodeDiffs_order:
  "commitNodeDiffs b cs pb dir =
     forEach (\<lambda>c (d, r). commitDiff b c d r) (spec_commit_sequence pb dir) cs"
  by (rule commitNodeDiffs_seq)

theorem commitNodeDiffs_order_witness:
  "commitNodeDiffs exBuild exCS
     (exGenesis\<lparr>SiacoinOutputDiffs :=
        [\<lparr>scod_Direction = DiffApply, scod_ID = 1, scod_SiacoinOutput = exOutput\<rparr>,
         \<lparr>scod_Direction = DiffApply, scod_ID = 2, scod_SiacoinOutput = exOutput\<rparr>],
       SiafundPoolDiffs := [\<lparr>sfpd_Direction = DiffApply, sfpd_Previous = 5, sfpd_Adjusted = 0\<rparr>]\<rparr>)
     DiffRevert
   = forEach (\<lambda>c (d, r). commitDiff exBuild c d r)
      [(SCOD \<lparr>scod_Direction = DiffApply, scod_ID = 2, scod_SiacoinOutput = exOutput\<rparr>, DiffRevert),
       (SCOD \<lparr>scod_Direction = DiffApply, scod_ID = 1, scod_SiacoinOutput = exOutput\<rparr>, DiffRevert),
       (SFPD \<lparr>sfpd_Direction = DiffApply, sfpd_Previous = 5, sfpd_Adjusted = 0\<rparr>, DiffRevert)] exCS"
  using commitNodeDiffs_order [of exBuild exCS
     "exGenesis\<lparr>SiacoinOutputDiffs :=
        [\<lparr>scod_Direction = DiffApply, scod_ID = 1, scod_SiacoinOutput = exOutput\<rparr>,
         \<lparr>scod_Direction = DiffApply, scod_ID = 2, scod_SiacoinOutput = exOutput\<rparr>],
       SiafundPoolDiffs := [\<lparr>sfpd_Direction = DiffApply, sfpd_Previous = 5, sfpd_Adjusted = 0\<rparr>]\<rparr>"
     DiffRevert]
  by (simp add: spec_commit_sequence_def exGenesis_def)

subsection \<open>Committing a single diff\<close>

text \<open>The primitives of the database, to unfold them together.\<close>

lemmas db_prims = inSiacoinOutputs_def addSiacoinOutputs_def rmSiacoinOutputs_def
  inFileContracts_def addFileContracts_def rmFileContracts_def
  inSiafundOutputs_def addSiafundOutputs_def rmSiafundOutputs_def
  inDelayedSiacoinOutputs_def inDelayedSiacoinOutputsHeight_def lenDelayedSiacoinOutputsHeight_def
  addDelayedSiacoinOutputs_def rmDelayedSiacoinOutputs_def
  addDelayedSiacoinOutputsHeight_def rmDelayedSiacoinOutputsHeight_def
  inFCExpirations_def inFCExpirationsHeight_def addFCExpirations_def
  addFCExpirationsHeight_def rmFCExpirationsHeight_def

text \<open>
  With \<^verbatim>\<open>updateDatabase\<close> unset, committing an Apply-direction siacoin-output diff in the
  Apply direction returns at once: the output it refers to is not inserted.
\<close>

theorem commit_direction_counterexample:
  "scod_Direction \<lparr>scod_Direction = DiffApply, scod_ID = 1, scod_SiacoinOutput = exOutput\<rparr> = DiffApply
   \<and> commitSiacoinOutputDiff exBuild (exCS\<lparr>updateDatabase := False\<rparr>)
        \<lparr>scod_Direction = DiffApply, scod_ID = 1, scod_SiacoinOutput = exOutput\<rparr> DiffApply
      = Inr (exCS\<lparr>updateDatabase := False\<rparr>)
   \<and> siacoinOutputs (db (exCS\<lparr>updateDatabase := False\<rparr>)) 1 = None"
  by (simp add: commitSiacoinOutputDiff_def exCS_def exDB_def)

text \<open>
  Claim C4, amended. When \<^verbatim>\<open>updateDatabase\<close> is set and the diff is consistent with its
  table (the id is absent where the commit inserts, present where it deletes), committing
  a diff \<open>d\<close> in direction \<open>dir\<close> inserts the entry the diff refers to into its table if
  \<open>d.Direction = dir\<close> and deletes it otherwise. This holds for siacoin-output diffs, for
  siafund-output diffs, for delayed-siacoin-output diffs (on the bucket of the maturity
  height, which has to exist) and, on the table of file contracts, for every
  file-contract diff whose commit returns.
\<close>

theorem commit_direction:
  assumes "updateDatabase cs"
  shows "((siacoinOutputs (db cs) (scod_ID scod) \<noteq> None) \<noteq> (scod_Direction scod = dir) \<longrightarrow>
      commitSiacoinOutputDiff b cs scod dir =
        Inr (cs\<lparr>db := (db cs)\<lparr>siacoinOutputs :=
          (if scod_Direction scod = dir
           then (siacoinOutputs (db cs))(scod_ID scod \<mapsto> scod_SiacoinOutput scod)
           else (siacoinOutputs (db cs))(scod_ID scod := None))\<rparr>\<rparr>))
    \<and> ((siafundOutputs (db cs) (sfod_ID sfod) \<noteq> None) \<noteq> (sfod_Direction sfod = dir) \<longrightarrow>
      commitSiafundOutputDiff b cs sfod dir =
        Inr (cs\<lparr>db := (db cs)\<lparr>siafundOutputs :=
          (if sfod_Direction sfod = dir
           then (siafundOutputs (db cs))(sfod_ID sfod \<mapsto> sfod_SiafundOutput sfod)
           else (siafundOutputs (db cs))(sfod_ID sfod := None))\<rparr>\<rparr>))
    \<and> (delayedSiacoinOutputs (db cs) (dscod_MaturityHeight dscod) = Some m \<and>
        (fmlookup m (dscod_ID dscod) \<noteq> None) \<noteq> (dscod_Direction dscod = dir) \<longrightarrow>
      commitDelayedSiacoinOutputDiff b cs dscod dir =
        Inr (cs\<lparr>db := (db cs)\<lparr>delayedSiacoinOutputs :=
          (delayedSiacoinOutputs (db cs))(dscod_MaturityHeight dscod \<mapsto>
            (if dscod_Direction dscod = dir
             then fmupd (dscod_ID dscod) (dscod_SiacoinOutput dscod) m
             else fmdrop (dscod_ID dscod) m))\<rparr>\<rparr>))
    \<and> (commitFileContractDiff b cs fcd dir = Inr cs' \<longrightarrow>
        fileContracts (db cs') =
          (if fcd_Direction fcd = dir
           then (fileContracts (db cs))(fcd_ID fcd \<mapsto> fcd_FileContract fcd)
           else (fileContracts (db cs))(fcd_ID fcd := None)))"
proof (intro conjI impI)
  show "commitFileContractDiff b cs fcd dir = Inr cs' \<Longrightarrow> fileContracts (db cs') =
          (if fcd_Direction fcd = dir
           then (fileContracts (db cs))(fcd_ID fcd \<mapsto> fcd_FileContract fcd)
           else (fileContracts (db cs))(fcd_ID fcd := None))"
    using assms
    by (auto simp: commitFileContractDiff_def Let_def db_prims andThen_def
          split: if_splits sum.splits option.splits)
qed (use assms in \<open>auto simp: commitSiacoinOutputDiff_def commitSiafundOutputDiff_def
       commitDelayedSiacoinOutputDiff_def db_prims andThen_def\<close>)

theorem commit_direction_witness:
  "updateDatabase exCS
   \<and> commitSiacoinOutputDiff exBuild exCS
        \<lparr>scod_Direction = DiffApply, scod_ID = 1, scod_SiacoinOutput = exOutput\<rparr> DiffApply
      = Inr (exCS\<lparr>db := exDB\<lparr>siacoinOutputs := [1 \<mapsto> exOutput]\<rparr>\<rparr>)
   \<and> commitDelayedSiacoinOutputDiff exBuild exCS
        \<lparr>dscod_Direction = DiffRevert, dscod_ID = 1, dscod_SiacoinOutput = exOutput,
          dscod_MaturityHeight = 3\<rparr> DiffRevert
      = Inr (exCS\<lparr>db := exDB\<lparr>delayedSiacoinOutputs := [3 \<mapsto> fmupd 1 exOutput fmempty]\<rparr>\<rparr>)"
  using commit_direction [where cs = exCS and b = exBuild and dir = DiffApply and
          scod = "\<lparr>scod_Direction = DiffApply, scod_ID = 1, scod_SiacoinOutput = exOutput\<rparr>"]
        commit_direction [where cs = exCS and b = exBuild and dir = DiffRevert and m = fmempty and
          dscod = "\<lparr>dscod_Direction = DiffRevert, dscod_ID = 1, dscod_SiacoinOutput = exOutput,
             dscod_MaturityHeight = 3\<rparr>"]
  by (simp add: exCS_def exDB_def)

text \<open>
  In a build without \<^verbatim>\<open>build.DEBUG\<close> a siafund-pool diff whose direction is not Apply and
  whose adjusted value is below its previous value is committed without any failure.
\<close>

theorem commitSiafundPoolDiff_counterexample:
  "commitSiafundPoolDiff \<lparr>DEBUG = False, MaturityDelay = 3\<rparr> exCS
     \<lparr>sfpd_Direction = DiffRevert, sfpd_Previous = 9, sfpd_Adjusted = 4\<rparr> DiffApply
   = Inr (exCS\<lparr>siafundPool := 4\<rparr>)"
  by (simp add: commitSiafundPoolDiff_def)

text \<open>
  Claim C5, amended. \<^verbatim>\<open>commitSiafundPoolDiff\<close> fails if and only if the build has
  \<^verbatim>\<open>build.DEBUG\<close> set and the direction of the diff is not Apply, or \<open>Adjusted < Previous\<close>,
  or (committing in the Apply direction) the pool differs from \<open>Previous\<close>, or (committing
  in the Revert direction) the pool differs from \<open>Adjusted\<close>. Whenever it does not fail
  it sets the pool to \<open>Adjusted\<close> on Apply and to \<open>Previous\<close> on Revert; without
  \<^verbatim>\<open>build.DEBUG\<close> it never fails.
\<close>

theorem commitSiafundPoolDiff_fails_iff:
  "((\<exists>e. commitSiafundPoolDiff b cs sfpd dir = Inl e) \<longleftrightarrow>
      DEBUG b \<and> (sfpd_Direction sfpd \<noteq> DiffApply \<or> sfpd_Adjusted sfpd < sfpd_Previous sfpd
        \<or> (dir = DiffApply \<and> siafundPool cs \<noteq> sfpd_Previous sfpd)
        \<or> (dir = DiffRevert \<and> siafundPool cs \<noteq> sfpd_Adjusted sfpd)))
   \<and> ((\<forall>e. commitSiafundPoolDiff b cs sfpd dir \<noteq> Inl e) \<longrightarrow>
        commitSiafundPoolDiff b cs sfpd dir =
          Inr (cs\<lparr>siafundPool := (if dir = DiffApply then sfpd_Adjusted sfpd else sfpd_Previous sfpd)\<rparr>))"
  by (cases dir) (auto simp: commitSiafundPoolDiff_def)

theorem commitSiafundPoolDiff_fails_iff_witness:
  "(\<exists>e. commitSiafundPoolDiff exBuild exCS
          \<lparr>sfpd_Direction = DiffApply, sfpd_Previous = 9, sfpd_Adjusted = 12\<rparr> DiffApply = Inl e)
   \<and> commitSiafundPoolDiff exBuild (exCS\<lparr>siafundPool := 9\<rparr>)
          \<lparr>sfpd_Direction = DiffApply, sfpd_Previous = 9, sfpd_Adjusted = 12\<rparr> DiffApply
       = Inr (exCS\<lparr>siafundPool := 12\<rparr>)
   \<and> commitSiafundPoolDiff exBuild (exCS\<lparr>siafundPool := 12\<rparr>)
          \<lparr>sfpd_Direction = DiffApply, sfpd_Previous = 9, sfpd_Adjusted = 12\<rparr> DiffRevert
       = Inr (exCS\<lparr>siafundPool := 9\<rparr>)"
  using commitSiafundPoolDiff_fails_iff [of exBuild exCS
          "\<lparr>sfpd_Direction = DiffApply, sfpd_Previous = 9, sfpd_Adjusted = 12\<rparr>" DiffApply]
        commitSiafundPoolDiff_fails_iff [of exBuild "exCS\<lparr>siafundPool := 9\<rparr>"
          "\<lparr>sfpd_Direction = DiffApply, sfpd_Previous = 9, sfpd_Adjusted = 12\<rparr>" DiffApply]
        commitSiafundPoolDiff_fails_iff [of exBuild "exCS\<lparr>siafundPool := 12\<rparr>"
          "\<lparr>sfpd_Direction = DiffApply, sfpd_Previous = 9, sfpd_Adjusted = 12\<rparr>" DiffRevert]
  by (simp add: exBuild_def exCS_def)

text \<open>
  With \<^verbatim>\<open>updateDatabase\<close> unset, committing a diff that would insert an output already in
  the table returns without a failure.
\<close>

theorem commitSiacoinOutputDiff_sanity_counterexample:
  "siacoinOutputs (db (exCS\<lparr>db := exDB\<lparr>siacoinOutputs := [1 \<mapsto> exOutput]\<rparr>, updateDatabase := False\<rparr>)) 1
     = Some exOutput
   \<and> commitSiacoinOutputDiff exBuild
        (exCS\<lparr>db := exDB\<lparr>siacoinOutputs := [1 \<mapsto> exOutput]\<rparr>, updateDatabase := False\<rparr>)
        \<lparr>scod_Direction = DiffApply, scod_ID = 1, scod_SiacoinOutput = exOutput\<rparr> DiffApply
      = Inr (exCS\<lparr>db := exDB\<lparr>siacoinOutputs := [1 \<mapsto> exOutput]\<rparr>, updateDatabase := False\<rparr>)"
  by (simp add: commitSiacoinOutputDiff_def)

text \<open>
  Claim C7, amended. When \<^verbatim>\<open>updateDatabase\<close> is set and the build has \<^verbatim>\<open>build.DEBUG\<close>,
  committing a siacoin-output diff whose effective operation would insert an id that is in
  the table of siacoin outputs, or delete an id that is not in it, fails with
  \<open>errBadCommitSiacoinOutputDiff\<close>; if the diff is consistent with the table (an effective
  insert of an absent id, an effective delete of a present id) the commit returns and the
  failure is not reached.
\<close>

theorem commitSiacoinOutputDiff_sanity:
  assumes "updateDatabase cs" and "DEBUG b"
  shows "((scod_Direction scod = dir \<and> siacoinOutputs (db cs) (scod_ID scod) \<noteq> None)
          \<or> (scod_Direction scod \<noteq> dir \<and> siacoinOutputs (db cs) (scod_ID scod) = None)
        \<longrightarrow> commitSiacoinOutputDiff b cs scod dir = Inl errBadCommitSiacoinOutputDiff)
     \<and> ((scod_Direction scod = dir \<longrightarrow> siacoinOutputs (db cs) (scod_ID scod) = None)
          \<and> (scod_Direction scod \<noteq> dir \<longrightarrow> siacoinOutputs (db cs) (scod_ID scod) \<noteq> None)
        \<longrightarrow> (\<exists>cs'. commitSiacoinOutputDiff b cs scod dir = Inr cs'))"
  using assms by (auto simp: commitSiacoinOutputDiff_def db_prims)

theorem commitSiacoinOutputDiff_sanity_witness:
  "updateDatabase exCS \<and> DEBUG exBuild
   \<and> commitSiacoinOutputDiff exBuild exCS
        \<lparr>scod_Direction = DiffApply, scod_ID = 1, scod_SiacoinOutput = exOutput\<rparr> DiffRevert
      = Inl errBadCommitSiacoinOutputDiff
   \<and> (\<exists>cs'. commitSiacoinOutputDiff exBuild exCS
        \<lparr>scod_Direction = DiffApply, scod_ID = 1, scod_SiacoinOutput = exOutput\<rparr> DiffApply
      = Inr cs')"
  using commitSiacoinOutputDiff_sanity [of exCS exBuild
          "\<lparr>scod_Direction = DiffApply, scod_ID = 1, scod_SiacoinOutput = exOutput\<rparr>" DiffRevert]
        commitSiacoinOutputDiff_sanity [of exCS exBuild
          "\<lparr>scod_Direction = DiffApply, scod_ID = 1, scod_SiacoinOutput = exOutput\<rparr>" DiffApply]
  by (simp add: exCS_def exDB_def exBuild_def)

text \<open>
  Claim C9. When \<^verbatim>\<open>updateDatabase\<close> is unset, committing a siacoin-output, a
  siafund-output or a delayed-siacoin-output diff returns the consensus set unchanged, while
  \<^verbatim>\<open>commitSiafundPoolDiff\<close> still sets the siafund pool and
  \<^verbatim>\<open>commitFileContractDiff\<close> still changes the in-memory map of file-contract
  expirations (and leaves the database alone): the five kinds of diff are not skipped
  alike.
\<close>

theorem updateDatabase_false_commits:
  assumes "\<not> updateDatabase cs"
  shows "commitSiacoinOutputDiff b cs scod dir = Inr cs
     \<and> commitSiafundOutputDiff b cs sfod dir = Inr cs
     \<and> commitDelayedSiacoinOutputDiff b cs dscod dir = Inr cs
     \<and> (commitSiafundPoolDiff b cs sfpd dir = Inr cs1 \<longrightarrow>
          cs1 = cs\<lparr>siafundPool := (if dir = DiffApply then sfpd_Adjusted sfpd else sfpd_Previous sfpd)\<rparr>)
     \<and> (commitFileContractDiff b cs fcd dir = Inr cs2 \<longrightarrow>
          db cs2 = db cs \<and>
          (if fcd_Direction fcd = dir
           then \<exists>s. fileContractExpirations cs (WindowEnd (fcd_FileContract fcd)) = Some s \<and>
                  fileContractExpirations cs2 =
                    (fileContractExpirations cs)(WindowEnd (fcd_FileContract fcd) \<mapsto> insert (fcd_ID fcd) s)
           else fileContractExpirations cs2 =
                  (case fileContractExpirations cs (WindowEnd (fcd_FileContract fcd)) of
                     None \<Rightarrow> fileContractExpirations cs
                   | Some s \<Rightarrow> (fileContractExpirations cs)
                       (WindowEnd (fcd_FileContract fcd) \<mapsto> s - {fcd_ID fcd}))))"
  using assms
  by (auto simp: commitSiacoinOutputDiff_def commitSiafundOutputDiff_def
        commitDelayedSiacoinOutputDiff_def commitSiafundPoolDiff_def commitFileContractDiff_def
        Let_def split: if_splits option.splits)

theorem updateDatabase_false_commits_witness:
  "\<not> updateDatabase (exCS\<lparr>fileContractExpirations := [9 \<mapsto> {}], updateDatabase := False\<rparr>)
   \<and> commitSiacoinOutputDiff exBuild
        (exCS\<lparr>fileContractExpirations := [9 \<mapsto> {}], updateDatabase := False\<rparr>)
        \<lparr>scod_Direction = DiffApply, scod_ID = 1, scod_SiacoinOutput = exOutput\<rparr> DiffApply
      = Inr (exCS\<lparr>fileContractExpirations := [9 \<mapsto> {}], updateDatabase := False\<rparr>)
   \<and> commitSiafundPoolDiff exBuild
        (exCS\<lparr>fileContractExpirations := [9 \<mapsto> {}], updateDatabase := False\<rparr>)
        \<lparr>sfpd_Direction = DiffApply, sfpd_Previous = 0, sfpd_Adjusted = 5\<rparr> DiffApply
      = Inr (exCS\<lparr>fileContractExpirations := [9 \<mapsto> {}], updateDatabase := False,
               siafundPool := 5\<rparr>)
   \<and> commitFileContractDiff exBuild
        (exCS\<lparr>fileContractExpirations := [9 \<mapsto> {}], updateDatabase := False\<rparr>)
        \<lparr>fcd_Direction = DiffApply, fcd_ID = 4,
          fcd_FileContract = \<lparr>Payout = 10, WindowStart = 8, WindowEnd = 9\<rparr>\<rparr> DiffApply
      = Inr (exCS\<lparr>fileContractExpirations := [9 \<mapsto> {4}], updateDatabase := False\<rparr>)"
  using updateDatabase_false_commits
          [of "exCS\<lparr>fileContractExpirations := [9 \<mapsto> {}], updateDatabase := False\<rparr>" exBuild
            "\<lparr>scod_Direction = DiffApply, scod_ID = 1, scod_SiacoinOutput = exOutput\<rparr>" DiffApply
            sfod dscod "\<lparr>sfpd_Direction = DiffApply, sfpd_Previous = 0, sfpd_Adjusted = 5\<rparr>" cs1
            fcd cs2]
  by (simp add: commitSiafundPoolDiff_def commitFileContractDiff_def exBuild_def exCS_def exDB_def
        db_prims Let_def)

subsection \<open>The siafund pool along a chain of blocks\<close>

lemma forEach_frame:
  assumes "\<And>s x s'. f s x = Inr s' \<Longrightarrow> g s' = g s"
  shows "forEach f xs s = Inr s' \<Longrightarrow> g s' = g s"
proof (induction xs arbitrary: s)
  case Nil then show ?case by simp
next
  case (Cons x xs)
  then obtain s1 where 1: "f s x = Inr s1" and 2: "forEach f xs s1 = Inr s'"
    by (auto simp: andThen_eq_Inr)
  from Cons.IH [OF 2] assms [OF 1] show ?case by simp
qed

lemma commitSiacoinOutputDiff_pool:
  "commitSiacoinOutputDiff b cs d dir = Inr cs' \<Longrightarrow> siafundPool cs' = siafundPool cs"
  by (auto simp: commitSiacoinOutputDiff_def split: if_splits)

lemma commitSiafundOutputDiff_pool:
  "commitSiafundOutputDiff b cs d dir = Inr cs' \<Longrightarrow> siafundPool cs' = siafundPool cs"
  by (auto simp: commitSiafundOutputDiff_def split: if_splits)

lemma commitDelayedSiacoinOutputDiff_pool:
  "commitDelayedSiacoinOutputDiff b cs d dir = Inr cs' \<Longrightarrow> siafundPool cs' = siafundPool cs"
  by (auto simp: commitDelayedSiacoinOutputDiff_def andThen_eq_Inr split: if_splits)

lemma commitFileContractDiff_pool:
  "commitFileContractDiff b cs d dir = Inr cs' \<Longrightarrow> siafundPool cs' = siafundPool cs"
  by (auto simp: commitFileContractDiff_def Let_def andThen_eq_Inr split: if_splits option.splits)

lemma createUpcomingDelayedOutputMaps_pool:
  "createUpcomingDelayedOutputMaps b cs pb dir = Inr cs' \<Longrightarrow> siafundPool cs' = siafundPool cs"
  by (auto simp: createUpcomingDelayedOutputMaps_def andThen_eq_Inr split: if_splits)

lemma deleteObsoleteDelayedOutputMaps_pool:
  "deleteObsoleteDelayedOutputMaps b cs pb dir = Inr cs' \<Longrightarrow> siafundPool cs' = siafundPool cs"
  by (auto simp: deleteObsoleteDelayedOutputMaps_def andThen_eq_Inr split: if_splits)

lemma updateCurrentPath_pool:
  "updateCurrentPath b cs pb dir = Inr cs' \<Longrightarrow> siafundPool cs' = siafundPool cs"
  by (auto simp: updateCurrentPath_def andThen_eq_Inr split: if_splits sum.splits)

lemma poolDiffs_apply:
  "DEBUG b \<Longrightarrow> forEach (\<lambda>c d. commitSiafundPoolDiff b c d DiffApply) ds cs = Inr cs' \<Longrightarrow>
     chainsFrom (siafundPool cs) ds \<and> siafundPool cs' = poolAfter (siafundPool cs) ds"
proof (induction ds arbitrary: cs)
  case Nil then show ?case by simp
next
  case (Cons d ds)
  from Cons.prems(2) obtain c1 where 1: "commitSiafundPoolDiff b cs d DiffApply = Inr c1"
    and 2: "forEach (\<lambda>c d. commitSiafundPoolDiff b c d DiffApply) ds c1 = Inr cs'"
    by (auto simp: andThen_eq_Inr)
  from 1 Cons.prems(1) have 3: "sfpd_Previous d = siafundPool cs" "sfpd_Previous d \<le> sfpd_Adjusted d"
    "siafundPool c1 = sfpd_Adjusted d"
    by (auto simp: commitSiafundPoolDiff_def split: if_splits)
  from Cons.IH [OF Cons.prems(1) 2] 3 show ?case by simp
qed

lemma commitNodeDiffs_apply_pool:
  assumes "DEBUG b" and "commitNodeDiffs b cs pb DiffApply = Inr cs'"
  shows "chainsFrom (siafundPool cs) (SiafundPoolDiffs pb) \<and>
         siafundPool cs' = poolAfter (siafundPool cs) (SiafundPoolDiffs pb)"
proof -
  from assms(2) obtain c1 c2 c3 c4 where
    1: "forEach (\<lambda>c d. commitSiacoinOutputDiff b c d DiffApply) (SiacoinOutputDiffs pb) cs = Inr c1" and
    2: "forEach (\<lambda>c d. commitFileContractDiff b c d DiffApply) (FileContractDiffs pb) c1 = Inr c2" and
    3: "forEach (\<lambda>c d. commitSiafundOutputDiff b c d DiffApply) (SiafundOutputDiffs pb) c2 = Inr c3" and
    4: "forEach (\<lambda>c d. commitDelayedSiacoinOutputDiff b c d DiffApply) (DelayedSiacoinOutputDiffs pb) c3 = Inr c4" and
    5: "forEach (\<lambda>c d. commitSiafundPoolDiff b c d DiffApply) (SiafundPoolDiffs pb) c4 = Inr cs'"
    by (auto simp: commitNodeDiffs_def andThen_eq_Inr)
  have "siafundPool c1 = siafundPool cs"
    by (rule forEach_frame [OF _ 1]) (rule commitSiacoinOutputDiff_pool)
  moreover have "siafundPool c2 = siafundPool c1"
    by (rule forEach_frame [OF _ 2]) (rule commitFileContractDiff_pool)
  moreover have "siafundPool c3 = siafundPool c2"
    by (rule forEach_frame [OF _ 3]) (rule commitSiafundOutputDiff_pool)
  moreover have "siafundPool c4 = siafundPool c3"
    by (rule forEach_frame [OF _ 4]) (rule commitDelayedSiacoinOutputDiff_pool)
  ultimately show ?thesis using poolDiffs_apply [OF assms(1) 5] by simp
qed

lemma commitDiffSet_apply_pool:
  assumes "DEBUG b" and "commitDiffSet b cs pb DiffApply = Inr cs'"
  shows "chainsFrom (siafundPool cs) (SiafundPoolDiffs pb) \<and>
         siafundPool cs' = poolAfter (siafundPool cs) (SiafundPoolDiffs pb)"
proof -
  from assms(2) obtain c1 c2 c3 where
    1: "createUpcomingDelayedOutputMaps b cs pb DiffApply = Inr c1" and
    2: "commitNodeDiffs b c1 pb DiffApply = Inr c2" and
    3: "deleteObsoleteDelayedOutputMaps b c2 pb DiffApply = Inr c3" and
    4: "updateCurrentPath b c3 pb DiffApply = Inr cs'"
    by (auto simp: commitDiffSet_def andThen_eq_Inr)
  from createUpcomingDelayedOutputMaps_pool [OF 1] commitNodeDiffs_apply_pool [OF assms(1) 2]
    deleteObsoleteDelayedOutputMaps_pool [OF 3] updateCurrentPath_pool [OF 4]
  show ?thesis by simp
qed

lemma chainsFrom_append:
  "chainsFrom p (xs @ ys) \<longleftrightarrow> chainsFrom p xs \<and> chainsFrom (poolAfter p xs) ys"
  by (induction xs arbitrary: p) auto

lemma poolAfter_append: "poolAfter p (xs @ ys) = poolAfter (poolAfter p xs) ys"
  by (induction xs arbitrary: p) auto

lemma chainsFrom_le: "chainsFrom p ds \<Longrightarrow> p \<le> poolAfter p ds"
  by (induction ds arbitrary: p) fastforce+

lemma chainsFrom_nth:
  "chainsFrom p ds \<Longrightarrow> n < length ds \<Longrightarrow>
     sfpd_Previous (ds ! n) = (if n = 0 then p else sfpd_Adjusted (ds ! (n - 1)))"
proof (induction ds arbitrary: p n)
  case Nil then show ?case by simp
next
  case (Cons d ds)
  show ?case
  proof (cases n)
    case 0 with Cons.prems show ?thesis by simp
  next
    case (Suc m)
    with Cons.prems have "m < length ds" "chainsFrom (sfpd_Adjusted d) ds" by simp_all
    from Cons.IH [OF this(2) this(1)] Suc show ?thesis by (cases m) simp_all
  qed
qed

lemma applyChain_pool:
  assumes "DEBUG b"
  shows "applyChain b cs pbs = Inr tr \<Longrightarrow>
     hd tr = cs \<and> tr \<noteq> [] \<and> sorted (map siafundPool tr) \<and>
     chainsFrom (siafundPool cs) (concat (map SiafundPoolDiffs pbs)) \<and>
     siafundPool (last tr) = poolAfter (siafundPool cs) (concat (map SiafundPoolDiffs pbs))"
proof (induction pbs arbitrary: cs tr)
  case Nil then show ?case by auto
next
  case (Cons pb pbs)
  from Cons.prems obtain c1 tr1 where 1: "commitDiffSet b cs pb DiffApply = Inr c1"
    and 2: "applyChain b c1 pbs = Inr tr1" and 3: "tr = cs # tr1"
    by (auto simp: andThen_eq_Inr)
  note ih = Cons.IH [OF 2]
  note st = commitDiffSet_apply_pool [OF assms 1]
  from st have le: "siafundPool cs \<le> siafundPool c1" using chainsFrom_le by metis
  from ih have "\<forall>x \<in> set (map siafundPool tr1). siafundPool c1 \<le> x"
    by (cases tr1) (auto)
  with le have "\<forall>x \<in> set (map siafundPool tr1). siafundPool cs \<le> x" by fastforce
  with ih st 3 show ?case by (auto simp: chainsFrom_append poolAfter_append)
qed

lemmas ex_defs = exBuild_def exCS_def exDB_def exGenesis_def exBlock1_def exBlock2_def exCS2_def exBlock5_def exCS5_def
  exOutput_def

lemmas commit_defs = commitDiffSet_def commitDiffSetSanity_def createUpcomingDelayedOutputMaps_def
  commitNodeDiffs_def deleteObsoleteDelayedOutputMaps_def updateCurrentPath_def
  getBlockMap_def currentBlockID_def pushPath_def popPath_def

lemma exChain: "\<exists>tr. applyChain exBuild exCS2 [exBlock1, exBlock2] = Inr tr \<and> map siafundPool tr = [0, 5, 8]"
  by (simp add: ex_defs commit_defs db_prims commitSiafundPoolDiff_def)

text \<open>
  In a build without \<^verbatim>\<open>build.DEBUG\<close> a block whose siafund-pool diff goes from 2 to 4
  is committed on a pool of 9: the pool is 4 afterwards, lower than before, and the previous
  value of the diff was not the value of the pool.
\<close>

theorem siafundPool_chain_counterexample:
  "applyChain \<lparr>DEBUG = False, MaturityDelay = 3\<rparr> (exCS\<lparr>siafundPool := 9\<rparr>) [exBlockPool]
   = Inr [exCS\<lparr>siafundPool := 9\<rparr>,
          exCS\<lparr>db := exDB\<lparr>delayedSiacoinOutputs := [3 \<mapsto> fmempty, 4 \<mapsto> fmempty], path := [0, 1]\<rparr>,
               siafundPool := 4, blocksLoaded := 2\<rparr>]
   \<and> sfpd_Previous (hd (SiafundPoolDiffs exBlockPool)) = 2
   \<and> siafundPool (exCS\<lparr>siafundPool := 9\<rparr>) = 9"
  by (simp add: ex_defs exBlockPool_def commit_defs db_prims commitSiafundPoolDiff_def)

text \<open>
  Claim C6, amended. In a debug build, along any sequence of blocks whose diff sets are
  committed one after the other in the Apply direction without a panic, the siafund pool
  never decreases from one block to the next, and the siafund-pool diffs of the blocks, in
  the order of their commits, chain by equality: the previous value of the first diff is
  the pool before the first block, the previous value of every later diff is the adjusted
  value of the diff before it, that is the value of the pool at the moment the diff is
  applied. A diff set that breaks the chain or lowers the pool is not committed there: the
  commit panics.
\<close>

theorem siafundPool_chain:
  assumes "DEBUG b" and "applyChain b cs pbs = Inr tr"
  shows "sorted (map siafundPool tr)
     \<and> (\<forall>n < length (concat (map SiafundPoolDiffs pbs)).
          sfpd_Previous (concat (map SiafundPoolDiffs pbs) ! n) =
            (if n = 0 then siafundPool cs
             else sfpd_Adjusted (concat (map SiafundPoolDiffs pbs) ! (n - 1))))
     \<and> siafundPool (last tr) = poolAfter (siafundPool cs) (concat (map SiafundPoolDiffs pbs))"
  using applyChain_pool [OF assms] chainsFrom_nth by blast

theorem siafundPool_chain_witness:
  "DEBUG exBuild \<and>
   (\<exists>tr. applyChain exBuild exCS2 [exBlock1, exBlock2] = Inr tr \<and> map siafundPool tr = [0, 5, 8]
      \<and> sorted (map siafundPool tr)
      \<and> (\<forall>n < 3. sfpd_Previous (concat (map SiafundPoolDiffs [exBlock1, exBlock2]) ! n) =
            (if n = 0 then siafundPool exCS2
             else sfpd_Adjusted (concat (map SiafundPoolDiffs [exBlock1, exBlock2]) ! (n - 1)))))"
proof -
  have d: "DEBUG exBuild" by (simp add: exBuild_def)
  obtain tr where t: "applyChain exBuild exCS2 [exBlock1, exBlock2] = Inr tr"
    and m: "map siafundPool tr = [0, 5, 8]"
    using exChain by (elim exE conjE)
  have l: "length (concat (map SiafundPoolDiffs [exBlock1, exBlock2])) = 3"
    by (simp add: ex_defs)
  from siafundPool_chain [OF d t] d t m l show ?thesis by auto
qed

subsection \<open>The buckets of delayed outputs when a block is reverted\<close>

lemma fmdom_fempty_iff [simp]: "fmdom m = {||} \<longleftrightarrow> m = fmempty"
proof
  assume "fmdom m = {||}"
  then show "m = fmempty" by (intro fmap_ext) (simp add: fmdom_notD)
qed simp

lemma commitDiff_updateDatabase:
  "commitDiff b c d r = Inr c' \<Longrightarrow> updateDatabase c' = updateDatabase c"
  by (cases d)
     (auto simp: commitSiacoinOutputDiff_def commitSiafundOutputDiff_def
        commitDelayedSiacoinOutputDiff_def commitSiafundPoolDiff_def commitFileContractDiff_def
        Let_def andThen_eq_Inr split: if_splits option.splits)

lemma commitNodeDiffs_updateDatabase:
  assumes "commitNodeDiffs b c pb dir = Inr c'"
  shows "updateDatabase c' = updateDatabase c"
proof (rule forEach_frame [where g = updateDatabase])
  show "forEach (\<lambda>c (d, r). commitDiff b c d r) (spec_commit_sequence pb dir) c = Inr c'"
    using assms by (simp add: commitNodeDiffs_seq)
qed (auto simp: commitDiff_updateDatabase)

lemma createUpcomingDelayedOutputMaps_updateDatabase:
  "createUpcomingDelayedOutputMaps b c pb dir = Inr c' \<Longrightarrow> updateDatabase c' = updateDatabase c"
  by (auto simp: createUpcomingDelayedOutputMaps_def andThen_eq_Inr split: if_splits)

lemma updateCurrentPath_delayed:
  "updateCurrentPath b c pb dir = Inr c' \<Longrightarrow>
     delayedSiacoinOutputs (db c') = delayedSiacoinOutputs (db c)"
  by (auto simp: updateCurrentPath_def andThen_eq_Inr pushPath_def popPath_def
        split: if_splits sum.splits option.splits)

text \<open>
  Reverting a block of height 1 with a maturity delay of 3: no bucket of height 1 is
  created, neither before the diffs are reverted nor later.
\<close>

theorem revert_delayed_buckets_counterexample:
  "Height exBlock1 = 1 \<and>
   createUpcomingDelayedOutputMaps exBuild
     (exCS2\<lparr>db := (db exCS2)\<lparr>path := [0, 1], delayedSiacoinOutputs := [3 \<mapsto> fmempty, 4 \<mapsto> fmempty]\<rparr>,
            siafundPool := 5, blocksLoaded := 2\<rparr>)
     exBlock1 DiffRevert
   = Inr (exCS2\<lparr>db := (db exCS2)\<lparr>path := [0, 1], delayedSiacoinOutputs := [3 \<mapsto> fmempty, 4 \<mapsto> fmempty]\<rparr>,
            siafundPool := 5, blocksLoaded := 2\<rparr>)
   \<and> commitDiffSet exBuild
     (exCS2\<lparr>db := (db exCS2)\<lparr>path := [0, 1], delayedSiacoinOutputs := [3 \<mapsto> fmempty, 4 \<mapsto> fmempty]\<rparr>,
            siafundPool := 5, blocksLoaded := 2\<rparr>)
     exBlock1 DiffRevert = Inr exCS2
   \<and> delayedSiacoinOutputs (db exCS2) 1 = None"
  by (simp add: ex_defs commit_defs db_prims commitSiafundPoolDiff_def)

lemma reverted_buckets_created_deleted:
  assumes u: "updateDatabase cs" and d: "DEBUG b"
    and c: "commitDiffSet b cs pb DiffRevert = Inr cs'"
  shows "\<exists>c1 c2. createUpcomingDelayedOutputMaps b cs pb DiffRevert = Inr c1
        \<and> (if Height pb > MaturityDelay b
            then delayedSiacoinOutputs (db cs) (Height pb) = None \<and>
                 c1 = cs\<lparr>db := (db cs)\<lparr>delayedSiacoinOutputs :=
                        (delayedSiacoinOutputs (db cs))(Height pb \<mapsto> fmempty)\<rparr>\<rparr>
            else c1 = cs)
        \<and> commitNodeDiffs b c1 pb DiffRevert = Inr c2
        \<and> delayedSiacoinOutputs (db c2) (Height pb + MaturityDelay b) = Some fmempty
        \<and> delayedSiacoinOutputs (db cs') (Height pb + MaturityDelay b) = None"
proof -
  from c obtain c1 c2 c3 where
    1: "createUpcomingDelayedOutputMaps b cs pb DiffRevert = Inr c1" and
    2: "commitNodeDiffs b c1 pb DiffRevert = Inr c2" and
    3: "deleteObsoleteDelayedOutputMaps b c2 pb DiffRevert = Inr c3" and
    4: "updateCurrentPath b c3 pb DiffRevert = Inr cs'"
    by (auto simp: commitDiffSet_def andThen_eq_Inr)
  from 1 u d have a: "if Height pb > MaturityDelay b
            then delayedSiacoinOutputs (db cs) (Height pb) = None \<and>
                 c1 = cs\<lparr>db := (db cs)\<lparr>delayedSiacoinOutputs :=
                        (delayedSiacoinOutputs (db cs))(Height pb \<mapsto> fmempty)\<rparr>\<rparr>
            else c1 = cs"
    by (auto simp: createUpcomingDelayedOutputMaps_def db_prims andThen_eq_Inr
          split: if_splits option.splits)
  have "updateDatabase c2"
    using u createUpcomingDelayedOutputMaps_updateDatabase [OF 1] commitNodeDiffs_updateDatabase [OF 2]
    by simp
  with 3 d have "delayedSiacoinOutputs (db c2) (Height pb + MaturityDelay b) = Some fmempty"
    and "delayedSiacoinOutputs (db c3) (Height pb + MaturityDelay b) = None"
    by (auto simp: deleteObsoleteDelayedOutputMaps_def db_prims andThen_eq_Inr
          split: if_splits option.splits)
  with 1 2 a updateCurrentPath_delayed [OF 4] show ?thesis by auto
qed

lemma reverted_bucket_not_empty:
  assumes u: "updateDatabase cs" and d: "DEBUG b"
    and 0: "commitDiffSetSanity b cs pb DiffRevert = Inr ()"
    and 1: "createUpcomingDelayedOutputMaps b cs pb DiffRevert = Inr c1"
    and 2: "commitNodeDiffs b c1 pb DiffRevert = Inr c2"
    and 3: "delayedSiacoinOutputs (db c2) (Height pb + MaturityDelay b) = Some m" "m \<noteq> fmempty"
  shows "commitDiffSet b cs pb DiffRevert = Inl errDeletingNonEmptyDelayedMap"
proof -
  have "updateDatabase c2"
    using u createUpcomingDelayedOutputMaps_updateDatabase [OF 1] commitNodeDiffs_updateDatabase [OF 2]
    by simp
  with 3 d have "deleteObsoleteDelayedOutputMaps b c2 pb DiffRevert = Inl errDeletingNonEmptyDelayedMap"
    by (simp add: deleteObsoleteDelayedOutputMaps_def lenDelayedSiacoinOutputsHeight_def)
  with 0 1 2 show ?thesis by (simp add: commitDiffSet_def)
qed

text \<open>
  Claim C8, amended. When a block of height \<open>H\<close> is committed in the Revert direction with
  \<^verbatim>\<open>updateDatabase\<close> set, in a debug build: if \<open>H > MaturityDelay\<close> the bucket of height
  \<open>H\<close>, which must not exist, is created empty before any diff of the block is reverted
  (for \<open>H \<le> MaturityDelay\<close> no bucket is created); after the diffs are reverted the bucket
  of height \<open>H + MaturityDelay\<close> is deleted if it is empty, and the commit panics with
  \<open>errDeletingNonEmptyDelayedMap\<close>, deleting nothing, if it is not.
\<close>

theorem revert_delayed_buckets:
  assumes "updateDatabase cs" and "DEBUG b"
  shows "(commitDiffSet b cs pb DiffRevert = Inr cs' \<longrightarrow>
      (\<exists>c1 c2. createUpcomingDelayedOutputMaps b cs pb DiffRevert = Inr c1
        \<and> (if Height pb > MaturityDelay b
            then delayedSiacoinOutputs (db cs) (Height pb) = None \<and>
                 c1 = cs\<lparr>db := (db cs)\<lparr>delayedSiacoinOutputs :=
                        (delayedSiacoinOutputs (db cs))(Height pb \<mapsto> fmempty)\<rparr>\<rparr>
            else c1 = cs)
        \<and> commitNodeDiffs b c1 pb DiffRevert = Inr c2
        \<and> delayedSiacoinOutputs (db c2) (Height pb + MaturityDelay b) = Some fmempty
        \<and> delayedSiacoinOutputs (db cs') (Height pb + MaturityDelay b) = None))
    \<and> (commitDiffSetSanity b cs pb DiffRevert = Inr ()
        \<and> createUpcomingDelayedOutputMaps b cs pb DiffRevert = Inr c1'
        \<and> commitNodeDiffs b c1' pb DiffRevert = Inr c2'
        \<and> delayedSiacoinOutputs (db c2') (Height pb + MaturityDelay b) = Some m \<and> m \<noteq> fmempty
        \<longrightarrow> commitDiffSet b cs pb DiffRevert = Inl errDeletingNonEmptyDelayedMap)"
  using reverted_buckets_created_deleted [OF assms] reverted_bucket_not_empty [OF assms] by blast

lemma exRevert5:
  "\<exists>cs'. commitDiffSet exBuild exCS5 exBlock5 DiffRevert = Inr cs'
     \<and> delayedSiacoinOutputs (db cs') 5 = Some (fmupd 1 exOutput fmempty)
     \<and> siacoinOutputs (db cs') 1 = None"
  by (simp add: ex_defs commit_defs db_prims commitSiacoinOutputDiff_def
        commitDelayedSiacoinOutputDiff_def)

theorem revert_delayed_buckets_witness:
  "updateDatabase exCS5 \<and> DEBUG exBuild \<and> MaturityDelay exBuild < Height exBlock5 \<and>
   (\<exists>cs' c1 c2. commitDiffSet exBuild exCS5 exBlock5 DiffRevert = Inr cs'
      \<and> createUpcomingDelayedOutputMaps exBuild exCS5 exBlock5 DiffRevert = Inr c1
      \<and> delayedSiacoinOutputs (db c1) 5 = Some fmempty
      \<and> commitNodeDiffs exBuild c1 exBlock5 DiffRevert = Inr c2
      \<and> delayedSiacoinOutputs (db cs') 5 = Some (fmupd 1 exOutput fmempty)
      \<and> delayedSiacoinOutputs (db cs') 8 = None)"
proof -
  have u: "updateDatabase exCS5" and d: "DEBUG exBuild"
    and h: "Height exBlock5 = 5" "MaturityDelay exBuild = 3"
    by (simp_all add: ex_defs)
  obtain cs' where c: "commitDiffSet exBuild exCS5 exBlock5 DiffRevert = Inr cs'"
    and b5: "delayedSiacoinOutputs (db cs') 5 = Some (fmupd 1 exOutput fmempty)"
    using exRevert5 by (elim exE conjE)
  from revert_delayed_buckets [OF u d, of exBlock5 cs', THEN conjunct1, rule_format, OF c]
  obtain c1 c2 where "createUpcomingDelayedOutputMaps exBuild exCS5 exBlock5 DiffRevert = Inr c1"
    "delayedSiacoinOutputs (db c1) 5 = Some fmempty"
    "commitNodeDiffs exBuild c1 exBlock5 DiffRevert = Inr c2"
    "delayedSiacoinOutputs (db cs') 8 = None"
    by (auto simp: h)
  with u d h c b5 show ?thesis by auto
qed

subsection \<open>Errors of generateAndApplyDiff that are not errors of a transaction\<close>

lemmas spec_defs = spec_applyTransaction_def spec_applyMaturedSiacoinOutputs_def spec_deleteNode_def
  emitDiff_def maturedDiffs_def

lemmas exTxn_defs = exValidTransaction_def exTxnDiffs_def exHelpers_def exTxnA_def exTxnB_def
  exNewBlock_def exCS1_def

lemmas single_defs = commitSiacoinOutputDiff_def commitSiafundOutputDiff_def
  commitDelayedSiacoinOutputDiff_def commitSiafundPoolDiff_def commitFileContractDiff_def

lemma loop_all_valid:
  "transactionsValid hs cs pb txns \<Longrightarrow>
     generateAndApplyDiff_loop b hs cs pb txns =
       andThen (applyTransactions hs cs pb txns) (\<lambda>(c, p). Inr (None, c, p))"
proof (induction txns arbitrary: cs pb)
  case Nil show ?case by simp
next
  case (Cons t ts)
  show ?case
  proof (cases "applyTransaction hs cs pb t")
    case (Inl e) with Cons.prems show ?thesis by simp
  next
    case (Inr r)
    obtain c p where r: "r = (c, p)" by (cases r)
    with Inr Cons.prems have "transactionsValid hs c p ts" by simp
    from Cons.IH [OF this] Inr r Cons.prems show ?thesis by simp
  qed
qed

lemma generateAndApplyDiff_pushPath_error:
  assumes "\<not> (DEBUG b \<and> DiffsGenerated pb)"
    and "DEBUG b \<longrightarrow> currentBlockID cs = Inr (Parent pb)"
    and "pushPath (db cs) (blk_ID (pb_Block pb)) = Inl e"
  shows "generateAndApplyDiff b hs cs pb = Inr (Some e, cs, pb)"
  using assms by (auto simp: generateAndApplyDiff_def)

lemma generateAndApplyDiff_blockMap_error:
  assumes "\<not> (DEBUG b \<and> DiffsGenerated pb)"
    and "DEBUG b \<longrightarrow> currentBlockID cs = Inr (Parent pb)"
    and "pushPath (db cs) (blk_ID (pb_Block pb)) = Inr d1"
    and "addDelayedSiacoinOutputs d1 (Height pb + MaturityDelay b) = Inr d2"
    and c2: "c2 = cs\<lparr>blocksLoaded := blocksLoaded cs + 1, db := d2\<rparr>"
    and p1: "p1 = pb\<lparr>DiffsGenerated := True\<rparr>"
    and v: "transactionsValid hs c2 p1 (Transactions (pb_Block pb))"
    and a: "applyTransactions hs c2 p1 (Transactions (pb_Block pb)) = Inr (ck, pk)"
    and "applyMaintenance hs ck pk = Inr (cm, pm)"
    and "pm' = (if DEBUG b then pm\<lparr>ConsensusSetHash := consensusSetHash hs cm\<rparr> else pm)"
  shows "(rmBlockMap (db cm) (blk_ID (pb_Block pm')) = Inl e \<longrightarrow>
            generateAndApplyDiff b hs cs pb = Inr (Some e, cm, pm'))
       \<and> (rmBlockMap (db cm) (blk_ID (pb_Block pm')) = Inr d3 \<and> addBlockMap d3 pm' = Inl e \<longrightarrow>
            generateAndApplyDiff b hs cs pb = Inr (Some e, cm\<lparr>db := d3\<rparr>, pm'))"
proof -
  have l: "generateAndApplyDiff_loop b hs c2 p1 (Transactions (pb_Block pb)) = Inr (None, ck, pk)"
    using loop_all_valid [OF v, of b] a by simp
  then have l': "generateAndApplyDiff_loop b hs (cs\<lparr>blocksLoaded := blocksLoaded cs + 1, db := d2\<rparr>)
      (pb\<lparr>DiffsGenerated := True\<rparr>) (Transactions (pb_Block pb)) = Inr (None, ck, pk)"
    by (simp add: c2 p1)
  show ?thesis
    using assms(1-4,9,10) l'
    by (auto simp: generateAndApplyDiff_def Let_def simp del: generateAndApplyDiff_loop.simps)
qed

lemma exOther1:
  "\<exists>d1 d2. pushPath (db (exCS1 [exTxnA]\<lparr>db := (db (exCS1 [exTxnA]))\<lparr>ioErr := (\<lambda>_. None)(OpRmBlockMap \<mapsto> errStorage 5)\<rparr>\<rparr>))
        (blk_ID (pb_Block (exNewBlock [exTxnA]))) = Inr d1
     \<and> addDelayedSiacoinOutputs d1 (Height (exNewBlock [exTxnA]) + MaturityDelay exBuild) = Inr d2
     \<and> (\<exists>ck pk. applyTransactions (exHelpers exBuild)
            (exCS1 [exTxnA]\<lparr>blocksLoaded := blocksLoaded (exCS1 [exTxnA]) + 1, db := d2\<rparr>)
            (exNewBlock [exTxnA]\<lparr>DiffsGenerated := True\<rparr>) [exTxnA] = Inr (ck, pk)
          \<and> Height pk = 1 \<and> blk_ID (pb_Block pk) = 1
          \<and> ioErr (db ck) OpRmBlockMap = Some (errStorage 5)
          \<and> siacoinOutputs (db ck) 1 = None \<and> siacoinOutputs (db ck) 2 = Some exOutput
          \<and> path (db ck) = [0, 1] \<and> dosBlocks ck = {} \<and> blockMap (db ck) 1 \<noteq> None)"
  by (simp add: ex_defs exTxn_defs spec_defs db_prims single_defs pushPath_def Let_def)

text \<open>
  Claim C10. In \<^verbatim>\<open>generateAndApplyDiff\<close> (with its sanity checks passed, and whatever the
  methods of the other files do) an error that the first \<^verbatim>\<open>pushPath\<close> returns is
  returned to the caller with the consensus set and the block untouched; and when every
  transaction has validated and has been applied and the maintenance has run, an error that
  \<^verbatim>\<open>rmBlockMap\<close> or \<^verbatim>\<open>addBlockMap\<close> returns is returned to the caller with the
  consensus set as the transactions and the maintenance have left it (after
  \<^verbatim>\<open>rmBlockMap\<close>, without the block in the block map): no diff is reverted and the id
  of the block is not added to \<^verbatim>\<open>dosBlocks\<close>.
\<close>

theorem generateAndApplyDiff_other_errors:
  assumes "\<not> (DEBUG b \<and> DiffsGenerated pb)"
    and "DEBUG b \<longrightarrow> currentBlockID cs = Inr (Parent pb)"
  shows "(pushPath (db cs) (blk_ID (pb_Block pb)) = Inl e \<longrightarrow>
            generateAndApplyDiff b hs cs pb = Inr (Some e, cs, pb))
     \<and> (pushPath (db cs) (blk_ID (pb_Block pb)) = Inr d1
        \<and> addDelayedSiacoinOutputs d1 (Height pb + MaturityDelay b) = Inr d2
        \<and> c2 = cs\<lparr>blocksLoaded := blocksLoaded cs + 1, db := d2\<rparr>
        \<and> p1 = pb\<lparr>DiffsGenerated := True\<rparr>
        \<and> transactionsValid hs c2 p1 (Transactions (pb_Block pb))
        \<and> applyTransactions hs c2 p1 (Transactions (pb_Block pb)) = Inr (ck, pk)
        \<and> applyMaintenance hs ck pk = Inr (cm, pm)
        \<and> pm' = (if DEBUG b then pm\<lparr>ConsensusSetHash := consensusSetHash hs cm\<rparr> else pm)
        \<longrightarrow>
          (rmBlockMap (db cm) (blk_ID (pb_Block pm')) = Inl e \<longrightarrow>
             generateAndApplyDiff b hs cs pb = Inr (Some e, cm, pm'))
        \<and> (rmBlockMap (db cm) (blk_ID (pb_Block pm')) = Inr d3 \<and> addBlockMap d3 pm' = Inl e \<longrightarrow>
             generateAndApplyDiff b hs cs pb = Inr (Some e, cm\<lparr>db := d3\<rparr>, pm')))"
  using generateAndApplyDiff_pushPath_error [OF assms]
    generateAndApplyDiff_blockMap_error [OF assms]
  by blast

theorem generateAndApplyDiff_other_errors_witness:
  "generateAndApplyDiff exBuild (exHelpers exBuild)
     (exCS1 [exTxnA]\<lparr>db := (db (exCS1 [exTxnA]))\<lparr>ioErr := (\<lambda>_. None)(OpPushPath \<mapsto> errStorage 6)\<rparr>\<rparr>)
     (exNewBlock [exTxnA])
   = Inr (Some (errStorage 6),
       exCS1 [exTxnA]\<lparr>db := (db (exCS1 [exTxnA]))\<lparr>ioErr := (\<lambda>_. None)(OpPushPath \<mapsto> errStorage 6)\<rparr>\<rparr>,
       exNewBlock [exTxnA])
   \<and> (\<exists>cs' pb'. generateAndApplyDiff exBuild (exHelpers exBuild)
         (exCS1 [exTxnA]\<lparr>db := (db (exCS1 [exTxnA]))\<lparr>ioErr := (\<lambda>_. None)(OpRmBlockMap \<mapsto> errStorage 5)\<rparr>\<rparr>)
         (exNewBlock [exTxnA])
        = Inr (Some (errStorage 5), cs', pb')
      \<and> siacoinOutputs (db cs') 1 = None \<and> siacoinOutputs (db cs') 2 = Some exOutput
      \<and> path (db cs') = [0, 1] \<and> dosBlocks cs' = {} \<and> blockMap (db cs') 1 \<noteq> None)"
proof -
  let ?pb = "exNewBlock [exTxnA]"
  let ?c6 = "exCS1 [exTxnA]\<lparr>db := (db (exCS1 [exTxnA]))\<lparr>ioErr := (\<lambda>_. None)(OpPushPath \<mapsto> errStorage 6)\<rparr>\<rparr>"
  let ?c5 = "exCS1 [exTxnA]\<lparr>db := (db (exCS1 [exTxnA]))\<lparr>ioErr := (\<lambda>_. None)(OpRmBlockMap \<mapsto> errStorage 5)\<rparr>\<rparr>"
  have s6: "\<not> (DEBUG exBuild \<and> DiffsGenerated ?pb)" "DEBUG exBuild \<longrightarrow> currentBlockID ?c6 = Inr (Parent ?pb)"
    and s5: "\<not> (DEBUG exBuild \<and> DiffsGenerated ?pb)" "DEBUG exBuild \<longrightarrow> currentBlockID ?c5 = Inr (Parent ?pb)"
    and p6: "pushPath (db ?c6) (blk_ID (pb_Block ?pb)) = Inl (errStorage 6)"
    and t: "Transactions (pb_Block ?pb) = [exTxnA]"
    by (simp_all add: ex_defs exTxn_defs currentBlockID_def pushPath_def)
  have 1: "generateAndApplyDiff exBuild (exHelpers exBuild) ?c6 ?pb = Inr (Some (errStorage 6), ?c6, ?pb)"
    using generateAndApplyDiff_other_errors [OF s6, THEN conjunct1, rule_format, OF p6] .
  obtain d1 d2 ck pk where
    a: "pushPath (db ?c5) (blk_ID (pb_Block ?pb)) = Inr d1"
       "addDelayedSiacoinOutputs d1 (Height ?pb + MaturityDelay exBuild) = Inr d2"
       "applyTransactions (exHelpers exBuild) (?c5\<lparr>blocksLoaded := blocksLoaded ?c5 + 1, db := d2\<rparr>)
          (?pb\<lparr>DiffsGenerated := True\<rparr>) [exTxnA] = Inr (ck, pk)"
    and k: "Height pk = 1" "blk_ID (pb_Block pk) = 1" "ioErr (db ck) OpRmBlockMap = Some (errStorage 5)"
    and r: "siacoinOutputs (db ck) 1 = None" "siacoinOutputs (db ck) 2 = Some exOutput"
       "path (db ck) = [0, 1]" "dosBlocks ck = {}" "blockMap (db ck) 1 \<noteq> None"
    using exOther1 by (simp add: exCS1_def) blast
  have v: "transactionsValid (exHelpers exBuild) (?c5\<lparr>blocksLoaded := blocksLoaded ?c5 + 1, db := d2\<rparr>)
          (?pb\<lparr>DiffsGenerated := True\<rparr>) [exTxnA]"
    using a(3) by (simp add: exHelpers_def exValidTransaction_def exTxnA_def exCS1_def exDB_def exCS_def
         split: sum.splits) (use a(1,2) in \<open>auto simp: pushPath_def addDelayedSiacoinOutputs_def exCS1_def exDB_def exCS_def split: option.splits\<close>)
  have m: "applyMaintenance (exHelpers exBuild) ck pk = Inr (ck, pk)"
    using k by (simp add: exHelpers_def spec_applyMaturedSiacoinOutputs_def exBuild_def)
  have rm: "rmBlockMap (db ck) (blk_ID (pb_Block (pk\<lparr>ConsensusSetHash := consensusSetHash (exHelpers exBuild) ck\<rparr>)))
       = Inl (errStorage 5)"
    using k by (simp add: rmBlockMap_def)
  have 2: "generateAndApplyDiff exBuild (exHelpers exBuild) ?c5 ?pb
       = Inr (Some (errStorage 5), ck, pk\<lparr>ConsensusSetHash := consensusSetHash (exHelpers exBuild) ck\<rparr>)"
    using generateAndApplyDiff_other_errors [OF s5, THEN conjunct2, rule_format, THEN conjunct1, rule_format,
      of d1 d2 _ _ "exHelpers exBuild" ck pk ck pk
         "pk\<lparr>ConsensusSetHash := consensusSetHash (exHelpers exBuild) ck\<rparr>" "errStorage 5"]
      a v m rm t
    by (simp add: exBuild_def)
  from 1 2 r show ?thesis by blast
qed

subsection \<open>Commits on the tables\<close>

lemma forEach_snoc: "forEach f (xs @ [x]) s = andThen (forEach f xs s) (\<lambda>s. f s x)"
  by (simp add: forEach_append andThen_def split: sum.splits)

lemma scods_roundtrip:
  "forEach (scStep DiffApply) ds t = Inr t1 \<Longrightarrow> scodsRecord t ds \<Longrightarrow>
     forEach (scStep DiffRevert) (rev ds) t1 = Inr t"
proof (induction ds arbitrary: t)
  case Nil then show ?case by simp
next
  case (Cons d ds)
  from Cons.prems(1) obtain ta where a: "scStep DiffApply t d = Inr ta"
    and r: "forEach (scStep DiffApply) ds ta = Inr t1"
    by (auto simp: andThen_eq_Inr)
  from a Cons.prems(2) have rc: "scodsRecord ta ds" and bk: "scStep DiffRevert ta d = Inr t"
    by (auto simp: scStep_def split: if_splits DiffDirection.splits)
       (metis DiffDirection.exhaust)+
  from Cons.IH [OF r rc] bk show ?case by (simp add: forEach_snoc)
qed


lemma sfods_roundtrip:
  "forEach (sfStep DiffApply) ds t = Inr t1 \<Longrightarrow> sfodsRecord t ds \<Longrightarrow>
     forEach (sfStep DiffRevert) (rev ds) t1 = Inr t"
proof (induction ds arbitrary: t)
  case Nil then show ?case by simp
next
  case (Cons d ds)
  from Cons.prems(1) obtain ta where a: "sfStep DiffApply t d = Inr ta"
    and r: "forEach (sfStep DiffApply) ds ta = Inr t1"
    by (auto simp: andThen_eq_Inr)
  from a Cons.prems(2) have rc: "sfodsRecord ta ds" and bk: "sfStep DiffRevert ta d = Inr t"
    by (auto simp: sfStep_def split: if_splits DiffDirection.splits)
       (metis DiffDirection.exhaust)+
  from Cons.IH [OF r rc] bk show ?case by (simp add: forEach_snoc)
qed

lemma fmdrop_fmupd_absent: "fmlookup m i = None \<Longrightarrow> fmdrop i (fmupd i v m) = m"
  by (simp add: fmdrop_fmupd_same fmdrop_idle fmdom_notI)

lemma fmupd_fmdrop_present: "fmlookup m i = Some v \<Longrightarrow> fmupd i v (fmdrop i m) = m"
  by (intro fmap_ext) auto

lemma dscods_roundtrip:
  "forEach (dsStep DiffApply) ds t = Inr t1 \<Longrightarrow> dscodsRecord t ds \<Longrightarrow>
     forEach (dsStep DiffRevert) (rev ds) t1 = Inr t"
proof (induction ds arbitrary: t)
  case Nil then show ?case by simp
next
  case (Cons d ds)
  from Cons.prems(1) obtain ta where a: "dsStep DiffApply t d = Inr ta"
    and r: "forEach (dsStep DiffApply) ds ta = Inr t1"
    by (auto simp: andThen_eq_Inr)
  from a obtain m where m: "t (dscod_MaturityHeight d) = Some m"
    by (auto simp: dsStep_def split: option.splits)
  have dir: "dscod_Direction d \<noteq> DiffApply \<Longrightarrow> dscod_Direction d = DiffRevert"
    by (cases "dscod_Direction d") auto
  from a m Cons.prems(2) have rc: "dscodsRecord ta ds"
    by (auto simp: dsStep_def split: if_splits)
  from a m Cons.prems(2) dir have bk: "dsStep DiffRevert ta d = Inr t"
    by (auto simp: dsStep_def fmdrop_fmupd_absent fmupd_fmdrop_present map_upd_triv split: if_splits)
  from Cons.IH [OF r rc] bk show ?case by (simp add: forEach_snoc)
qed

lemma pool_roundtrip:
  "forEach (poolStep DiffApply) ds p = Inr p1 \<Longrightarrow> forEach (poolStep DiffRevert) (rev ds) p1 = Inr p"
proof (induction ds arbitrary: p)
  case Nil then show ?case by simp
next
  case (Cons d ds)
  from Cons.prems(1) obtain pa where a: "poolStep DiffApply p d = Inr pa"
    and r: "forEach (poolStep DiffApply) ds pa = Inr p1"
    by (auto simp: andThen_eq_Inr)
  from a have bk: "poolStep DiffRevert pa d = Inr p"
    by (auto simp: poolStep_def split: if_splits)
  from Cons.IH [OF r] bk show ?case by (simp add: forEach_snoc)
qed

lemma newWindowEnds_Cons:
  "newWindowEnds (d # ds) =
     (if fcd_Direction d = DiffApply then {WindowEnd (fcd_FileContract d)} else {}) \<union> newWindowEnds ds"
  by (auto simp: newWindowEnds_def)

lemma emptyBucketsAdded_mono: "emptyBucketsAdded W x y \<Longrightarrow> W \<subseteq> W' \<Longrightarrow> emptyBucketsAdded W' x y"
  by (auto simp: emptyBucketsAdded_def)

lemma emptyBucketsAdded_empty [simp]: "emptyBucketsAdded {} x y \<longleftrightarrow> y = x"
  by (auto simp: emptyBucketsAdded_def)

lemma emptyBucketsAdded_refl [simp]: "emptyBucketsAdded W x x"
  by (auto simp: emptyBucketsAdded_def)

lemma fcStep_back:
  assumes a: "fcStep DiffApply (f, x) d = Inr (f1, x1)"
    and rc: "fcd_Direction d \<noteq> DiffApply \<longrightarrow> f (fcd_ID d) = Some (fcd_FileContract d)"
    and e: "emptyBucketsAdded W x1 y1"
  shows "\<exists>y. fcStep DiffRevert (f1, y1) d = Inr (f, y) \<and>
           emptyBucketsAdded (W \<union> (if fcd_Direction d = DiffApply then {WindowEnd (fcd_FileContract d)} else {})) x y"
proof (cases "fcd_Direction d")
  case DiffApply
  let ?we = "WindowEnd (fcd_FileContract d)" and ?i = "fcd_ID d"
  from a DiffApply have f: "f ?i = None" "f1 = f(?i \<mapsto> fcd_FileContract d)"
    by (auto simp: fcStep_def Let_def split: if_splits option.splits)
  from a DiffApply obtain s where s: "x1 ?we = Some (insert ?i s)" "?i \<notin> s"
    "x ?we = None \<and> s = {} \<or> x ?we = Some s" "x1 = x(?we \<mapsto> insert ?i s)"
    by (auto simp: fcStep_def Let_def split: if_splits option.splits)
  from e s have y1: "y1 ?we = Some (insert ?i s)"
    by (auto simp: emptyBucketsAdded_def dest: spec [where x = ?we])
  have "fcStep DiffRevert (f1, y1) d = Inr (f, y1(?we \<mapsto> s))"
    using DiffApply f y1 s(2) by (auto simp: fcStep_def Let_def)
  moreover have "emptyBucketsAdded (W \<union> {?we}) x (y1(?we \<mapsto> s))"
    unfolding emptyBucketsAdded_def
  proof
    fix h
    show "(y1(?we \<mapsto> s)) h = x h \<or> h \<in> W \<union> {?we} \<and> x h = None \<and> (y1(?we \<mapsto> s)) h = Some {}"
      using e s(3,4) by (cases "h = ?we") (auto simp: emptyBucketsAdded_def dest: spec [where x = h])
  qed
  ultimately show ?thesis using DiffApply by auto
next
  case DiffRevert
  let ?we = "WindowEnd (fcd_FileContract d)" and ?i = "fcd_ID d"
  from a DiffRevert rc have f: "f ?i = Some (fcd_FileContract d)" "f1 = f(?i := None)"
    by (auto simp: fcStep_def Let_def split: if_splits option.splits)
  from a DiffRevert obtain s where s: "x ?we = Some s" "?i \<in> s" "x1 = x(?we \<mapsto> s - {?i})"
    by (auto simp: fcStep_def Let_def split: if_splits option.splits)
  from e s have y1: "y1 ?we = Some (s - {?i})"
    by (auto simp: emptyBucketsAdded_def dest: spec [where x = ?we])
  have ff: "f1(?i \<mapsto> fcd_FileContract d) = f"
    using f by auto
  have "fcStep DiffRevert (f1, y1) d = Inr (f, y1(?we \<mapsto> s))"
    using DiffRevert f(2) y1 s(2) ff by (auto simp: fcStep_def Let_def insert_absorb)
  moreover have "emptyBucketsAdded W x (y1(?we \<mapsto> s))"
    unfolding emptyBucketsAdded_def
  proof
    fix h
    show "(y1(?we \<mapsto> s)) h = x h \<or> h \<in> W \<and> x h = None \<and> (y1(?we \<mapsto> s)) h = Some {}"
      using e s(1,3) by (cases "h = ?we") (auto simp: emptyBucketsAdded_def dest: spec [where x = h])
  qed
  ultimately show ?thesis using DiffRevert by auto
qed


lemma fcds_roundtrip:
  "forEach (fcStep DiffApply) ds (f, x) = Inr (f1, x1) \<Longrightarrow> fcdsRecord f ds \<Longrightarrow>
   emptyBucketsAdded W x1 y1 \<Longrightarrow>
     \<exists>y. forEach (fcStep DiffRevert) (rev ds) (f1, y1) = Inr (f, y) \<and>
         emptyBucketsAdded (W \<union> newWindowEnds ds) x y"
proof (induction ds arbitrary: f x)
  case Nil then show ?case by (simp add: newWindowEnds_def)
next
  case (Cons d ds)
  from Cons.prems(1) obtain fa xa where a: "fcStep DiffApply (f, x) d = Inr (fa, xa)"
    and r: "forEach (fcStep DiffApply) ds (fa, xa) = Inr (f1, x1)"
    by (auto simp: andThen_eq_Inr)
  have dir: "fcd_Direction d \<noteq> DiffApply \<Longrightarrow> fcd_Direction d = DiffRevert"
    by (cases "fcd_Direction d") auto
  from a Cons.prems(2) dir have rc: "fcdsRecord fa ds"
    and rd: "fcd_Direction d \<noteq> DiffApply \<longrightarrow> f (fcd_ID d) = Some (fcd_FileContract d)"
    by (auto simp: fcStep_def Let_def split: if_splits option.splits)
  from Cons.IH [OF r rc Cons.prems(3)] obtain ya where
    ya: "forEach (fcStep DiffRevert) (rev ds) (f1, y1) = Inr (fa, ya)"
    and e: "emptyBucketsAdded (W \<union> newWindowEnds ds) xa ya"
    by blast
  from fcStep_back [OF a rd e] obtain y where
    y: "fcStep DiffRevert (fa, ya) d = Inr (f, y)"
    and e': "emptyBucketsAdded (W \<union> newWindowEnds ds \<union>
               (if fcd_Direction d = DiffApply then {WindowEnd (fcd_FileContract d)} else {})) x y"
    by blast
  from e' have "emptyBucketsAdded (W \<union> newWindowEnds (d # ds)) x y"
    by (rule emptyBucketsAdded_mono) (auto simp: newWindowEnds_Cons)
  with ya y show ?case by (auto simp: forEach_snoc)
qed

lemma fcStep_again:
  assumes a: "fcStep DiffApply (f, x) d = Inr (f1, x1)"
    and e: "emptyBucketsAdded W x y"
  shows "\<exists>y1. fcStep DiffApply (f, y) d = Inr (f1, y1) \<and>
           emptyBucketsAdded (W - (if fcd_Direction d = DiffApply then {WindowEnd (fcd_FileContract d)} else {})) x1 y1"
proof (cases "fcd_Direction d")
  case DiffApply
  let ?we = "WindowEnd (fcd_FileContract d)" and ?i = "fcd_ID d"
  from a DiffApply have f: "f ?i = None" "f1 = f(?i \<mapsto> fcd_FileContract d)"
    by (auto simp: fcStep_def Let_def split: if_splits option.splits)
  from a DiffApply obtain s where s: "?i \<notin> s"
    "x ?we = None \<and> s = {} \<or> x ?we = Some s" "x1 = x(?we \<mapsto> insert ?i s)"
    by (auto simp: fcStep_def Let_def split: if_splits option.splits)
  from e s(2) have y: "y ?we = None \<and> s = {} \<or> y ?we = Some s"
    by (auto simp: emptyBucketsAdded_def dest: spec [where x = ?we])
  have "fcStep DiffApply (f, y) d = Inr (f1, y(?we \<mapsto> insert ?i s))"
    using DiffApply f y s(1) by (auto simp: fcStep_def Let_def)
  moreover have "emptyBucketsAdded (W - {?we}) x1 (y(?we \<mapsto> insert ?i s))"
    unfolding emptyBucketsAdded_def
  proof
    fix h
    show "(y(?we \<mapsto> insert ?i s)) h = x1 h \<or>
          h \<in> W - {?we} \<and> x1 h = None \<and> (y(?we \<mapsto> insert ?i s)) h = Some {}"
      using e s(3) by (cases "h = ?we") (auto simp: emptyBucketsAdded_def dest: spec [where x = h])
  qed
  ultimately show ?thesis using DiffApply by auto
next
  case DiffRevert
  let ?we = "WindowEnd (fcd_FileContract d)" and ?i = "fcd_ID d"
  from a DiffRevert have f: "f ?i \<noteq> None" "f1 = f(?i := None)"
    by (auto simp: fcStep_def Let_def split: if_splits option.splits)
  from a DiffRevert obtain s where s: "x ?we = Some s" "?i \<in> s" "x1 = x(?we \<mapsto> s - {?i})"
    by (auto simp: fcStep_def Let_def split: if_splits option.splits)
  from e s have y: "y ?we = Some s"
    by (auto simp: emptyBucketsAdded_def dest: spec [where x = ?we])
  have "fcStep DiffApply (f, y) d = Inr (f1, y(?we \<mapsto> s - {?i}))"
    using DiffRevert f y s(2) by (auto simp: fcStep_def Let_def)
  moreover have "emptyBucketsAdded W x1 (y(?we \<mapsto> s - {?i}))"
    unfolding emptyBucketsAdded_def
  proof
    fix h
    show "(y(?we \<mapsto> s - {?i})) h = x1 h \<or> h \<in> W \<and> x1 h = None \<and> (y(?we \<mapsto> s - {?i})) h = Some {}"
      using e s(3) by (cases "h = ?we") (auto simp: emptyBucketsAdded_def dest: spec [where x = h])
  qed
  ultimately show ?thesis using DiffRevert by auto
qed

lemma fcds_again:
  "forEach (fcStep DiffApply) ds (f, x) = Inr (f1, x1) \<Longrightarrow> emptyBucketsAdded W x y \<Longrightarrow>
     \<exists>y1. forEach (fcStep DiffApply) ds (f, y) = Inr (f1, y1) \<and>
          emptyBucketsAdded (W - newWindowEnds ds) x1 y1"
proof (induction ds arbitrary: f x y W)
  case Nil then show ?case by (simp add: newWindowEnds_def)
next
  case (Cons d ds)
  from Cons.prems(1) obtain fa xa where a: "fcStep DiffApply (f, x) d = Inr (fa, xa)"
    and r: "forEach (fcStep DiffApply) ds (fa, xa) = Inr (f1, x1)"
    by (auto simp: andThen_eq_Inr)
  from fcStep_again [OF a Cons.prems(2)] obtain ya where
    ya: "fcStep DiffApply (f, y) d = Inr (fa, ya)"
    and e: "emptyBucketsAdded (W - (if fcd_Direction d = DiffApply then {WindowEnd (fcd_FileContract d)} else {})) xa ya"
    by blast
  from Cons.IH [OF r e] obtain y1 where
    y1: "forEach (fcStep DiffApply) ds (fa, ya) = Inr (f1, y1)"
    and e': "emptyBucketsAdded (W - (if fcd_Direction d = DiffApply then {WindowEnd (fcd_FileContract d)} else {})
               - newWindowEnds ds) x1 y1"
    by blast
  from e' have "emptyBucketsAdded (W - newWindowEnds (d # ds)) x1 y1"
    by (rule emptyBucketsAdded_mono) (auto simp: newWindowEnds_Cons)
  with ya y1 show ?case by auto
qed


lemma tablesOf_setTables [simp]: "tablesOf (setTables cs T) = T"
  by (cases T) (auto simp: tablesOf_def withTables_def)

lemma setTables_setTables [simp]: "setTables (setTables cs T) T' = setTables cs T'"
  by (cases T; cases T') (auto simp: withTables_def)

lemma setTables_frame [simp]:
  "updateDatabase (setTables cs T) = updateDatabase cs"
  "blocksLoaded (setTables cs T) = blocksLoaded cs"
  "dosBlocks (setTables cs T) = dosBlocks cs"
  "path (db (setTables cs T)) = path (db cs)"
  "blockMap (db (setTables cs T)) = blockMap (db cs)"
  "ioErr (db (setTables cs T)) = ioErr (db cs)"
  "fileContractExpirations (setTables cs T) = fcExpirations (db (setTables cs T))"
  by (cases T; auto simp: withTables_def)+

lemma setTables_tablesOf:
  "fileContractExpirations cs = fcExpirations (db cs) \<Longrightarrow> setTables cs (tablesOf cs) = cs"
  by (auto simp: tablesOf_def withTables_def)

lemma commitDiff_step:
  assumes "DEBUG b" and "updateDatabase cs" and "fileContractExpirations cs = fcExpirations (db cs)"
  shows "commitDiff b cs d dir = andThen (diffStep dir (tablesOf cs) d) (\<lambda>T. Inr (setTables cs T))"
proof (cases d)
  case (SCOD x)
  with assms show ?thesis
    by (auto simp: tablesOf_def withTables_def commitSiacoinOutputDiff_def scStep_def db_prims)
next
  case (FCD x)
  with assms show ?thesis
    by (auto simp: tablesOf_def withTables_def commitFileContractDiff_def fcStep_def db_prims Let_def
          split: option.splits)
next
  case (SFOD x)
  with assms show ?thesis
    by (auto simp: tablesOf_def withTables_def commitSiafundOutputDiff_def sfStep_def db_prims)
next
  case (DSCOD x)
  with assms show ?thesis
    by (auto simp: tablesOf_def withTables_def commitDelayedSiacoinOutputDiff_def dsStep_def db_prims
          split: option.splits)
next
  case (SFPD x)
  with assms show ?thesis
    by (auto simp: tablesOf_def withTables_def commitSiafundPoolDiff_def poolStep_def)
qed

lemma commitDiffs_steps:
  assumes "DEBUG b"
  shows "updateDatabase cs \<Longrightarrow> fileContractExpirations cs = fcExpirations (db cs) \<Longrightarrow>
     forEach (\<lambda>c d. commitDiff b c d dir) ds cs =
       andThen (forEach (diffStep dir) ds (tablesOf cs)) (\<lambda>T. Inr (setTables cs T))"
proof (induction ds arbitrary: cs)
  case Nil then show ?case by (simp add: setTables_tablesOf)
next
  case (Cons d ds)
  show ?case
  proof (cases "diffStep dir (tablesOf cs) d")
    case (Inl e)
    then show ?thesis using commitDiff_step [OF assms Cons.prems, of d dir] by simp
  next
    case (Inr T)
    then have 1: "commitDiff b cs d dir = Inr (setTables cs T)"
      using commitDiff_step [OF assms Cons.prems, of d dir] by simp
    have "forEach (\<lambda>c d. commitDiff b c d dir) ds (setTables cs T) =
       andThen (forEach (diffStep dir) ds (tablesOf (setTables cs T)))
         (\<lambda>T'. Inr (setTables (setTables cs T) T'))"
      by (rule Cons.IH) (simp_all add: Cons.prems)
    with 1 Inr show ?thesis by simp
  qed
qed


lemma forEach_diffStep:
  "forEach (diffStep dir) D (t1, fx, t3, t4, p) = Inr (t1', fx', t3', t4', p') \<longleftrightarrow>
     forEach (scStep dir) (scodsOf D) t1 = Inr t1' \<and>
     forEach (fcStep dir) (fcdsOf D) fx = Inr fx' \<and>
     forEach (sfStep dir) (sfodsOf D) t3 = Inr t3' \<and>
     forEach (dsStep dir) (dscodsOf D) t4 = Inr t4' \<and>
     forEach (poolStep dir) (sfpdsOf D) p = Inr p'"
proof (induction D arbitrary: t1 fx t3 t4 p)
  case Nil show ?case by auto
next
  case (Cons d D)
  show ?case
  proof (cases d)
    case (SCOD x)
    show ?thesis
    proof (cases "scStep dir t1 x")
      case (Inl e) with SCOD show ?thesis by simp
    next
      case (Inr t) with SCOD Cons.IH [of t fx t3 t4 p] show ?thesis by simp
    qed
  next
    case (FCD x)
    show ?thesis
    proof (cases "fcStep dir fx x")
      case (Inl e) with FCD show ?thesis by simp
    next
      case (Inr t) with FCD Cons.IH [of t1 t t3 t4 p] show ?thesis by simp
    qed
  next
    case (SFOD x)
    show ?thesis
    proof (cases "sfStep dir t3 x")
      case (Inl e) with SFOD show ?thesis by simp
    next
      case (Inr t) with SFOD Cons.IH [of t1 fx t t4 p] show ?thesis by simp
    qed
  next
    case (DSCOD x)
    show ?thesis
    proof (cases "dsStep dir t4 x")
      case (Inl e) with DSCOD show ?thesis by simp
    next
      case (Inr t) with DSCOD Cons.IH [of t1 fx t3 t p] show ?thesis by simp
    qed
  next
    case (SFPD x)
    show ?thesis
    proof (cases "poolStep dir p x")
      case (Inl e) with SFPD show ?thesis by simp
    next
      case (Inr t) with SFPD Cons.IH [of t1 fx t3 t4 t] show ?thesis by simp
    qed
  qed
qed

lemma kindsOf_append [simp]:
  "scodsOf (xs @ ys) = scodsOf xs @ scodsOf ys"
  "fcdsOf (xs @ ys) = fcdsOf xs @ fcdsOf ys"
  "sfodsOf (xs @ ys) = sfodsOf xs @ sfodsOf ys"
  "dscodsOf (xs @ ys) = dscodsOf xs @ dscodsOf ys"
  "sfpdsOf (xs @ ys) = sfpdsOf xs @ sfpdsOf ys"
  by (induction xs rule: scodsOf.induct; simp)+

lemma kindsOf_map_SCOD [simp]:
  "scodsOf (map SCOD a) = a" "fcdsOf (map SCOD a) = []" "sfodsOf (map SCOD a) = []"
  "dscodsOf (map SCOD a) = []" "sfpdsOf (map SCOD a) = []"
  by (induction a) simp_all

lemma kindsOf_map_FCD [simp]:
  "scodsOf (map FCD a) = []" "fcdsOf (map FCD a) = a" "sfodsOf (map FCD a) = []"
  "dscodsOf (map FCD a) = []" "sfpdsOf (map FCD a) = []"
  by (induction a) simp_all

lemma kindsOf_map_SFOD [simp]:
  "scodsOf (map SFOD a) = []" "fcdsOf (map SFOD a) = []" "sfodsOf (map SFOD a) = a"
  "dscodsOf (map SFOD a) = []" "sfpdsOf (map SFOD a) = []"
  by (induction a) simp_all

lemma kindsOf_map_DSCOD [simp]:
  "scodsOf (map DSCOD a) = []" "fcdsOf (map DSCOD a) = []" "sfodsOf (map DSCOD a) = []"
  "dscodsOf (map DSCOD a) = a" "sfpdsOf (map DSCOD a) = []"
  by (induction a) simp_all

lemma kindsOf_map_SFPD [simp]:
  "scodsOf (map SFPD a) = []" "fcdsOf (map SFPD a) = []" "sfodsOf (map SFPD a) = []"
  "dscodsOf (map SFPD a) = []" "sfpdsOf (map SFPD a) = a"
  by (induction a) simp_all

lemma commitNodeDiffs_nodeDiffs:
  "commitNodeDiffs b cs pb dir = forEach (\<lambda>c d. commitDiff b c d dir) (nodeDiffs pb dir) cs"
  by (cases dir)
     (simp_all add: commitNodeDiffs_def nodeDiffs_def inOrder_def forEach_append_fun
        forEach_map_fun forEachDown_rev)

lemma commitNodeDiffs_tables:
  assumes "DEBUG b" and "updateDatabase cs" and "fileContractExpirations cs = fcExpirations (db cs)"
  shows "commitNodeDiffs b cs pb dir = Inr cs' \<longleftrightarrow>
     (\<exists>t1 fx t3 t4 p.
        forEach (scStep dir) (inOrder dir (SiacoinOutputDiffs pb)) (siacoinOutputs (db cs)) = Inr t1 \<and>
        forEach (fcStep dir) (inOrder dir (FileContractDiffs pb))
          (fileContracts (db cs), fcExpirations (db cs)) = Inr fx \<and>
        forEach (sfStep dir) (inOrder dir (SiafundOutputDiffs pb)) (siafundOutputs (db cs)) = Inr t3 \<and>
        forEach (dsStep dir) (inOrder dir (DelayedSiacoinOutputDiffs pb))
          (delayedSiacoinOutputs (db cs)) = Inr t4 \<and>
        forEach (poolStep dir) (inOrder dir (SiafundPoolDiffs pb)) (siafundPool cs) = Inr p \<and>
        cs' = withTables cs t1 fx t3 t4 p)"
proof -
  have "commitNodeDiffs b cs pb dir = Inr cs' \<longleftrightarrow>
     (\<exists>T. forEach (diffStep dir) (nodeDiffs pb dir) (tablesOf cs) = Inr T \<and> cs' = setTables cs T)"
    by (auto simp: commitNodeDiffs_nodeDiffs commitDiffs_steps [OF assms] andThen_eq_Inr)
  also have "\<dots> \<longleftrightarrow> (\<exists>t1 fx t3 t4 p.
      forEach (diffStep dir) (nodeDiffs pb dir) (tablesOf cs) = Inr (t1, fx, t3, t4, p) \<and>
      cs' = withTables cs t1 fx t3 t4 p)"
    by auto
  finally show ?thesis
    by (simp add: tablesOf_def forEach_diffStep nodeDiffs_def)
qed


lemma restate_simps [simp]:
  "tablesOf (restate c T pth n) = T"
  "path (db (restate c T pth n)) = pth"
  "blocksLoaded (restate c T pth n) = n"
  "updateDatabase (restate c T pth n) = updateDatabase c"
  "dosBlocks (restate c T pth n) = dosBlocks c"
  "blockMap (db (restate c T pth n)) = blockMap (db c)"
  "ioErr (db (restate c T pth n)) = ioErr (db c)"
  "fileContractExpirations (restate c T pth n) = fcExpirations (db (restate c T pth n))"
  "restate (restate c T pth n) T' pth' n' = restate c T' pth' n'"
  by (cases T; cases T'; auto simp: restate_def tablesOf_def withTables_def)+

lemma restate_tables [simp]:
  "siacoinOutputs (db (restate c (t1, fx, t3, t4, p) pth n)) = t1"
  "fileContracts (db (restate c (t1, fx, t3, t4, p) pth n)) = fst fx"
  "fcExpirations (db (restate c (t1, fx, t3, t4, p) pth n)) = snd fx"
  "siafundOutputs (db (restate c (t1, fx, t3, t4, p) pth n)) = t3"
  "delayedSiacoinOutputs (db (restate c (t1, fx, t3, t4, p) pth n)) = t4"
  "siafundPool (restate c (t1, fx, t3, t4, p) pth n) = p"
  by (auto simp: restate_def withTables_def)

lemma restate_self:
  "fileContractExpirations c = fcExpirations (db c) \<Longrightarrow>
     restate c (tablesOf c) (path (db c)) (blocksLoaded c) = c"
  by (auto simp: restate_def tablesOf_def withTables_def)

lemma restate_setTables [simp]: "setTables (restate c T pth n) T' = restate c T' pth n"
  by (cases T; cases T'; auto simp: restate_def withTables_def)

lemma restate_delayed:
  "(restate c (t1, fx, t3, t4, p) pth n)
     \<lparr>db := (db (restate c (t1, fx, t3, t4, p) pth n))\<lparr>delayedSiacoinOutputs := t4'\<rparr>\<rparr>
   = restate c (t1, fx, t3, t4', p) pth n"
  by (auto simp: restate_def withTables_def)

lemma restate_path:
  "(restate c T pth n)\<lparr>db := (db (restate c T pth n))\<lparr>path := pth'\<rparr>\<rparr> = restate c T pth' n"
  "(restate c T pth n)\<lparr>blocksLoaded := n'\<rparr> = restate c T pth n'"
  by (cases T; auto simp: restate_def withTables_def)+

lemma create_apply:
  assumes "DEBUG b" and "updateDatabase c"
  shows "createUpcomingDelayedOutputMaps b (restate c (t1, fx, t3, t4, p) pth n) pb DiffApply = Inr c' \<longleftrightarrow>
     t4 (Height pb + MaturityDelay b) = None \<and>
     c' = restate c (t1, fx, t3, t4(Height pb + MaturityDelay b \<mapsto> fmempty), p) pth n"
  using assms
  by (auto simp: createUpcomingDelayedOutputMaps_def db_prims andThen_eq_Inr restate_delayed
        split: option.splits)

lemma create_revert:
  assumes "DEBUG b" and "updateDatabase c"
  shows "createUpcomingDelayedOutputMaps b (restate c (t1, fx, t3, t4, p) pth n) pb DiffRevert = Inr c' \<longleftrightarrow>
     (if MaturityDelay b < Height pb
      then t4 (Height pb) = None \<and> c' = restate c (t1, fx, t3, t4(Height pb \<mapsto> fmempty), p) pth n
      else c' = restate c (t1, fx, t3, t4, p) pth n)"
  using assms
  by (auto simp: createUpcomingDelayedOutputMaps_def db_prims andThen_eq_Inr restate_delayed
        split: option.splits)

lemma delete_apply:
  assumes "DEBUG b" and "updateDatabase c"
  shows "deleteObsoleteDelayedOutputMaps b (restate c (t1, fx, t3, t4, p) pth n) pb DiffApply = Inr c' \<longleftrightarrow>
     (if MaturityDelay b < Height pb
      then t4 (Height pb) = Some fmempty \<and> c' = restate c (t1, fx, t3, t4(Height pb := None), p) pth n
      else c' = restate c (t1, fx, t3, t4, p) pth n)"
  using assms
  by (auto simp: deleteObsoleteDelayedOutputMaps_def db_prims andThen_eq_Inr restate_delayed
        fcard_fempty split: option.splits)

lemma delete_revert:
  assumes "DEBUG b" and "updateDatabase c"
  shows "deleteObsoleteDelayedOutputMaps b (restate c (t1, fx, t3, t4, p) pth n) pb DiffRevert = Inr c' \<longleftrightarrow>
     t4 (Height pb + MaturityDelay b) = Some fmempty \<and>
     c' = restate c (t1, fx, t3, t4(Height pb + MaturityDelay b := None), p) pth n"
  using assms
  by (auto simp: deleteObsoleteDelayedOutputMaps_def db_prims andThen_eq_Inr restate_delayed
        fcard_fempty split: option.splits)

lemma update_apply:
  assumes "DEBUG b" and "updateDatabase c"
  shows "updateCurrentPath b (restate c T pth n) pb DiffApply = Inr c' \<longleftrightarrow>
     ioErr (db c) OpPushPath = None \<and> c' = restate c T (pth @ [blk_ID (pb_Block pb)]) (n + 1)"
  using assms
  by (auto simp: updateCurrentPath_def pushPath_def andThen_eq_Inr restate_path
        split: option.splits sum.splits)

lemma update_revert:
  assumes "DEBUG b" and "updateDatabase c"
  shows "updateCurrentPath b (restate c T pth n) pb DiffRevert = Inr c' \<longleftrightarrow>
     ioErr (db c) OpPopPath = None \<and> pth \<noteq> [] \<and> c' = restate c T (butlast pth) (n - 1)"
  using assms
  by (auto simp: updateCurrentPath_def popPath_def andThen_eq_Inr restate_path
        split: option.splits sum.splits if_splits)

lemma node_any:
  assumes "DEBUG b" and "updateDatabase c"
  shows "commitNodeDiffs b (restate c T pth n) pb dir = Inr c' \<longleftrightarrow>
     (\<exists>T'. forEach (diffStep dir) (nodeDiffs pb dir) T = Inr T' \<and> c' = restate c T' pth n)"
  using assms
  by (auto simp: commitNodeDiffs_nodeDiffs commitDiffs_steps andThen_eq_Inr)

subsection \<open>Applying, reverting and applying a diff set again\<close>

lemma sanity_apply:
  assumes "DEBUG b"
  shows "commitDiffSetSanity b c pb DiffApply = Inr u \<longleftrightarrow>
     DiffsGenerated pb \<and> path (db c) \<noteq> [] \<and>
     (\<exists>parent. blockMap (db c) (Parent pb) = Some parent \<and>
        blk_ID (pb_Block parent) = last (path (db c)))"
  using assms
  by (auto simp: commitDiffSetSanity_def getBlockMap_def currentBlockID_def andThen_eq_Inr
        split: option.splits if_splits)

lemma sanity_revert:
  assumes "DEBUG b"
  shows "commitDiffSetSanity b c pb DiffRevert = Inr u \<longleftrightarrow>
     DiffsGenerated pb \<and> path (db c) \<noteq> [] \<and> blk_ID (pb_Block pb) = last (path (db c))"
  using assms
  by (auto simp: commitDiffSetSanity_def currentBlockID_def andThen_eq_Inr split: if_splits)

lemma commitDiffSet_apply_tables:
  assumes d: "DEBUG b" and u: "updateDatabase c"
  shows "commitDiffSet b (restate c (t1, fx, t3, t4, p) pth n) pb DiffApply = Inr c' \<longleftrightarrow>
     DiffsGenerated pb \<and> pth \<noteq> [] \<and>
     (\<exists>parent. blockMap (db c) (Parent pb) = Some parent \<and> blk_ID (pb_Block parent) = last pth) \<and>
     t4 (Height pb + MaturityDelay b) = None \<and> ioErr (db c) OpPushPath = None \<and>
     (\<exists>t1' fx' t3' t4' p'.
        forEach (scStep DiffApply) (SiacoinOutputDiffs pb) t1 = Inr t1' \<and>
        forEach (fcStep DiffApply) (FileContractDiffs pb) fx = Inr fx' \<and>
        forEach (sfStep DiffApply) (SiafundOutputDiffs pb) t3 = Inr t3' \<and>
        forEach (dsStep DiffApply) (DelayedSiacoinOutputDiffs pb)
          (t4(Height pb + MaturityDelay b \<mapsto> fmempty)) = Inr t4' \<and>
        forEach (poolStep DiffApply) (SiafundPoolDiffs pb) p = Inr p' \<and>
        (MaturityDelay b < Height pb \<longrightarrow> t4' (Height pb) = Some fmempty) \<and>
        c' = restate c (t1', fx', t3',
               if MaturityDelay b < Height pb then t4'(Height pb := None) else t4', p')
               (pth @ [blk_ID (pb_Block pb)]) (n + 1))"
  (is "?L \<longleftrightarrow> ?R")
proof
  assume ?L
  then obtain c1 c2 c3 where
    0: "commitDiffSetSanity b (restate c (t1, fx, t3, t4, p) pth n) pb DiffApply = Inr ()" and
    1: "createUpcomingDelayedOutputMaps b (restate c (t1, fx, t3, t4, p) pth n) pb DiffApply = Inr c1" and
    2: "commitNodeDiffs b c1 pb DiffApply = Inr c2" and
    3: "deleteObsoleteDelayedOutputMaps b c2 pb DiffApply = Inr c3" and
    4: "updateCurrentPath b c3 pb DiffApply = Inr c'"
    by (auto simp: commitDiffSet_def andThen_eq_Inr)
  from 1 have c1: "t4 (Height pb + MaturityDelay b) = None"
    "c1 = restate c (t1, fx, t3, t4(Height pb + MaturityDelay b \<mapsto> fmempty), p) pth n"
    by (simp_all add: create_apply [OF d u])
  from 2 obtain t1' fx' t3' t4' p' where
    r: "forEach (diffStep DiffApply) (nodeDiffs pb DiffApply)
          (t1, fx, t3, t4(Height pb + MaturityDelay b \<mapsto> fmempty), p) = Inr (t1', fx', t3', t4', p')"
    and c2: "c2 = restate c (t1', fx', t3', t4', p') pth n"
    unfolding c1(2) node_any [OF d u] by (metis prod_cases5)
  from 3 have c3: "MaturityDelay b < Height pb \<longrightarrow> t4' (Height pb) = Some fmempty"
    "c3 = restate c (t1', fx', t3',
            if MaturityDelay b < Height pb then t4'(Height pb := None) else t4', p') pth n"
    unfolding c2 delete_apply [OF d u] by (auto split: if_splits)
  from 4 have c4: "ioErr (db c) OpPushPath = None"
    "c' = restate c (t1', fx', t3',
            if MaturityDelay b < Height pb then t4'(Height pb := None) else t4', p')
            (pth @ [blk_ID (pb_Block pb)]) (n + 1)"
    unfolding c3(2) update_apply [OF d u] by simp_all
  from 0 c1 r c3 c4 show ?R
    by (simp add: sanity_apply [OF d] forEach_diffStep nodeDiffs_def inOrder_def)
next
  assume ?R
  then obtain t1' fx' t3' t4' p' where
    s: "DiffsGenerated pb" "pth \<noteq> []"
      "\<exists>parent. blockMap (db c) (Parent pb) = Some parent \<and> blk_ID (pb_Block parent) = last pth"
    and k: "t4 (Height pb + MaturityDelay b) = None" "ioErr (db c) OpPushPath = None"
    and r: "forEach (scStep DiffApply) (SiacoinOutputDiffs pb) t1 = Inr t1'"
        "forEach (fcStep DiffApply) (FileContractDiffs pb) fx = Inr fx'"
        "forEach (sfStep DiffApply) (SiafundOutputDiffs pb) t3 = Inr t3'"
        "forEach (dsStep DiffApply) (DelayedSiacoinOutputDiffs pb)
          (t4(Height pb + MaturityDelay b \<mapsto> fmempty)) = Inr t4'"
        "forEach (poolStep DiffApply) (SiafundPoolDiffs pb) p = Inr p'"
    and e: "MaturityDelay b < Height pb \<longrightarrow> t4' (Height pb) = Some fmempty"
    and c': "c' = restate c (t1', fx', t3',
               if MaturityDelay b < Height pb then t4'(Height pb := None) else t4', p')
               (pth @ [blk_ID (pb_Block pb)]) (n + 1)"
    by blast
  have 0: "commitDiffSetSanity b (restate c (t1, fx, t3, t4, p) pth n) pb DiffApply = Inr ()"
    using s by (simp add: sanity_apply [OF d])
  have 1: "createUpcomingDelayedOutputMaps b (restate c (t1, fx, t3, t4, p) pth n) pb DiffApply
      = Inr (restate c (t1, fx, t3, t4(Height pb + MaturityDelay b \<mapsto> fmempty), p) pth n)"
    using k by (simp add: create_apply [OF d u])
  have 2: "commitNodeDiffs b (restate c (t1, fx, t3, t4(Height pb + MaturityDelay b \<mapsto> fmempty), p) pth n)
      pb DiffApply = Inr (restate c (t1', fx', t3', t4', p') pth n)"
    using r by (simp add: node_any [OF d u] forEach_diffStep nodeDiffs_def inOrder_def)
  have 3: "deleteObsoleteDelayedOutputMaps b (restate c (t1', fx', t3', t4', p') pth n) pb DiffApply
      = Inr (restate c (t1', fx', t3',
               if MaturityDelay b < Height pb then t4'(Height pb := None) else t4', p') pth n)"
    using e by (simp add: delete_apply [OF d u])
  have 4: "updateCurrentPath b (restate c (t1', fx', t3',
               if MaturityDelay b < Height pb then t4'(Height pb := None) else t4', p') pth n)
      pb DiffApply = Inr c'"
    using k c' by (simp add: update_apply [OF d u])
  from 0 1 2 3 4 show ?L by (simp add: commitDiffSet_def)
qed


lemma commitDiffSet_revert_tables:
  assumes d: "DEBUG b" and u: "updateDatabase c"
  shows "commitDiffSet b (restate c (t1, fx, t3, t4, p) pth n) pb DiffRevert = Inr c' \<longleftrightarrow>
     DiffsGenerated pb \<and> pth \<noteq> [] \<and> blk_ID (pb_Block pb) = last pth \<and>
     (MaturityDelay b < Height pb \<longrightarrow> t4 (Height pb) = None) \<and> ioErr (db c) OpPopPath = None \<and>
     (\<exists>t1' fx' t3' t4' p'.
        forEach (scStep DiffRevert) (rev (SiacoinOutputDiffs pb)) t1 = Inr t1' \<and>
        forEach (fcStep DiffRevert) (rev (FileContractDiffs pb)) fx = Inr fx' \<and>
        forEach (sfStep DiffRevert) (rev (SiafundOutputDiffs pb)) t3 = Inr t3' \<and>
        forEach (dsStep DiffRevert) (rev (DelayedSiacoinOutputDiffs pb))
          (if MaturityDelay b < Height pb then t4(Height pb \<mapsto> fmempty) else t4) = Inr t4' \<and>
        forEach (poolStep DiffRevert) (rev (SiafundPoolDiffs pb)) p = Inr p' \<and>
        t4' (Height pb + MaturityDelay b) = Some fmempty \<and>
        c' = restate c (t1', fx', t3', t4'(Height pb + MaturityDelay b := None), p')
               (butlast pth) (n - 1))"
  (is "?L \<longleftrightarrow> ?R")
proof
  let ?t4 = "if MaturityDelay b < Height pb then t4(Height pb \<mapsto> fmempty) else t4"
  assume ?L
  then obtain c1 c2 c3 where
    0: "commitDiffSetSanity b (restate c (t1, fx, t3, t4, p) pth n) pb DiffRevert = Inr ()" and
    1: "createUpcomingDelayedOutputMaps b (restate c (t1, fx, t3, t4, p) pth n) pb DiffRevert = Inr c1" and
    2: "commitNodeDiffs b c1 pb DiffRevert = Inr c2" and
    3: "deleteObsoleteDelayedOutputMaps b c2 pb DiffRevert = Inr c3" and
    4: "updateCurrentPath b c3 pb DiffRevert = Inr c'"
    by (auto simp: commitDiffSet_def andThen_eq_Inr)
  from 1 have c1: "MaturityDelay b < Height pb \<longrightarrow> t4 (Height pb) = None"
    "c1 = restate c (t1, fx, t3, ?t4, p) pth n"
    by (auto simp: create_revert [OF d u] split: if_splits)
  from 2 obtain t1' fx' t3' t4' p' where
    r: "forEach (diffStep DiffRevert) (nodeDiffs pb DiffRevert) (t1, fx, t3, ?t4, p)
          = Inr (t1', fx', t3', t4', p')"
    and c2: "c2 = restate c (t1', fx', t3', t4', p') pth n"
    unfolding c1(2) node_any [OF d u] by (metis prod_cases5)
  from 3 have c3: "t4' (Height pb + MaturityDelay b) = Some fmempty"
    "c3 = restate c (t1', fx', t3', t4'(Height pb + MaturityDelay b := None), p') pth n"
    unfolding c2 delete_revert [OF d u] by simp_all
  from 4 have c4: "ioErr (db c) OpPopPath = None" "pth \<noteq> []"
    "c' = restate c (t1', fx', t3', t4'(Height pb + MaturityDelay b := None), p') (butlast pth) (n - 1)"
    unfolding c3(2) update_revert [OF d u] by simp_all
  from r have r': "forEach (scStep DiffRevert) (rev (SiacoinOutputDiffs pb)) t1 = Inr t1'"
        "forEach (fcStep DiffRevert) (rev (FileContractDiffs pb)) fx = Inr fx'"
        "forEach (sfStep DiffRevert) (rev (SiafundOutputDiffs pb)) t3 = Inr t3'"
        "forEach (dsStep DiffRevert) (rev (DelayedSiacoinOutputDiffs pb)) ?t4 = Inr t4'"
        "forEach (poolStep DiffRevert) (rev (SiafundPoolDiffs pb)) p = Inr p'"
    by (simp_all add: forEach_diffStep nodeDiffs_def inOrder_def)
  from 0 have s: "DiffsGenerated pb" "blk_ID (pb_Block pb) = last pth"
    by (simp_all add: sanity_revert [OF d])
  from s c1(1) c4 c3(1) r' show ?R by blast
next
  let ?t4 = "if MaturityDelay b < Height pb then t4(Height pb \<mapsto> fmempty) else t4"
  assume ?R
  then obtain t1' fx' t3' t4' p' where
    s: "DiffsGenerated pb" "pth \<noteq> []" "blk_ID (pb_Block pb) = last pth"
    and k: "MaturityDelay b < Height pb \<longrightarrow> t4 (Height pb) = None" "ioErr (db c) OpPopPath = None"
    and r: "forEach (scStep DiffRevert) (rev (SiacoinOutputDiffs pb)) t1 = Inr t1'"
        "forEach (fcStep DiffRevert) (rev (FileContractDiffs pb)) fx = Inr fx'"
        "forEach (sfStep DiffRevert) (rev (SiafundOutputDiffs pb)) t3 = Inr t3'"
        "forEach (dsStep DiffRevert) (rev (DelayedSiacoinOutputDiffs pb)) ?t4 = Inr t4'"
        "forEach (poolStep DiffRevert) (rev (SiafundPoolDiffs pb)) p = Inr p'"
    and e: "t4' (Height pb + MaturityDelay b) = Some fmempty"
    and c': "c' = restate c (t1', fx', t3', t4'(Height pb + MaturityDelay b := None), p')
               (butlast pth) (n - 1)"
    by blast
  have 0: "commitDiffSetSanity b (restate c (t1, fx, t3, t4, p) pth n) pb DiffRevert = Inr ()"
    using s by (simp add: sanity_revert [OF d])
  have 1: "createUpcomingDelayedOutputMaps b (restate c (t1, fx, t3, t4, p) pth n) pb DiffRevert
      = Inr (restate c (t1, fx, t3, ?t4, p) pth n)"
    using k by (simp add: create_revert [OF d u])
  have 2: "commitNodeDiffs b (restate c (t1, fx, t3, ?t4, p) pth n) pb DiffRevert
      = Inr (restate c (t1', fx', t3', t4', p') pth n)"
    using r by (simp add: node_any [OF d u] forEach_diffStep nodeDiffs_def inOrder_def)
  have 3: "deleteObsoleteDelayedOutputMaps b (restate c (t1', fx', t3', t4', p') pth n) pb DiffRevert
      = Inr (restate c (t1', fx', t3', t4'(Height pb + MaturityDelay b := None), p') pth n)"
    using e by (simp add: delete_revert [OF d u])
  have 4: "updateCurrentPath b (restate c (t1', fx', t3', t4'(Height pb + MaturityDelay b := None), p') pth n)
      pb DiffRevert = Inr c'"
    using k s c' by (simp add: update_revert [OF d u])
  from 0 1 2 3 4 show ?L by (simp add: commitDiffSet_def)
qed


lemma restate_expirations:
  assumes "tablesOf s = (t1, (f, x), t3, t4, p)"
  shows "restate s (t1, (f, y), t3, t4, p) (path (db s)) (blocksLoaded s)
     = s\<lparr>db := (db s)\<lparr>fcExpirations := y\<rparr>, fileContractExpirations := y\<rparr>"
  using assms by (auto simp: restate_def tablesOf_def withTables_def)

lemma apply_revert_apply:
  assumes d: "DEBUG b" and u: "updateDatabase s"
    and sy: "fileContractExpirations s = fcExpirations (db s)"
    and io: "ioErr (db s) OpPopPath = None"
    and r1: "scodsRecord (siacoinOutputs (db s)) (SiacoinOutputDiffs pb)"
    and r2: "fcdsRecord (fileContracts (db s)) (FileContractDiffs pb)"
    and r3: "sfodsRecord (siafundOutputs (db s)) (SiafundOutputDiffs pb)"
    and r4: "dscodsRecord ((delayedSiacoinOutputs (db s))(Height pb + MaturityDelay b \<mapsto> fmempty))
               (DelayedSiacoinOutputDiffs pb)"
    and a: "commitDiffSet b s pb DiffApply = Inr s1"
  shows "\<exists>s2 x2. commitDiffSet b s1 pb DiffRevert = Inr s2
      \<and> s2 = s\<lparr>db := (db s)\<lparr>fcExpirations := x2\<rparr>, fileContractExpirations := x2\<rparr>
      \<and> emptyBucketsAdded (newWindowEnds (FileContractDiffs pb)) (fcExpirations (db s)) x2
      \<and> commitDiffSet b s2 pb DiffApply = Inr s1"
proof -
  let ?H = "Height pb" and ?M = "MaturityDelay b"
  let ?pth = "path (db s)" and ?n = "blocksLoaded s" and ?id = "blk_ID (pb_Block pb)"
  obtain t1 f x t3 t4 p where T: "tablesOf s = (t1, (f, x), t3, t4, p)"
    by (metis prod_cases5 surj_pair)
  then have tt: "siacoinOutputs (db s) = t1" "fileContracts (db s) = f" "fcExpirations (db s) = x"
    "siafundOutputs (db s) = t3" "delayedSiacoinOutputs (db s) = t4"
    by (auto simp: tablesOf_def)
  have s: "restate s (t1, (f, x), t3, t4, p) ?pth ?n = s"
    using restate_self [OF sy] T by simp
  have a': "commitDiffSet b (restate s (t1, (f, x), t3, t4, p) ?pth ?n) pb DiffApply = Inr s1"
    using a by (simp add: s)
  from a' [unfolded commitDiffSet_apply_tables [OF d u]]
  obtain t1' f' x' t3' t4' p' parent where
    g: "DiffsGenerated pb" "?pth \<noteq> []" "blockMap (db s) (Parent pb) = Some parent"
       "blk_ID (pb_Block parent) = last ?pth"
    and k: "t4 (?H + ?M) = None" "ioErr (db s) OpPushPath = None"
    and r: "forEach (scStep DiffApply) (SiacoinOutputDiffs pb) t1 = Inr t1'"
        "forEach (fcStep DiffApply) (FileContractDiffs pb) (f, x) = Inr (f', x')"
        "forEach (sfStep DiffApply) (SiafundOutputDiffs pb) t3 = Inr t3'"
        "forEach (dsStep DiffApply) (DelayedSiacoinOutputDiffs pb) (t4(?H + ?M \<mapsto> fmempty)) = Inr t4'"
        "forEach (poolStep DiffApply) (SiafundPoolDiffs pb) p = Inr p'"
    and e: "?M < ?H \<longrightarrow> t4' ?H = Some fmempty"
    and s1: "s1 = restate s (t1', (f', x'), t3', if ?M < ?H then t4'(?H := None) else t4', p')
               (?pth @ [?id]) (?n + 1)"
    by (elim conjE exE) (metis surj_pair)
  let ?t4s = "if ?M < ?H then t4'(?H := None) else t4'"
  have b1: "forEach (scStep DiffRevert) (rev (SiacoinOutputDiffs pb)) t1' = Inr t1"
    using scods_roundtrip [OF r(1)] r1 tt by simp
  have b3: "forEach (sfStep DiffRevert) (rev (SiafundOutputDiffs pb)) t3' = Inr t3"
    using sfods_roundtrip [OF r(3)] r3 tt by simp
  have t4s: "(if ?M < ?H then ?t4s(?H \<mapsto> fmempty) else ?t4s) = t4'"
    using e by (auto simp: map_upd_triv)
  have b4: "forEach (dsStep DiffRevert) (rev (DelayedSiacoinOutputDiffs pb))
              (if ?M < ?H then ?t4s(?H \<mapsto> fmempty) else ?t4s) = Inr (t4(?H + ?M \<mapsto> fmempty))"
    unfolding t4s using dscods_roundtrip [OF r(4)] r4 tt by simp
  have b5: "forEach (poolStep DiffRevert) (rev (SiafundPoolDiffs pb)) p' = Inr p"
    by (rule pool_roundtrip [OF r(5)])
  from fcds_roundtrip [OF r(2), of "{}" x'] r2 tt obtain y where
    b2: "forEach (fcStep DiffRevert) (rev (FileContractDiffs pb)) (f', x') = Inr (f, y)"
    and ey: "emptyBucketsAdded (newWindowEnds (FileContractDiffs pb)) x y"
    by auto
  let ?s2 = "restate s (t1, (f, y), t3, t4, p) ?pth ?n"
  have t4r: "(t4(?H + ?M \<mapsto> fmempty))(?H + ?M := None) = t4"
    using k(1) by auto
  have rv: "commitDiffSet b s1 pb DiffRevert = Inr ?s2"
    unfolding s1 commitDiffSet_revert_tables [OF d u]
    using g io b1 b2 b3 b4 b5 t4r by auto
  from fcds_again [OF r(2) ey] obtain y1 where
    a2: "forEach (fcStep DiffApply) (FileContractDiffs pb) (f, y) = Inr (f', y1)"
    and "emptyBucketsAdded (newWindowEnds (FileContractDiffs pb) - newWindowEnds (FileContractDiffs pb)) x' y1"
    by blast
  then have y1: "y1 = x'" by simp
  have ap: "commitDiffSet b ?s2 pb DiffApply = Inr s1"
    unfolding s1 commitDiffSet_apply_tables [OF d u]
    using g k r(1,3,4,5) a2 e y1 by auto
  have "?s2 = s\<lparr>db := (db s)\<lparr>fcExpirations := y\<rparr>, fileContractExpirations := y\<rparr>"
    by (rule restate_expirations [OF T])
  with rv ap ey tt show ?thesis by auto
qed

lemmas exFC_defs = exBlockFC_def exCSFC_def

text \<open>
  A block whose diff set creates a file contract with a window end at which there is no
  bucket of expirations: applying the diff set creates the bucket, reverting it empties
  the bucket and leaves it behind, in the database and in memory. The consensus set after
  the revert is not the one before the apply.
\<close>

theorem commitDiffSet_roundtrip_counterexample:
  "commitDiffSet exBuild exCS exBlockFC DiffApply = Inr exCSFC
   \<and> commitDiffSet exBuild exCSFC exBlockFC DiffRevert
       = Inr (exCS\<lparr>db := exDB\<lparr>fcExpirations := [9 \<mapsto> {}]\<rparr>, fileContractExpirations := [9 \<mapsto> {}]\<rparr>)
   \<and> fcExpirations (db (exCS\<lparr>db := exDB\<lparr>fcExpirations := [9 \<mapsto> {}]\<rparr>,
                              fileContractExpirations := [9 \<mapsto> {}]\<rparr>)) 9 = Some {}
   \<and> fcExpirations (db exCS) 9 = None"
  by (simp add: ex_defs exFC_defs commit_defs db_prims commitFileContractDiff_def Let_def)

text \<open>
  Claim C1, amended. In a debug build, for a consensus set with \<^verbatim>\<open>updateDatabase\<close> set whose
  in-memory expirations agree with the database, and a block whose diff set records the
  entries it deletes: if committing the diff set in the Apply direction returns, then
  committing it in the Revert direction from the resulting state returns as well (the store
  reporting no error for \<^verbatim>\<open>popPath\<close>) and restores the state before the apply (the
  tables of siacoin outputs, file contracts and siafund outputs, the buckets of delayed
  outputs, the pool, the current path, the number of loaded blocks and everything else)
  except that the buckets of file-contract expirations that the apply has created stay,
  empty; and applying the diff set once more yields the state after the first apply again,
  exactly.
\<close>

theorem commitDiffSet_roundtrip:
  assumes "DEBUG b" and "updateDatabase s"
    and "fileContractExpirations s = fcExpirations (db s)"
    and "ioErr (db s) OpPopPath = None"
    and "scodsRecord (siacoinOutputs (db s)) (SiacoinOutputDiffs pb)"
    and "fcdsRecord (fileContracts (db s)) (FileContractDiffs pb)"
    and "sfodsRecord (siafundOutputs (db s)) (SiafundOutputDiffs pb)"
    and "dscodsRecord ((delayedSiacoinOutputs (db s))(Height pb + MaturityDelay b \<mapsto> fmempty))
           (DelayedSiacoinOutputDiffs pb)"
    and "commitDiffSet b s pb DiffApply = Inr s1"
  shows "\<exists>s2 x2. commitDiffSet b s1 pb DiffRevert = Inr s2
      \<and> s2 = s\<lparr>db := (db s)\<lparr>fcExpirations := x2\<rparr>, fileContractExpirations := x2\<rparr>
      \<and> emptyBucketsAdded (newWindowEnds (FileContractDiffs pb)) (fcExpirations (db s)) x2
      \<and> commitDiffSet b s2 pb DiffApply = Inr s1"
  using assms by (rule apply_revert_apply)

theorem commitDiffSet_roundtrip_witness:
  "DEBUG exBuild \<and> updateDatabase exCS \<and> fileContractExpirations exCS = fcExpirations (db exCS)
   \<and> ioErr (db exCS) OpPopPath = None
   \<and> fcdsRecord (fileContracts (db exCS)) (FileContractDiffs exBlockFC)
   \<and> commitDiffSet exBuild exCS exBlockFC DiffApply = Inr exCSFC
   \<and> (\<exists>s2 x2. commitDiffSet exBuild exCSFC exBlockFC DiffRevert = Inr s2
        \<and> s2 = exCS\<lparr>db := (db exCS)\<lparr>fcExpirations := x2\<rparr>, fileContractExpirations := x2\<rparr>
        \<and> emptyBucketsAdded (newWindowEnds (FileContractDiffs exBlockFC)) (fcExpirations (db exCS)) x2
        \<and> commitDiffSet exBuild s2 exBlockFC DiffApply = Inr exCSFC)"
proof -
  have h: "DEBUG exBuild" "updateDatabase exCS" "fileContractExpirations exCS = fcExpirations (db exCS)"
    "ioErr (db exCS) OpPopPath = None"
    "scodsRecord (siacoinOutputs (db exCS)) (SiacoinOutputDiffs exBlockFC)"
    "fcdsRecord (fileContracts (db exCS)) (FileContractDiffs exBlockFC)"
    "sfodsRecord (siafundOutputs (db exCS)) (SiafundOutputDiffs exBlockFC)"
    "dscodsRecord ((delayedSiacoinOutputs (db exCS))(Height exBlockFC + MaturityDelay exBuild \<mapsto> fmempty))
           (DelayedSiacoinOutputDiffs exBlockFC)"
    by (simp_all add: ex_defs exFC_defs)
  have a: "commitDiffSet exBuild exCS exBlockFC DiffApply = Inr exCSFC"
    by (simp add: ex_defs exFC_defs commit_defs db_prims commitFileContractDiff_def Let_def)
  from commitDiffSet_roundtrip [OF h a] h a show ?thesis by simp
qed

subsection \<open>A block with an invalid transaction\<close>

lemma appendDiff_fields [simp]:
  "pb_Block (appendDiff p d) = pb_Block p" "Height (appendDiff p d) = Height p"
  "Parent (appendDiff p d) = Parent p" "DiffsGenerated (appendDiff p d) = DiffsGenerated p"
  by (cases d; simp)+

lemma appendDiff_lists:
  "SiacoinOutputDiffs (appendDiff p d) = SiacoinOutputDiffs p @ scodsOf [d]"
  "FileContractDiffs (appendDiff p d) = FileContractDiffs p @ fcdsOf [d]"
  "SiafundOutputDiffs (appendDiff p d) = SiafundOutputDiffs p @ sfodsOf [d]"
  "DelayedSiacoinOutputDiffs (appendDiff p d) = DelayedSiacoinOutputDiffs p @ dscodsOf [d]"
  "SiafundPoolDiffs (appendDiff p d) = SiafundPoolDiffs p @ sfpdsOf [d]"
  by (cases d; simp)+

lemma foldl_appendDiff_fields [simp]:
  "pb_Block (foldl appendDiff p D) = pb_Block p" "Height (foldl appendDiff p D) = Height p"
  "Parent (foldl appendDiff p D) = Parent p" "DiffsGenerated (foldl appendDiff p D) = DiffsGenerated p"
  by (induction D arbitrary: p; simp)+

lemma foldl_appendDiff_lists:
  "SiacoinOutputDiffs (foldl appendDiff p D) = SiacoinOutputDiffs p @ scodsOf D"
  "FileContractDiffs (foldl appendDiff p D) = FileContractDiffs p @ fcdsOf D"
  "SiafundOutputDiffs (foldl appendDiff p D) = SiafundOutputDiffs p @ sfodsOf D"
  "DelayedSiacoinOutputDiffs (foldl appendDiff p D) = DelayedSiacoinOutputDiffs p @ dscodsOf D"
  "SiafundPoolDiffs (foldl appendDiff p D) = SiafundPoolDiffs p @ sfpdsOf D"
proof (induction D arbitrary: p)
  case Nil
  { case 1 show ?case by simp next case 2 show ?case by simp next case 3 show ?case by simp
    next case 4 show ?case by simp next case 5 show ?case by simp }
next
  case (Cons d D)
  have c: "d # D = [d] @ D" by simp
  { case 1 show ?case by (simp add: Cons.IH appendDiff_lists) (subst c, simp only: kindsOf_append)
    next case 2 show ?case by (simp add: Cons.IH appendDiff_lists) (subst c, simp only: kindsOf_append)
    next case 3 show ?case by (simp add: Cons.IH appendDiff_lists) (subst c, simp only: kindsOf_append)
    next case 4 show ?case by (simp add: Cons.IH appendDiff_lists) (subst c, simp only: kindsOf_append)
    next case 5 show ?case by (simp add: Cons.IH appendDiff_lists) (subst c, simp only: kindsOf_append) }
qed

lemma emit_tables:
  assumes d: "DEBUG b" and u: "updateDatabase c"
  shows "forEach (emitDiff b) D (restate c T pth n, p) = Inr (c', p') \<longleftrightarrow>
     (\<exists>T'. forEach (diffStep DiffApply) D T = Inr T' \<and> c' = restate c T' pth n \<and>
           p' = foldl appendDiff p D)"
proof (induction D arbitrary: T p)
  case Nil show ?case by auto
next
  case (Cons x D)
  have st: "commitDiff b (restate c T pth n) x DiffApply =
      andThen (diffStep DiffApply T x) (\<lambda>T'. Inr (restate c T' pth n))"
    using commitDiff_step [OF d, of "restate c T pth n" x DiffApply] u by simp
  show ?case
  proof (cases "diffStep DiffApply T x")
    case (Inl e) then show ?thesis by (simp add: emitDiff_def st)
  next
    case (Inr T1)
    then show ?thesis using Cons.IH [of T1 "appendDiff p x"] by (simp add: emitDiff_def st)
  qed
qed


lemma loop_rejects:
  "transactionsValid hs c p ts1 \<Longrightarrow> applyTransactions hs c p ts1 = Inr (ck, pk) \<Longrightarrow>
   validTransaction hs ck t = Some e \<Longrightarrow>
     generateAndApplyDiff_loop b hs c p (ts1 @ t # ts2) =
       andThen (applyMaturedSiacoinOutputs hs ck pk) (\<lambda>(cs, pb).
       andThen (commitDiffSet b cs pb DiffRevert) (\<lambda>cs.
       andThen (deleteNode hs (cs\<lparr>dosBlocks := insert (blk_ID (pb_Block pb)) (dosBlocks cs)\<rparr>) pb) (\<lambda>cs.
       Inr (Some e, cs, pb))))"
proof (induction ts1 arbitrary: c p)
  case Nil then show ?case by simp
next
  case (Cons x ts1)
  from Cons.prems(2) obtain c1 p1 where 1: "applyTransaction hs c p x = Inr (c1, p1)"
    and 2: "applyTransactions hs c1 p1 ts1 = Inr (ck, pk)"
    by (auto simp: andThen_eq_Inr)
  from Cons.prems(1) 1 have v: "validTransaction hs c x = None" "transactionsValid hs c1 p1 ts1"
    by simp_all
  from Cons.IH [OF v(2) 2 Cons.prems(3)] v(1) 1 show ?case by simp
qed

lemma applyTransactions_emit:
  assumes "applyTransaction hs = spec_applyTransaction b txnDiffs"
  shows "applyTransactions hs c p ts = Inr (ck, pk) \<Longrightarrow>
     \<exists>D. forEach (emitDiff b) D (c, p) = Inr (ck, pk)"
proof (induction ts arbitrary: c p)
  case Nil
  then have "forEach (emitDiff b) [] (c, p) = Inr (ck, pk)" by simp
  then show ?case by blast
next
  case (Cons x ts)
  from Cons.prems obtain c1 p1 where 1: "applyTransaction hs c p x = Inr (c1, p1)"
    and 2: "applyTransactions hs c1 p1 ts = Inr (ck, pk)"
    by (auto simp: andThen_eq_Inr)
  from Cons.IH [OF 2] obtain D where D: "forEach (emitDiff b) D (c1, p1) = Inr (ck, pk)" by blast
  from 1 have "forEach (emitDiff b) (txnDiffs c x) (c, p) = Inr (c1, p1)"
    by (simp add: assms spec_applyTransaction_def)
  with D have "forEach (emitDiff b) (txnDiffs c x @ D) (c, p) = Inr (ck, pk)"
    by (simp add: forEach_append)
  then show ?case by blast
qed

lemma matured_emit:
  assumes "spec_applyMaturedSiacoinOutputs b ck pk = Inr (cm, pm)"
  shows "\<exists>D c'. forEach (emitDiff b) D (ck, pk) = Inr (c', pm) \<and>
           (if MaturityDelay b < Height pk
            then deleteObsoleteDelayedOutputMaps b c' pm DiffApply = Inr cm else cm = c')"
proof (cases "MaturityDelay b < Height pk")
  case False
  with assms have "forEach (emitDiff b) [] (ck, pk) = Inr (cm, pm)"
    by (simp add: spec_applyMaturedSiacoinOutputs_def)
  with False show ?thesis by (intro exI [of _ "[]"] exI [of _ cm]) simp
next
  case True
  with assms show ?thesis
    by (auto simp: spec_applyMaturedSiacoinOutputs_def andThen_eq_Inr)
qed

lemma forEach_forEach:
  "forEach f D s = Inr s1 \<Longrightarrow> forEach f D' s1 = Inr s2 \<Longrightarrow> forEach f (D @ D') s = Inr s2"
  by (simp add: forEach_append)

lemma revert_core:
  assumes d: "DEBUG b" and u: "updateDatabase c"
    and g: "DiffsGenerated pb" and io: "ioErr (db c) OpPopPath = None"
    and k: "t4 (Height pb + MaturityDelay b) = None"
    and r: "forEach (scStep DiffApply) (SiacoinOutputDiffs pb) t1 = Inr t1'"
        "forEach (fcStep DiffApply) (FileContractDiffs pb) (f, x) = Inr (f', x')"
        "forEach (sfStep DiffApply) (SiafundOutputDiffs pb) t3 = Inr t3'"
        "forEach (dsStep DiffApply) (DelayedSiacoinOutputDiffs pb)
           (t4(Height pb + MaturityDelay b \<mapsto> fmempty)) = Inr t4'"
        "forEach (poolStep DiffApply) (SiafundPoolDiffs pb) p = Inr p'"
    and e: "MaturityDelay b < Height pb \<longrightarrow> t4' (Height pb) = Some fmempty"
    and r1: "scodsRecord t1 (SiacoinOutputDiffs pb)"
    and r2: "fcdsRecord f (FileContractDiffs pb)"
    and r3: "sfodsRecord t3 (SiafundOutputDiffs pb)"
    and r4: "dscodsRecord (t4(Height pb + MaturityDelay b \<mapsto> fmempty)) (DelayedSiacoinOutputDiffs pb)"
  shows "\<exists>y. commitDiffSet b
           (restate c (t1', (f', x'), t3',
              if MaturityDelay b < Height pb then t4'(Height pb := None) else t4', p')
              (pth @ [blk_ID (pb_Block pb)]) n) pb DiffRevert
          = Inr (restate c (t1, (f, y), t3, t4, p) pth (n - 1))
        \<and> emptyBucketsAdded (newWindowEnds (FileContractDiffs pb)) x y"
proof -
  let ?H = "Height pb" and ?M = "MaturityDelay b"
  let ?t4s = "if ?M < ?H then t4'(?H := None) else t4'"
  have b1: "forEach (scStep DiffRevert) (rev (SiacoinOutputDiffs pb)) t1' = Inr t1"
    by (rule scods_roundtrip [OF r(1) r1])
  have b3: "forEach (sfStep DiffRevert) (rev (SiafundOutputDiffs pb)) t3' = Inr t3"
    by (rule sfods_roundtrip [OF r(3) r3])
  have t4s: "(if ?M < ?H then ?t4s(?H \<mapsto> fmempty) else ?t4s) = t4'"
    using e by (auto simp: map_upd_triv)
  have b4: "forEach (dsStep DiffRevert) (rev (DelayedSiacoinOutputDiffs pb))
              (if ?M < ?H then ?t4s(?H \<mapsto> fmempty) else ?t4s) = Inr (t4(?H + ?M \<mapsto> fmempty))"
    unfolding t4s by (rule dscods_roundtrip [OF r(4) r4])
  have b5: "forEach (poolStep DiffRevert) (rev (SiafundPoolDiffs pb)) p' = Inr p"
    by (rule pool_roundtrip [OF r(5)])
  from fcds_roundtrip [OF r(2) r2, of "{}" x'] obtain y where
    b2: "forEach (fcStep DiffRevert) (rev (FileContractDiffs pb)) (f', x') = Inr (f, y)"
    and ey: "emptyBucketsAdded (newWindowEnds (FileContractDiffs pb)) x y"
    by auto
  have t4r: "(t4(?H + ?M \<mapsto> fmempty))(?H + ?M := None) = t4"
    using k by auto
  have "commitDiffSet b (restate c (t1', (f', x'), t3', ?t4s, p') (pth @ [blk_ID (pb_Block pb)]) n)
          pb DiffRevert = Inr (restate c (t1, (f, y), t3, t4, p) pth (n - 1))"
    unfolding commitDiffSet_revert_tables [OF d u]
    using g io b1 b2 b3 b4 b5 t4r by auto
  with ey show ?thesis by blast
qed


lemma generateAndApplyDiff_loop_result:
  assumes "\<not> (DEBUG b \<and> DiffsGenerated pb)"
    and "DEBUG b \<longrightarrow> currentBlockID cs = Inr (Parent pb)"
    and "pushPath (db cs) (blk_ID (pb_Block pb)) = Inr d1"
    and "addDelayedSiacoinOutputs d1 (Height pb + MaturityDelay b) = Inr d2"
    and "generateAndApplyDiff_loop b hs (cs\<lparr>blocksLoaded := blocksLoaded cs + 1, db := d2\<rparr>)
           (pb\<lparr>DiffsGenerated := True\<rparr>) (Transactions (pb_Block pb)) = Inr (Some e, cf, pf)"
  shows "generateAndApplyDiff b hs cs pb = Inr (Some e, cf, pf)"
  using assms
  by (auto simp: generateAndApplyDiff_def Let_def simp del: generateAndApplyDiff_loop.simps)

lemma restate_forward:
  assumes "fileContractExpirations cs = fcExpirations (db cs)"
    and "tablesOf cs = (t1, fx, t3, t4, p)"
  shows "cs\<lparr>blocksLoaded := n, db := (db cs)\<lparr>path := pth\<rparr>\<lparr>delayedSiacoinOutputs := t4'\<rparr>\<rparr>
       = restate cs (t1, fx, t3, t4', p) pth n"
  using assms by (auto simp: restate_def tablesOf_def withTables_def)

lemma restate_rejected:
  assumes "tablesOf cs = (t1, (f, x), t3, t4, p)"
  shows "(restate cs (t1, (f, y), t3, t4, p) (path (db cs)) (blocksLoaded cs))
           \<lparr>dosBlocks := D\<rparr>
       = cs\<lparr>db := (db cs)\<lparr>fcExpirations := y\<rparr>, fileContractExpirations := y, dosBlocks := D\<rparr>"
  using assms by (auto simp: restate_def tablesOf_def withTables_def)

lemma restate_db:
  assumes "tablesOf cs = (t1, (f, x), t3, t4, p)"
  shows "db (restate cs (t1, (f, y), t3, t4, p) (path (db cs)) n) = (db cs)\<lparr>fcExpirations := y\<rparr>"
  using assms by (auto simp: restate_def tablesOf_def withTables_def)

lemma rejected_block_restored:
  assumes d: "DEBUG b" and u: "updateDatabase cs"
    and sy: "fileContractExpirations cs = fcExpirations (db cs)"
    and io: "ioErr (db cs) OpPopPath = None"
    and hs1: "applyTransaction hs = spec_applyTransaction b txnDiffs"
    and hs2: "applyMaturedSiacoinOutputs hs = spec_applyMaturedSiacoinOutputs b"
    and hs3: "deleteNode hs = spec_deleteNode"
    and ng: "\<not> DiffsGenerated pb"
    and emp: "SiacoinOutputDiffs pb = []" "FileContractDiffs pb = []" "SiafundOutputDiffs pb = []"
      "DelayedSiacoinOutputDiffs pb = []" "SiafundPoolDiffs pb = []"
    and tip: "currentBlockID cs = Inr (Parent pb)"
    and pu: "ioErr (db cs) OpPushPath = None"
    and nb: "delayedSiacoinOutputs (db cs) (Height pb + MaturityDelay b) = None"
    and txns: "Transactions (pb_Block pb) = ts1 @ t # ts2"
    and c2: "c2 = cs\<lparr>blocksLoaded := blocksLoaded cs + 1,
               db := (db cs)\<lparr>path := path (db cs) @ [blk_ID (pb_Block pb)]\<rparr>
                     \<lparr>delayedSiacoinOutputs :=
                        (delayedSiacoinOutputs (db cs))(Height pb + MaturityDelay b \<mapsto> fmempty)\<rparr>\<rparr>"
    and p1: "p1 = pb\<lparr>DiffsGenerated := True\<rparr>"
    and v: "transactionsValid hs c2 p1 ts1"
    and a: "applyTransactions hs c2 p1 ts1 = Inr (ck, pk)"
    and inv: "validTransaction hs ck t = Some e"
    and m: "applyMaturedSiacoinOutputs hs ck pk = Inr (cm, pm)"
    and r1: "scodsRecord (siacoinOutputs (db cs)) (SiacoinOutputDiffs pm)"
    and r2: "fcdsRecord (fileContracts (db cs)) (FileContractDiffs pm)"
    and r3: "sfodsRecord (siafundOutputs (db cs)) (SiafundOutputDiffs pm)"
    and r4: "dscodsRecord ((delayedSiacoinOutputs (db cs))(Height pb + MaturityDelay b \<mapsto> fmempty))
               (DelayedSiacoinOutputDiffs pm)"
  shows "\<exists>x2. generateAndApplyDiff b hs cs pb =
            Inr (Some e,
                 cs\<lparr>db := (db cs)\<lparr>fcExpirations := x2,
                                   blockMap := (blockMap (db cs))(blk_ID (pb_Block pb) := None)\<rparr>,
                    fileContractExpirations := x2,
                    dosBlocks := insert (blk_ID (pb_Block pb)) (dosBlocks cs)\<rparr>,
                 pm)
          \<and> emptyBucketsAdded (newWindowEnds (FileContractDiffs pm)) (fcExpirations (db cs)) x2"
proof -
  let ?H = "Height pb" and ?M = "MaturityDelay b"
  let ?pth = "path (db cs)" and ?n = "blocksLoaded cs" and ?id = "blk_ID (pb_Block pb)"
  obtain t1 f x t3 t4 p where T: "tablesOf cs = (t1, (f, x), t3, t4, p)"
    by (metis prod_cases5 surj_pair)
  then have tt: "siacoinOutputs (db cs) = t1" "fileContracts (db cs) = f" "fcExpirations (db cs) = x"
    "siafundOutputs (db cs) = t3" "delayedSiacoinOutputs (db cs) = t4"
    by (auto simp: tablesOf_def)
  have c2r: "c2 = restate cs (t1, (f, x), t3, t4(?H + ?M \<mapsto> fmempty), p) (?pth @ [?id]) (?n + 1)"
    unfolding c2 using restate_forward [OF sy T] tt by simp
  from applyTransactions_emit [OF hs1 a] obtain D1 where
    D1: "forEach (emitDiff b) D1 (c2, p1) = Inr (ck, pk)" by blast
  from m have m': "spec_applyMaturedSiacoinOutputs b ck pk = Inr (cm, pm)" by (simp add: hs2)
  from matured_emit [OF m'] obtain D2 c' where
    D2: "forEach (emitDiff b) D2 (ck, pk) = Inr (c', pm)"
    and del: "if ?M < Height pk then deleteObsoleteDelayedOutputMaps b c' pm DiffApply = Inr cm else cm = c'"
    by blast
  from D1 have pk: "pk = foldl appendDiff p1 D1"
    unfolding c2r emit_tables [OF d u] by blast
  then have hk: "Height pk = ?H" by (simp add: p1)
  have "forEach (emitDiff b) (D1 @ D2) (c2, p1) = Inr (c', pm)"
    by (rule forEach_forEach [OF D1 D2])
  then obtain T' where
    run: "forEach (diffStep DiffApply) (D1 @ D2) (t1, (f, x), t3, t4(?H + ?M \<mapsto> fmempty), p) = Inr T'"
    and c': "c' = restate cs T' (?pth @ [?id]) (?n + 1)"
    and pm: "pm = foldl appendDiff p1 (D1 @ D2)"
    unfolding c2r emit_tables [OF d u] by blast
  obtain t1' f' x' t3' t4' p' where T': "T' = (t1', (f', x'), t3', t4', p')"
    by (metis prod_cases5 surj_pair)
  have pmf: "Height pm = ?H" "pb_Block pm = pb_Block pb" "DiffsGenerated pm"
    by (simp_all add: pm p1)
  have pml: "SiacoinOutputDiffs pm = scodsOf (D1 @ D2)" "FileContractDiffs pm = fcdsOf (D1 @ D2)"
    "SiafundOutputDiffs pm = sfodsOf (D1 @ D2)" "DelayedSiacoinOutputDiffs pm = dscodsOf (D1 @ D2)"
    "SiafundPoolDiffs pm = sfpdsOf (D1 @ D2)"
    unfolding pm foldl_appendDiff_lists by (simp_all add: p1 emp)
  from run have r: "forEach (scStep DiffApply) (SiacoinOutputDiffs pm) t1 = Inr t1'"
        "forEach (fcStep DiffApply) (FileContractDiffs pm) (f, x) = Inr (f', x')"
        "forEach (sfStep DiffApply) (SiafundOutputDiffs pm) t3 = Inr t3'"
        "forEach (dsStep DiffApply) (DelayedSiacoinOutputDiffs pm)
           (t4(Height pm + ?M \<mapsto> fmempty)) = Inr t4'"
        "forEach (poolStep DiffApply) (SiafundPoolDiffs pm) p = Inr p'"
    unfolding T' forEach_diffStep pml pmf by simp_all
  from del have e: "?M < Height pm \<longrightarrow> t4' (Height pm) = Some fmempty"
    and cm: "cm = restate cs (t1', (f', x'), t3',
                    if ?M < Height pm then t4'(Height pm := None) else t4', p')
                    (?pth @ [blk_ID (pb_Block pm)]) (?n + 1)"
    unfolding hk c' T' pmf by (auto simp: delete_apply [OF d u] pmf split: if_splits)
  from revert_core [OF d u pmf(3) io _ r e, of ?pth "?n + 1"] r1 r2 r3 r4 nb tt pmf
  obtain y where
    rv: "commitDiffSet b cm pm DiffRevert = Inr (restate cs (t1, (f, y), t3, t4, p) ?pth (?n + 1 - 1))"
    and ey: "emptyBucketsAdded (newWindowEnds (FileContractDiffs pm)) x y"
    unfolding cm by auto
  have "generateAndApplyDiff_loop b hs c2 p1 (ts1 @ t # ts2) =
      Inr (Some e,
           cs\<lparr>db := (db cs)\<lparr>fcExpirations := y, blockMap := (blockMap (db cs))(?id := None)\<rparr>,
              fileContractExpirations := y, dosBlocks := insert ?id (dosBlocks cs)\<rparr>, pm)"
    unfolding loop_rejects [OF v a inv] m
    using rv by (simp add: hs3 spec_deleteNode_def pmf restate_rejected [OF T] restate_db [OF T])
  then have "generateAndApplyDiff b hs cs pb =
      Inr (Some e,
           cs\<lparr>db := (db cs)\<lparr>fcExpirations := y, blockMap := (blockMap (db cs))(?id := None)\<rparr>,
              fileContractExpirations := y, dosBlocks := insert ?id (dosBlocks cs)\<rparr>, pm)"
    by (intro generateAndApplyDiff_loop_result
          [where ?d1.0 = "(db cs)\<lparr>path := path (db cs) @ [?id]\<rparr>"
             and ?d2.0 = "(db cs)\<lparr>path := path (db cs) @ [?id]\<rparr>
                     \<lparr>delayedSiacoinOutputs := (delayedSiacoinOutputs (db cs))(?H + ?M \<mapsto> fmempty)\<rparr>"])
       (simp_all add: ng tip pu nb pushPath_def addDelayedSiacoinOutputs_def txns c2 p1)
  with ey tt show ?thesis by blast
qed

lemma exRejects:
  "\<exists>ck. applyTransactions (exHelpers exBuild)
      ((exCS1 [exTxnA, exTxnB])\<lparr>blocksLoaded := blocksLoaded (exCS1 [exTxnA, exTxnB]) + 1,
         db := (db (exCS1 [exTxnA, exTxnB]))\<lparr>path := path (db (exCS1 [exTxnA, exTxnB])) @ [1]\<rparr>
                 \<lparr>delayedSiacoinOutputs :=
                    (delayedSiacoinOutputs (db (exCS1 [exTxnA, exTxnB])))(1 + 3 \<mapsto> fmempty)\<rparr>\<rparr>)
      ((exNewBlock [exTxnA, exTxnB])\<lparr>DiffsGenerated := True\<rparr>) [exTxnA] = Inr (ck, exRejected)
    \<and> siacoinOutputs (db ck) 1 = None"
  by (simp add: ex_defs exTxn_defs exRejected_def spec_defs db_prims single_defs Let_def)

text \<open>
  A block of two transactions: the first spends output 1 and creates a file contract whose
  window ends at height 9, the second spends output 1 again and is rejected. The call
  returns the error of the second transaction, the id of the block is in
  \<^verbatim>\<open>dosBlocks\<close> and the block is out of the block map, but the consensus set is not
  the one before the call: the bucket of expirations of height 9, which the first
  transaction has created, is still there, empty.
\<close>

theorem generateAndApplyDiff_rejects_counterexample:
  "generateAndApplyDiff exBuild (exHelpers exBuild) (exCS1 [exTxnA, exTxnB]) (exNewBlock [exTxnA, exTxnB])
   = Inr (Some (errInvalidTransaction 0),
          (exCS1 [exTxnA, exTxnB])
            \<lparr>db := (db (exCS1 [exTxnA, exTxnB]))
                     \<lparr>fcExpirations := [9 \<mapsto> {}],
                      blockMap := (blockMap (db (exCS1 [exTxnA, exTxnB])))(1 := None)\<rparr>,
             fileContractExpirations := [9 \<mapsto> {}],
             dosBlocks := {1}\<rparr>,
          exRejected)
   \<and> fcExpirations (db (exCS1 [exTxnA, exTxnB])) 9 = None
   \<and> fileContractExpirations (exCS1 [exTxnA, exTxnB]) 9 = None"
  by (simp add: generateAndApplyDiff_def ex_defs exTxn_defs exRejected_def spec_defs commit_defs db_prims
        single_defs Let_def)

text \<open>
  Claim C2, amended. Let \<^verbatim>\<open>applyTransaction\<close>, \<^verbatim>\<open>applyMaturedSiacoinOutputs\<close> and
  \<^verbatim>\<open>deleteNode\<close> be as the specification describes them, the build a debug build,
  \<^verbatim>\<open>updateDatabase\<close> set, the in-memory expirations equal to those of the database, and
  \<open>pb\<close> a block without diffs on top of the current block whose transactions up to some
  transaction \<open>t\<close> validate and apply, while \<open>t\<close> is rejected with the error \<open>e\<close>. If the
  maturing of the delayed outputs then returns, and the diffs that the block carries at
  that point record the entries they delete, then \<^verbatim>\<open>generateAndApplyDiff\<close> returns
  \<open>e\<close> (the revert of the diffs cannot fail, the store reporting no error for
  \<^verbatim>\<open>pushPath\<close> and \<^verbatim>\<open>popPath\<close>), and on return the consensus set is the one
  before the call (all tables, the buckets of delayed outputs, the pool, the current path
  and the number of loaded blocks) except that the id of the block is in
  \<^verbatim>\<open>dosBlocks\<close>, the block is not in the block map, and the buckets of file-contract
  expirations that the applied transactions have created stay, empty.
\<close>

theorem generateAndApplyDiff_rejects:
  assumes "DEBUG b" and "updateDatabase cs"
    and "fileContractExpirations cs = fcExpirations (db cs)"
    and "ioErr (db cs) OpPopPath = None"
    and "applyTransaction hs = spec_applyTransaction b txnDiffs"
    and "applyMaturedSiacoinOutputs hs = spec_applyMaturedSiacoinOutputs b"
    and "deleteNode hs = spec_deleteNode"
    and "\<not> DiffsGenerated pb"
    and "SiacoinOutputDiffs pb = []" "FileContractDiffs pb = []" "SiafundOutputDiffs pb = []"
      "DelayedSiacoinOutputDiffs pb = []" "SiafundPoolDiffs pb = []"
    and "currentBlockID cs = Inr (Parent pb)"
    and "ioErr (db cs) OpPushPath = None"
    and "delayedSiacoinOutputs (db cs) (Height pb + MaturityDelay b) = None"
    and "Transactions (pb_Block pb) = ts1 @ t # ts2"
    and "c2 = cs\<lparr>blocksLoaded := blocksLoaded cs + 1,
               db := (db cs)\<lparr>path := path (db cs) @ [blk_ID (pb_Block pb)]\<rparr>
                     \<lparr>delayedSiacoinOutputs :=
                        (delayedSiacoinOutputs (db cs))(Height pb + MaturityDelay b \<mapsto> fmempty)\<rparr>\<rparr>"
    and "p1 = pb\<lparr>DiffsGenerated := True\<rparr>"
    and "transactionsValid hs c2 p1 ts1"
    and "applyTransactions hs c2 p1 ts1 = Inr (ck, pk)"
    and "validTransaction hs ck t = Some e"
    and "applyMaturedSiacoinOutputs hs ck pk = Inr (cm, pm)"
    and "scodsRecord (siacoinOutputs (db cs)) (SiacoinOutputDiffs pm)"
    and "fcdsRecord (fileContracts (db cs)) (FileContractDiffs pm)"
    and "sfodsRecord (siafundOutputs (db cs)) (SiafundOutputDiffs pm)"
    and "dscodsRecord ((delayedSiacoinOutputs (db cs))(Height pb + MaturityDelay b \<mapsto> fmempty))
           (DelayedSiacoinOutputDiffs pm)"
  shows "\<exists>x2. generateAndApplyDiff b hs cs pb =
            Inr (Some e,
                 cs\<lparr>db := (db cs)\<lparr>fcExpirations := x2,
                                   blockMap := (blockMap (db cs))(blk_ID (pb_Block pb) := None)\<rparr>,
                    fileContractExpirations := x2,
                    dosBlocks := insert (blk_ID (pb_Block pb)) (dosBlocks cs)\<rparr>,
                 pm)
          \<and> emptyBucketsAdded (newWindowEnds (FileContractDiffs pm)) (fcExpirations (db cs)) x2"
  using assms by (rule rejected_block_restored)

theorem generateAndApplyDiff_rejects_witness:
  "DEBUG exBuild \<and> updateDatabase (exCS1 [exTxnA, exTxnB])
   \<and> \<not> DiffsGenerated (exNewBlock [exTxnA, exTxnB])
   \<and> Transactions (pb_Block (exNewBlock [exTxnA, exTxnB])) = [exTxnA] @ exTxnB # []
   \<and> (\<exists>x2. generateAndApplyDiff exBuild (exHelpers exBuild) (exCS1 [exTxnA, exTxnB])
              (exNewBlock [exTxnA, exTxnB])
           = Inr (Some (errInvalidTransaction 0),
                  (exCS1 [exTxnA, exTxnB])
                    \<lparr>db := (db (exCS1 [exTxnA, exTxnB]))
                             \<lparr>fcExpirations := x2,
                              blockMap := (blockMap (db (exCS1 [exTxnA, exTxnB])))
                                (blk_ID (pb_Block (exNewBlock [exTxnA, exTxnB])) := None)\<rparr>,
                     fileContractExpirations := x2,
                     dosBlocks := insert (blk_ID (pb_Block (exNewBlock [exTxnA, exTxnB])))
                                    (dosBlocks (exCS1 [exTxnA, exTxnB]))\<rparr>,
                  exRejected)
         \<and> emptyBucketsAdded (newWindowEnds (FileContractDiffs exRejected))
              (fcExpirations (db (exCS1 [exTxnA, exTxnB]))) x2)"
proof -
  let ?cs = "exCS1 [exTxnA, exTxnB]" and ?pb = "exNewBlock [exTxnA, exTxnB]"
  let ?hs = "exHelpers exBuild"
  let ?c2 = "?cs\<lparr>blocksLoaded := blocksLoaded ?cs + 1,
               db := (db ?cs)\<lparr>path := path (db ?cs) @ [blk_ID (pb_Block ?pb)]\<rparr>
                     \<lparr>delayedSiacoinOutputs :=
                        (delayedSiacoinOutputs (db ?cs))(Height ?pb + MaturityDelay exBuild \<mapsto> fmempty)\<rparr>\<rparr>"
  have h: "DEBUG exBuild" "updateDatabase ?cs" "fileContractExpirations ?cs = fcExpirations (db ?cs)"
    "ioErr (db ?cs) OpPopPath = None"
    "applyTransaction ?hs = spec_applyTransaction exBuild exTxnDiffs"
    "applyMaturedSiacoinOutputs ?hs = spec_applyMaturedSiacoinOutputs exBuild"
    "deleteNode ?hs = spec_deleteNode"
    "\<not> DiffsGenerated ?pb"
    "SiacoinOutputDiffs ?pb = []" "FileContractDiffs ?pb = []" "SiafundOutputDiffs ?pb = []"
    "DelayedSiacoinOutputDiffs ?pb = []" "SiafundPoolDiffs ?pb = []"
    "currentBlockID ?cs = Inr (Parent ?pb)"
    "ioErr (db ?cs) OpPushPath = None"
    "delayedSiacoinOutputs (db ?cs) (Height ?pb + MaturityDelay exBuild) = None"
    "Transactions (pb_Block ?pb) = [exTxnA] @ exTxnB # []"
    by (simp_all add: ex_defs exTxn_defs currentBlockID_def)
  have k: "blk_ID (pb_Block ?pb) = 1" "Height ?pb + MaturityDelay exBuild = 1 + 3" "Height exRejected = 1"
    by (simp_all add: ex_defs exTxn_defs exRejected_def)
  obtain ck where a: "applyTransactions ?hs ?c2 (?pb\<lparr>DiffsGenerated := True\<rparr>) [exTxnA] = Inr (ck, exRejected)"
    and i: "siacoinOutputs (db ck) 1 = None"
    using exRejects unfolding k by (elim exE conjE)
  have v: "transactionsValid ?hs ?c2 (?pb\<lparr>DiffsGenerated := True\<rparr>) [exTxnA]"
    by (simp add: ex_defs exTxn_defs split: sum.splits)
  have inv: "validTransaction ?hs ck exTxnB = Some (errInvalidTransaction 0)"
    using i by (simp add: exHelpers_def exValidTransaction_def exTxnB_def)
  have m: "applyMaturedSiacoinOutputs ?hs ck exRejected = Inr (ck, exRejected)"
    using k by (simp add: exHelpers_def spec_applyMaturedSiacoinOutputs_def exBuild_def)
  have r: "scodsRecord (siacoinOutputs (db ?cs)) (SiacoinOutputDiffs exRejected)"
    "fcdsRecord (fileContracts (db ?cs)) (FileContractDiffs exRejected)"
    "sfodsRecord (siafundOutputs (db ?cs)) (SiafundOutputDiffs exRejected)"
    "dscodsRecord ((delayedSiacoinOutputs (db ?cs))(Height ?pb + MaturityDelay exBuild \<mapsto> fmempty))
           (DelayedSiacoinOutputDiffs exRejected)"
    by (simp_all add: ex_defs exTxn_defs exRejected_def)
  from generateAndApplyDiff_rejects [OF h refl refl v a inv m r] h(1,2,8,17) show ?thesis
    by simp
qed

end
